theory Spec2Isabelle
  imports Complex_Main "HOL-Library.Sublist"
begin

section \<open>Errors, instants and durations\<close>

text \<open>
  A Go \<^verbatim>\<open>error\<close> value. \<^verbatim>\<open>errors.New\<close> and \<^verbatim>\<open>fmt.Errorf\<close> without \<^verbatim>\<open>%w\<close> give
  \<open>Error msg\<close>; \<^verbatim>\<open>fmt.Errorf("...: %w", err)\<close> and \<^verbatim>\<open>errors.Wrap\<close> give \<open>Wrap msg err\<close>;
  the object store answers with a status error, whose reason is NotFound or anything else.
\<close>

datatype error =
    Error string
  | Wrap string error
  | StatusNotFound string
  | StatusError string

text \<open>\<^verbatim>\<open>apierrors.IsNotFound\<close> looks through wrapped errors for a NotFound status.\<close>

fun IsNotFound :: "error \<Rightarrow> bool" where
  "IsNotFound (StatusNotFound m) = True"
| "IsNotFound (Wrap m e) = IsNotFound e"
| "IsNotFound (Error m) = False"
| "IsNotFound (StatusError m) = False"

text \<open>
  A \<^verbatim>\<open>time.Time\<close> is an instant, counted in nanoseconds since the Unix epoch; a
  \<^verbatim>\<open>time.Duration\<close> is an int64 count of nanoseconds. \<^verbatim>\<open>Time.Sub\<close> is documented to
  return the maximum (or minimum) duration when the difference cannot be stored in a
  Duration.
\<close>

type_synonym Time = int
type_synonym Duration = int

definition maxDuration :: Duration where
  "maxDuration = 2 ^ 63 - 1"

definition minDuration :: Duration where
  "minDuration = - (2 ^ 63)"

definition Second :: Duration where
  "Second = 1000000000"

definition Minute :: Duration where
  "Minute = 60 * Second"

text \<open>
  Arithmetic on int64 wraps around, and Go's integer division truncates towards zero.
\<close>

definition wrap64 :: "int \<Rightarrow> int" where
  "wrap64 x = (x + 2 ^ 63) mod 2 ^ 64 - 2 ^ 63"

definition quo :: "int \<Rightarrow> int \<Rightarrow> int" where
  "quo a b = sgn a * sgn b * (\<bar>a\<bar> div \<bar>b\<bar>)"

text \<open>
  \<^verbatim>\<open>time.Unix(sec, nsec)\<close>. The nanoseconds are first brought into the range of one second.
  A Time then holds the seconds since January 1 of year 1 in an int64: the sum of \<open>sec\<close>
  and \<open>unixToInternal\<close> wraps around when it does not fit, and that second count is the
  one by which Go orders and subtracts Times.
\<close>

definition unixToInternal :: int where
  "unixToInternal = 62135596800"

definition time_Unix :: "int \<Rightarrow> int \<Rightarrow> Time" where
  "time_Unix sec nsec =
     (let n = (if nsec < 0 \<or> nsec \<ge> 1000000000 then quo nsec 1000000000 else 0);
          sec1 = wrap64 (sec + n);
          nsec1 = nsec - n * 1000000000;
          sec2 = (if nsec1 < 0 then wrap64 (sec1 - 1) else sec1);
          nsec2 = (if nsec1 < 0 then nsec1 + 1000000000 else nsec1)
      in (wrap64 (sec2 + unixToInternal) - unixToInternal) * 1000000000 + nsec2)"

text \<open>The zero \<^verbatim>\<open>time.Time\<close> is January 1 of year 1, 62135596800 seconds before the epoch.\<close>

definition zeroTime :: Time where
  "zeroTime = time_Unix (- 62135596800) 0"

definition time_Add :: "Time \<Rightarrow> Duration \<Rightarrow> Time" where
  "time_Add t d = t + d"

definition time_Sub :: "Time \<Rightarrow> Time \<Rightarrow> Duration" where
  "time_Sub t u =
     (if t - u > maxDuration then maxDuration
      else if t - u < minDuration then minDuration
      else t - u)"

section \<open>Access tokens and the refresh delay\<close>

record AccessToken =
  Token :: string
  ExpiresOn :: Time

text \<open>The zero value \<^verbatim>\<open>azcore.AccessToken{}\<close>.\<close>

definition AccessToken_zero :: AccessToken where
  "AccessToken_zero = \<lparr>Token = [], ExpiresOn = zeroTime\<rparr>"

definition tokenRefreshBuffer :: Duration where
  "tokenRefreshBuffer = Minute * 30"

text \<open>\<^verbatim>\<open>getTokenRefreshDuration\<close>; the reading of \<^verbatim>\<open>time.Now()\<close> is the first argument.\<close>

definition getTokenRefreshDuration :: "Time \<Rightarrow> AccessToken \<Rightarrow> Duration" where
  "getTokenRefreshDuration now accessToken =
     (let refreshDuration = time_Sub (ExpiresOn accessToken) (time_Add now tokenRefreshBuffer)
      in if refreshDuration < 0 then 0 else refreshDuration)"

section \<open>Decoding the expiry claim\<close>

text \<open>
  \<^verbatim>\<open>strconv.ParseUint(s, 10, 64)\<close>: digits are read from the left; a byte that is not a
  decimal digit is a syntax error with value 0, an overflow is a range error with the
  largest uint64.
\<close>

datatype NumError = ErrSyntax | ErrRange

definition maxUint64 :: nat where
  "maxUint64 = 2 ^ 64 - 1"

definition isDigit :: "char \<Rightarrow> bool" where
  "isDigit c = (48 \<le> (of_char c :: nat) \<and> (of_char c :: nat) \<le> 57)"

definition digitVal :: "char \<Rightarrow> nat" where
  "digitVal c = of_char c - 48"

fun ParseUint_loop :: "nat \<Rightarrow> string \<Rightarrow> nat \<times> NumError option" where
  "ParseUint_loop n [] = (n, None)"
| "ParseUint_loop n (c # cs) =
     (if \<not> isDigit c then (0, Some ErrSyntax)
      else if n \<ge> maxUint64 div 10 + 1 then (maxUint64, Some ErrRange)
      else if n * 10 + digitVal c > maxUint64 then (maxUint64, Some ErrRange)
      else ParseUint_loop (n * 10 + digitVal c) cs)"

definition ParseUint :: "string \<Rightarrow> nat \<times> NumError option" where
  "ParseUint s = (if s = [] then (0, Some ErrSyntax) else ParseUint_loop 0 s)"

text \<open>
  \<^verbatim>\<open>strconv.ParseInt(s, 10, 64)\<close>: an optional sign, then \<^verbatim>\<open>ParseUint\<close>. A syntax error
  gives 0, a range error gives the nearest int64.
\<close>

definition ParseInt :: "string \<Rightarrow> int \<times> NumError option" where
  "ParseInt s =
     (if s = [] then (0, Some ErrSyntax)
      else
        let neg = (hd s = CHR ''-'');
            s' = (if hd s = CHR ''+'' \<or> hd s = CHR ''-'' then tl s else s);
            (un, err) = ParseUint s'
        in if err = Some ErrSyntax then (0, err)
           else if \<not> neg \<and> un \<ge> 2 ^ 63 then (2 ^ 63 - 1, Some ErrRange)
           else if neg \<and> un > 2 ^ 63 then (- (2 ^ 63), Some ErrRange)
           else (if neg then - int un else int un, None))"

text \<open>\<^verbatim>\<open>json.Number.Int64\<close> is \<^verbatim>\<open>strconv.ParseInt(string(n), 10, 64)\<close>.\<close>

definition Number_Int64 :: "string \<Rightarrow> int \<times> NumError option" where
  "Number_Int64 n = ParseInt n"

text \<open>
  A JSON document as it is written: a number is its literal text. The values that
  \<^verbatim>\<open>encoding/json\<close> decodes a document to, in an \<^verbatim>\<open>interface{}\<close>: a number becomes a
  \<^verbatim>\<open>float64\<close>, or a \<^verbatim>\<open>json.Number\<close> holding the literal when the decoder is told to use
  numbers. A \<^verbatim>\<open>float64\<close> is given by its (finite) mathematical value: JSON decoding yields
  no NaN and no infinity.
\<close>

datatype json_text =
    TNumber string
  | TString string
  | TBool bool
  | TNull
  | TArray "json_text list"
  | TObject "(string \<times> json_text) list"

datatype json_value =
    JFloat64 rat
  | JNumber string
  | JString string
  | JBool bool
  | JNull
  | JArray "json_value list"
  | JObject "(string \<times> json_value) list"

text \<open>
  The number that a string of decimal digits denotes, and the reading of a JSON number
  literal (an optional minus sign, digits without a needless leading zero, an optional
  fraction, an optional exponent) as sign, digits and decimal exponent: the literal
  denotes plus or minus \<open>n * 10 ^ k\<close>.
\<close>

definition decimalValue :: "string \<Rightarrow> nat" where
  "decimalValue s = foldl (\<lambda>n c. n * 10 + digitVal c) 0 s"

definition parseExponent :: "string \<Rightarrow> int option" where
  "parseExponent s =
     (let neg = (s \<noteq> [] \<and> hd s = CHR ''-'');
          ds = (if s \<noteq> [] \<and> (hd s = CHR ''+'' \<or> hd s = CHR ''-'') then tl s else s)
      in if ds \<noteq> [] \<and> list_all isDigit ds
         then Some (if neg then - int (decimalValue ds) else int (decimalValue ds))
         else None)"

definition parseNumber :: "string \<Rightarrow> (bool \<times> nat \<times> int) option" where
  "parseNumber s =
     (let neg = (s \<noteq> [] \<and> hd s = CHR ''-'');
          s1 = (if neg then tl s else s);
          ip = takeWhile isDigit s1;
          s2 = dropWhile isDigit s1;
          dot = (s2 \<noteq> [] \<and> hd s2 = CHR ''.'');
          fp = (if dot then takeWhile isDigit (tl s2) else []);
          s3 = (if dot then dropWhile isDigit (tl s2) else s2)
      in if ip = [] \<or> (length ip > 1 \<and> hd ip = CHR ''0'') \<or> (dot \<and> fp = []) then None
         else
           (case (if s3 = [] then Some 0
                  else if hd s3 = CHR ''e'' \<or> hd s3 = CHR ''E'' then parseExponent (tl s3)
                  else None) of
              None \<Rightarrow> None
            | Some ex \<Rightarrow> Some (neg, decimalValue (ip @ fp), ex - int (length fp))))"

text \<open>
  \<^verbatim>\<open>strconv.ParseFloat(s, 64)\<close> on a JSON number literal: the float64 nearest to the
  number, a tie going to the even mantissa (IEEE 754), and a range error (\<open>None\<close>) when
  that is beyond the largest float64. \<open>roundFloat64 num den\<close> rounds the positive
  fraction \<open>num / den\<close>: the mantissa has 53 bits, the exponent of its last bit is at
  least -1074.
\<close>

fun bitlen :: "nat \<Rightarrow> nat" where
  "bitlen n = (if n = 0 then 0 else Suc (bitlen (n div 2)))"

declare bitlen.simps [simp del]

definition roundHalfEven :: "nat \<Rightarrow> nat \<Rightarrow> nat" where
  "roundHalfEven n d =
     (let q = n div d; r = n mod d
      in if 2 * r < d then q
         else if 2 * r > d then q + 1
         else if even q then q else q + 1)"

definition roundFloat64 :: "nat \<Rightarrow> nat \<Rightarrow> rat option" where
  "roundFloat64 num den =
     (let c = int (bitlen num) - int (bitlen den);
          fl = (if (if c \<ge> 0 then 2 ^ nat c * den \<le> num else den \<le> 2 ^ nat (- c) * num)
                then c else c - 1);
          e = max (fl - 52) (- 1074);
          m = (if e \<ge> 0 then roundHalfEven num (den * 2 ^ nat e)
               else roundHalfEven (num * 2 ^ nat (- e)) den)
      in if e > 971 \<or> (e = 971 \<and> m \<ge> 2 ^ 53) then None
         else Some (if e \<ge> 0 then of_nat (m * 2 ^ nat e) else of_nat m / 2 ^ nat (- e)))"

definition ParseFloat64 :: "string \<Rightarrow> rat option" where
  "ParseFloat64 s =
     (case parseNumber s of
        None \<Rightarrow> None
      | Some (neg, n, k) \<Rightarrow>
          if n = 0 then Some 0
          else
            (case (if k \<ge> 0 then roundFloat64 (n * 10 ^ nat k) 1
                   else roundFloat64 n (10 ^ nat (- k))) of
               None \<Rightarrow> None
             | Some v \<Rightarrow> Some (if neg then - v else v)))"

text \<open>
  \<^verbatim>\<open>json.Unmarshal\<close> into an \<^verbatim>\<open>interface{}\<close>, or with \<open>useNumber\<close> a decoder after
  \<^verbatim>\<open>UseNumber()\<close>; \<open>None\<close> is the error for a number that no float64 can hold.
\<close>

fun unmarshal :: "bool \<Rightarrow> json_text \<Rightarrow> json_value option" where
  "unmarshal useNumber (TNumber s) =
     (if useNumber then Some (JNumber s) else map_option JFloat64 (ParseFloat64 s))"
| "unmarshal useNumber (TString s) = Some (JString s)"
| "unmarshal useNumber (TBool b) = Some (JBool b)"
| "unmarshal useNumber TNull = Some JNull"
| "unmarshal useNumber (TArray ts) = map_option JArray (those (map (unmarshal useNumber) ts))"
| "unmarshal useNumber (TObject kvs) =
     map_option JObject
       (those (map (\<lambda>(k, t). map_option (Pair k) (unmarshal useNumber t)) kvs))"

text \<open>
  The conversion \<^verbatim>\<open>int64(exp)\<close> of a float64 discards the fraction (truncation towards
  zero). When the value does not fit an int64 the result is implementation-dependent
  (Go specification, Conversions): the first argument stands for what the platform
  yields then.
\<close>

definition int64_of_float64 :: "(rat \<Rightarrow> int) \<Rightarrow> rat \<Rightarrow> int" where
  "int64_of_float64 platform x =
     (if - (2 ^ 63) \<le> x \<and> x < 2 ^ 63
      then (if 0 \<le> x then \<lfloor>x\<rfloor> else - \<lfloor>- x\<rfloor>)
      else platform x)"

text \<open>An implementation of \<^verbatim>\<open>jwt.Claims\<close>: a \<^verbatim>\<open>jwt.MapClaims\<close> or another one.\<close>

datatype Claims =
    MapClaims "string \<Rightarrow> json_value option"
  | OtherClaims

text \<open>
  The parser of package jwt. \<^verbatim>\<open>NewParser\<close> builds it from its options: numbers are decoded
  as \<^verbatim>\<open>json.Number\<close> only under \<^verbatim>\<open>WithJSONNumber\<close>. \<^verbatim>\<open>ParseUnverified\<close> takes the token
  apart and decodes its claims into the Claims it is handed, entry by entry when that is
  a \<^verbatim>\<open>MapClaims\<close>. Taking the token apart (three segments in base64, the header, its
  signing method, the claims segment as a JSON object) is left to \<open>decode\<close>, which answers
  with the claims object as written, or with the error.
\<close>

datatype ParserOption = WithoutClaimsValidation | WithJSONNumber

record Parser =
  useJSONNumber :: bool
  skipClaimsValidation :: bool

definition NewParser :: "ParserOption list \<Rightarrow> Parser" where
  "NewParser options =
     \<lparr>useJSONNumber = (WithJSONNumber \<in> set options),
      skipClaimsValidation = (WithoutClaimsValidation \<in> set options)\<rparr>"

definition ParseUnverified ::
    "Parser \<Rightarrow> (string \<Rightarrow> error + (string \<times> json_text) list) \<Rightarrow> string \<Rightarrow> Claims
     \<Rightarrow> error + Claims" where
  "ParseUnverified p decode tokenString claims =
     (case decode tokenString of
        Inl err \<Rightarrow> Inl err
      | Inr obj \<Rightarrow>
          (case claims of
             OtherClaims \<Rightarrow> Inr OtherClaims
           | MapClaims c \<Rightarrow>
               (case unmarshal (useJSONNumber p) (TObject obj) of
                  Some (JObject kvs) \<Rightarrow> Inr (MapClaims (c ++ map_of (rev kvs)))
                | _ \<Rightarrow> Inl (Error ''token is malformed: could not JSON decode claim''))))"

record URL =
  url_String :: string
  url_Hostname :: string

text \<open>
  The collaborators of \<^verbatim>\<open>ExchangeACRAccessToken\<close>: URL parsing, the registry's
  authentication client with its two exchanges (each answers with an error or a response
  whose token may be nil), the taking apart of a token for the JWT parser, and what the
  platform's conversion yields for a float64 outside the int64 range.
\<close>

record exchange_deps =
  url_Parse :: "string \<Rightarrow> error + URL"
  NewAuthenticationClient :: "string \<Rightarrow> error + string"
  ExchangeAADAccessTokenForACRRefreshToken ::
    "string \<Rightarrow> string \<Rightarrow> string \<Rightarrow> string \<Rightarrow> error + string option"
  ExchangeACRRefreshTokenForACRAccessToken ::
    "string \<Rightarrow> string \<Rightarrow> string \<Rightarrow> string \<Rightarrow> error + string option"
  DecodeToken :: "string \<Rightarrow> error + (string \<times> json_text) list"
  float64_out_of_range :: "rat \<Rightarrow> int"

text \<open>The type switch on \<^verbatim>\<open>claims["exp"]\<close> (lines 62 to 71 of token\_exchanger.go).\<close>

definition expiry_of_claim :: "(rat \<Rightarrow> int) \<Rightarrow> json_value option \<Rightarrow> error + Time" where
  "expiry_of_claim platform claim =
     (case claim of
        Some (JFloat64 x) \<Rightarrow> Inr (time_Unix (int64_of_float64 platform x) 0)
      | Some (JNumber n) \<Rightarrow> (let (timestamp, _) = Number_Int64 n in Inr (time_Unix timestamp 0))
      | _ \<Rightarrow> Inl (Error ''failed to parse ACR acess token expiration''))"

text \<open>
  Line 52 of the token exchanger: the parser is built with \<^verbatim>\<open>WithoutClaimsValidation\<close>
  alone and is handed an empty \<^verbatim>\<open>MapClaims\<close>.
\<close>

definition parseAccessToken :: "exchange_deps \<Rightarrow> string \<Rightarrow> error + Claims" where
  "parseAccessToken d accessToken =
     ParseUnverified (NewParser [WithoutClaimsValidation]) (DecodeToken d) accessToken
       (MapClaims Map.empty)"

text \<open>
  \<^verbatim>\<open>ExchangeACRAccessToken\<close>. The result is Go's pair of an AccessToken and an error
  (\<open>None\<close> is nil).
\<close>

definition ExchangeACRAccessToken ::
    "exchange_deps \<Rightarrow> AccessToken \<Rightarrow> string \<Rightarrow> AccessToken \<times> error option" where
  "ExchangeACRAccessToken d armToken acrFQDN =
     (case url_Parse d (''https://'' @ acrFQDN) of
        Inl err \<Rightarrow> (AccessToken_zero, Some (Wrap ''failed to parse ACR endpoint'' err))
      | Inr endpoint \<Rightarrow>
     (case NewAuthenticationClient d (url_String endpoint) of
        Inl err \<Rightarrow>
          (AccessToken_zero, Some (Wrap ''failed to create ACR authentication client'' err))
      | Inr client \<Rightarrow>
     (case ExchangeAADAccessTokenForACRRefreshToken d client ''refresh_token''
             (url_Hostname endpoint) (Token armToken) of
        Inl err \<Rightarrow>
          (AccessToken_zero,
           Some (Wrap ''failed to exchange AAD access token for ACR refresh token'' err))
      | Inr None \<Rightarrow>
          (AccessToken_zero,
           Some (Error
             ''got an empty response when exchanging AAD access token for ACR refresh token''))
      | Inr (Some refreshToken) \<Rightarrow>
     (case ExchangeACRRefreshTokenForACRAccessToken d client acrFQDN
             ''repository:*:pull'' refreshToken of
        Inl err \<Rightarrow>
          (AccessToken_zero,
           Some (Wrap ''failed to exchange ACR refresh token for ACR access token'' err))
      | Inr None \<Rightarrow>
          (AccessToken_zero,
           Some (Error
             ''got an empty response when exchanging ACR refresh token for ACR access token''))
      | Inr (Some accessToken) \<Rightarrow>
     (case parseAccessToken d accessToken of
        Inl err \<Rightarrow> (AccessToken_zero, Some (Error ''failed to parse ACR access token''))
      | Inr OtherClaims \<Rightarrow>
          (AccessToken_zero, Some (Error ''unexpected claim type from ACR access token''))
      | Inr (MapClaims claims) \<Rightarrow>
     (case expiry_of_claim (float64_out_of_range d) (claims ''exp'') of
        Inl err \<Rightarrow> (AccessToken_zero, Some err)
      | Inr expiry \<Rightarrow> (\<lparr>Token = accessToken, ExpiresOn = expiry\<rparr>, None)))))))"

section \<open>The authorizer\<close>

text \<open>
  The interface \<^verbatim>\<open>authorizer.Interface\<close>: two ways to acquire a registry access token,
  by the identity's resource ID or by its client ID, each for a registry host.
\<close>

record Auth_Interface =
  AcquireACRAccessTokenWithResourceID :: "string \<Rightarrow> string \<Rightarrow> AccessToken \<times> error option"
  AcquireACRAccessTokenWithClientID :: "string \<Rightarrow> string \<Rightarrow> AccessToken \<times> error option"

datatype ManagedIDKind = ResourceID string | ClientID string

text \<open>
  The \<^verbatim>\<open>Authorizer\<close> of authorizer.go. \<^verbatim>\<open>AcquireARMToken\<close> is not among the sources: it is
  the first argument.
\<close>

definition Authorizer_acquire ::
    "(ManagedIDKind \<Rightarrow> AccessToken \<times> error option) \<Rightarrow> exchange_deps \<Rightarrow>
     ManagedIDKind \<Rightarrow> string \<Rightarrow> AccessToken \<times> error option" where
  "Authorizer_acquire AcquireARMToken d ident acrFQDN =
     (case AcquireARMToken ident of
        (_, Some err) \<Rightarrow> (AccessToken_zero, Some (Wrap ''failed to get ARM access token'' err))
      | (armToken, None) \<Rightarrow> ExchangeACRAccessToken d armToken acrFQDN)"

definition Authorizer ::
    "(ManagedIDKind \<Rightarrow> AccessToken \<times> error option) \<Rightarrow> exchange_deps \<Rightarrow> Auth_Interface" where
  "Authorizer AcquireARMToken d =
     \<lparr>AcquireACRAccessTokenWithResourceID =
        (\<lambda>identityResourceID. Authorizer_acquire AcquireARMToken d (ResourceID identityResourceID)),
      AcquireACRAccessTokenWithClientID =
        (\<lambda>clientID. Authorizer_acquire AcquireARMToken d (ClientID clientID))\<rparr>"

section \<open>\<^verbatim>\<open>path.Clean\<close>\<close>

text \<open>
  \<^verbatim>\<open>path.Clean\<close> of the Go standard library, as its source reads: the path is consumed
  element by element, \<open>out\<close> is the buffer written so far and \<open>dotdot\<close> the index below
  which a \<^verbatim>\<open>..\<close> element cannot backtrack.
\<close>

fun Clean_backtrack :: "string \<Rightarrow> nat \<Rightarrow> nat \<Rightarrow> nat" where
  "Clean_backtrack buf dotdot 0 = 0"
| "Clean_backtrack buf dotdot (Suc w) =
     (if Suc w > dotdot \<and> buf ! Suc w \<noteq> CHR ''/''
      then Clean_backtrack buf dotdot w else Suc w)"

function Clean_loop :: "bool \<Rightarrow> string \<Rightarrow> nat \<Rightarrow> string \<Rightarrow> string" where
  "Clean_loop rooted out dotdot [] = out"
| "Clean_loop rooted out dotdot (c # cs) =
     (if c = CHR ''/'' then Clean_loop rooted out dotdot cs
      else if c = CHR ''.'' \<and> (cs = [] \<or> hd cs = CHR ''/'') then Clean_loop rooted out dotdot cs
      else if c = CHR ''.'' \<and> cs \<noteq> [] \<and> hd cs = CHR ''.''
              \<and> (tl cs = [] \<or> hd (tl cs) = CHR ''/'') then
        (if length out > dotdot
         then Clean_loop rooted
                (take (Clean_backtrack out dotdot (length out - 1)) out) dotdot (tl cs)
         else if \<not> rooted
         then Clean_loop rooted
                ((if length out > 0 then out @ ''/'' else out) @ ''..'')
                (length ((if length out > 0 then out @ ''/'' else out) @ ''..'')) (tl cs)
         else Clean_loop rooted out dotdot (tl cs))
      else
        Clean_loop rooted
          ((if rooted \<and> length out \<noteq> 1 \<or> \<not> rooted \<and> length out \<noteq> 0
            then out @ ''/'' else out) @ takeWhile (\<lambda>x. x \<noteq> CHR ''/'') (c # cs))
          dotdot (dropWhile (\<lambda>x. x \<noteq> CHR ''/'') (c # cs)))"
  by pat_completeness auto
termination
proof (relation "measure (\<lambda>(rooted, out, dotdot, p). length p)")
  fix c :: char and cs :: string
  assume "c \<noteq> CHR ''/''"
  have "length (dropWhile (\<lambda>x. x \<noteq> CHR ''/'') cs) \<le> length cs"
    by (rule length_dropWhile_le)
  then show "((rooted, out', dotdot, dropWhile (\<lambda>x. x \<noteq> CHR ''/'') (c # cs)),
              (rooted, out, dotdot, c # cs))
             \<in> measure (\<lambda>(rooted, out, dotdot, p). length p)"
    for rooted out out' dotdot
    using \<open>c \<noteq> CHR ''/''\<close> by simp
qed (auto simp: less_Suc_eq_le intro: le_trans [OF diff_le_self])

definition path_Clean :: "string \<Rightarrow> string" where
  "path_Clean p =
     (if p = [] then ''.''
      else
        let rooted = (hd p = CHR ''/'');
            out = (if rooted then Clean_loop True ''/'' 1 (tl p) else Clean_loop False [] 0 p)
        in if out = [] then ''.'' else out)"

section \<open>The objects of the cluster\<close>

text \<open>
  The API types (package api/v1beta1 and the Kubernetes core types) are not among the
  sources; the records hold the fields that the reconciler reads and writes, and for a
  Secret also labels, annotations and the type, which it must leave alone. A Go map that
  may be nil is an option.
\<close>

record OwnerReference =
  APIVersion :: string
  Kind :: string
  OwnerName :: string
  Controller :: bool

record ObjectMeta =
  Name :: string
  Namespace :: string
  Labels :: "string \<Rightarrow> string option"
  Annotations :: "string \<Rightarrow> string option"
  Finalizers :: "string list"
  DeletionTimestamp :: "Time option"
  OwnerReferences :: "OwnerReference list"

record AcrPullBindingSpec =
  AcrServer :: string
  ManagedIdentityResourceID :: string
  ManagedIdentityClientID :: string
  ServiceAccountName :: string

record AcrPullBindingStatus =
  LastTokenRefreshTime :: "Time option"
  TokenExpirationTime :: "Time option"
  Error' :: string

record AcrPullBinding =
  BindingMeta :: ObjectMeta
  Spec :: AcrPullBindingSpec
  Status :: AcrPullBindingStatus

record Secret =
  SecretMeta :: ObjectMeta
  SecretType :: string
  Data :: "(string \<Rightarrow> string option) option"

record LocalObjectReference =
  RefName :: string

record ServiceAccount =
  ServiceAccountMeta :: ObjectMeta
  ImagePullSecrets :: "LocalObjectReference list"

record Request =
  ReqNamespace :: string
  ReqName :: string

record Result =
  Requeue :: bool
  RequeueAfter :: Duration

definition Result_zero :: Result where
  "Result_zero = \<lparr>Requeue = False, RequeueAfter = 0\<rparr>"

text \<open>
  How a call of \<^verbatim>\<open>Reconcile\<close> ends: it returns its pair of a Result and an error, or it
  panics.
\<close>

datatype outcome = Return Result "error option" | Panic string

definition ownerKey :: string where
  "ownerKey = ''.metadata.controller''"

definition dockerConfigKey :: string where
  "dockerConfigKey = ''.dockerconfigjson''"

definition msiAcrPullFinalizerName :: string where
  "msiAcrPullFinalizerName = ''msi-acrpull.microsoft.com''"

definition defaultServiceAccountName :: string where
  "defaultServiceAccountName = ''default''"

definition GroupVersion_String :: string where
  "GroupVersion_String = ''msi-acrpull.microsoft.com/v1beta1''"

definition SecretTypeDockerConfigJson :: string where
  "SecretTypeDockerConfigJson = ''kubernetes.io/dockerconfigjson''"

text \<open>\<^verbatim>\<open>(*metav1.Time).IsZero\<close>: a nil pointer or the zero time.\<close>

definition IsZero :: "Time option \<Rightarrow> bool" where
  "IsZero t = (case t of None \<Rightarrow> True | Some u \<Rightarrow> u = zeroTime)"

fun error_string :: "error \<Rightarrow> string" where
  "error_string (Error m) = m"
| "error_string (Wrap m e) = m @ '': '' @ error_string e"
| "error_string (StatusNotFound m) = m"
| "error_string (StatusError m) = m"

section \<open>The object store, the log and the clock\<close>

text \<open>
  The requests the reconciler sends: to the object store (by kind, namespace and name;
  a list by namespace and owner) and to the authorizer (by identity and registry host).
\<close>

datatype call =
    Get_AcrPullBinding string string
  | Update_AcrPullBinding string string
  | Status_Update_AcrPullBinding string string
  | List_Secret string string
  | Create_Secret string string
  | Update_Secret string string
  | Get_ServiceAccount string string
  | Update_ServiceAccount string string
  | Auth_WithClientID string string
  | Auth_WithResourceID string string

text \<open>A line of the log: \<^verbatim>\<open>log.Error(err, msg, ...)\<close> or \<^verbatim>\<open>log.Info(msg, ...)\<close>; the
  key-value pairs that follow the message are left out.\<close>

datatype log_entry = LogError error string | LogInfo string

text \<open>
  The world a reconciliation runs in: the stored objects, the requests sent so far, the
  log written so far and the number of readings of \<^verbatim>\<open>time.Now()\<close> taken so far. The store
  holds its objects in lists and finds one by the namespace and name of its metadata; the
  list of secrets is in the order in which the store lists them.
\<close>

record cluster =
  bindings :: "AcrPullBinding list"
  secrets :: "Secret list"
  serviceAccounts :: "ServiceAccount list"
  calls :: "call list"
  logs :: "log_entry list"
  clock :: nat

text \<open>
  \<^verbatim>\<open>AcrPullBindingReconciler\<close>. The embedded \<^verbatim>\<open>client.Client\<close> talks to an object store
  that may refuse any request: \<open>Client\<close> says, per request, with which error (\<open>None\<close>:
  the store serves the request).
\<close>

record AcrPullBindingReconciler =
  Client :: "call \<Rightarrow> error option"
  Auth :: Auth_Interface
  DefaultManagedIdentityResourceID :: string
  DefaultManagedIdentityClientID :: string
  DefaultACRServer :: string

text \<open>
  What \<^verbatim>\<open>Reconcile\<close> calls outside the sources: \<^verbatim>\<open>authorizer.CreateACRDockerCfg\<close>,
  \<^verbatim>\<open>ctrl.SetControllerReference\<close> (with the reconciler's scheme) and the clock, whose
  n-th reading is \<open>Now n\<close>.
\<close>

record reconcile_deps =
  CreateACRDockerCfg :: "string \<Rightarrow> AccessToken \<Rightarrow> error + string"
  SetControllerReference :: "AcrPullBinding \<Rightarrow> Secret \<Rightarrow> error + Secret"
  Now :: "nat \<Rightarrow> Time"

definition record_call :: "call \<Rightarrow> cluster \<Rightarrow> cluster" where
  "record_call c w = w\<lparr>calls := calls w @ [c]\<rparr>"

definition log_Error :: "error \<Rightarrow> string \<Rightarrow> cluster \<Rightarrow> cluster" where
  "log_Error err msg w = w\<lparr>logs := logs w @ [LogError err msg]\<rparr>"

definition log_Info :: "string \<Rightarrow> cluster \<Rightarrow> cluster" where
  "log_Info msg w = w\<lparr>logs := logs w @ [LogInfo msg]\<rparr>"

definition time_Now :: "reconcile_deps \<Rightarrow> cluster \<Rightarrow> Time \<times> cluster" where
  "time_Now deps w = (Now deps (clock w), w\<lparr>clock := Suc (clock w)\<rparr>)"

text \<open>
  The store's side of the client. An update of an AcrPullBinding leaves the stored status
  alone and a status update writes the status only (the status is a subresource); a get
  or an update of an object that is not stored answers NotFound, a create of one that is
  stored is refused.
\<close>

definition is_named :: "string \<Rightarrow> string \<Rightarrow> ObjectMeta \<Rightarrow> bool" where
  "is_named ns n m = (Namespace m = ns \<and> Name m = n)"

definition client_Get_AcrPullBinding ::
    "AcrPullBindingReconciler \<Rightarrow> string \<Rightarrow> string \<Rightarrow> cluster
     \<Rightarrow> (error + AcrPullBinding) \<times> cluster" where
  "client_Get_AcrPullBinding r ns n w =
     (case Client r (Get_AcrPullBinding ns n) of
        Some err \<Rightarrow> (Inl err, record_call (Get_AcrPullBinding ns n) w)
      | None \<Rightarrow>
          (case find (\<lambda>b. is_named ns n (BindingMeta b)) (bindings w) of
             None \<Rightarrow> (Inl (StatusNotFound n), record_call (Get_AcrPullBinding ns n) w)
           | Some b \<Rightarrow> (Inr b, record_call (Get_AcrPullBinding ns n) w)))"

definition client_Update_AcrPullBinding ::
    "AcrPullBindingReconciler \<Rightarrow> AcrPullBinding \<Rightarrow> cluster \<Rightarrow> error option \<times> cluster" where
  "client_Update_AcrPullBinding r b w =
     (let ns = Namespace (BindingMeta b); n = Name (BindingMeta b);
          w' = record_call (Update_AcrPullBinding ns n) w
      in case Client r (Update_AcrPullBinding ns n) of
           Some err \<Rightarrow> (Some err, w')
         | None \<Rightarrow>
             if list_ex (\<lambda>old. is_named ns n (BindingMeta old)) (bindings w)
             then (None, w'\<lparr>bindings :=
                     map (\<lambda>old. if is_named ns n (BindingMeta old)
                                 then b\<lparr>Status := Status old\<rparr> else old) (bindings w)\<rparr>)
             else (Some (StatusNotFound n), w'))"

definition client_Status_Update_AcrPullBinding ::
    "AcrPullBindingReconciler \<Rightarrow> AcrPullBinding \<Rightarrow> cluster \<Rightarrow> error option \<times> cluster" where
  "client_Status_Update_AcrPullBinding r b w =
     (let ns = Namespace (BindingMeta b); n = Name (BindingMeta b);
          w' = record_call (Status_Update_AcrPullBinding ns n) w
      in case Client r (Status_Update_AcrPullBinding ns n) of
           Some err \<Rightarrow> (Some err, w')
         | None \<Rightarrow>
             if list_ex (\<lambda>old. is_named ns n (BindingMeta old)) (bindings w)
             then (None, w'\<lparr>bindings :=
                     map (\<lambda>old. if is_named ns n (BindingMeta old)
                                 then old\<lparr>Status := Status b\<rparr> else old) (bindings w)\<rparr>)
             else (Some (StatusNotFound n), w'))"

text \<open>
  \<^verbatim>\<open>metav1.GetControllerOf\<close> and the index function that \<^verbatim>\<open>SetupWithManager\<close> registers
  under \<open>ownerKey\<close>: a secret is indexed by the name of its controlling AcrPullBinding.
\<close>

definition GetControllerOf :: "Secret \<Rightarrow> OwnerReference option" where
  "GetControllerOf secret = find Controller (OwnerReferences (SecretMeta secret))"

definition indexOwner :: "Secret \<Rightarrow> string list" where
  "indexOwner secret =
     (case GetControllerOf secret of
        None \<Rightarrow> []
      | Some owner \<Rightarrow>
          if APIVersion owner \<noteq> GroupVersion_String \<or> Kind owner \<noteq> ''AcrPullBinding''
          then [] else [OwnerName owner])"

definition client_List_Secret ::
    "AcrPullBindingReconciler \<Rightarrow> string \<Rightarrow> string \<Rightarrow> cluster
     \<Rightarrow> (error + Secret list) \<times> cluster" where
  "client_List_Secret r ns owner w =
     (case Client r (List_Secret ns owner) of
        Some err \<Rightarrow> (Inl err, record_call (List_Secret ns owner) w)
      | None \<Rightarrow>
          (Inr (filter (\<lambda>s. Namespace (SecretMeta s) = ns \<and> owner \<in> set (indexOwner s))
                  (secrets w)),
           record_call (List_Secret ns owner) w))"

definition client_Create_Secret ::
    "AcrPullBindingReconciler \<Rightarrow> Secret \<Rightarrow> cluster \<Rightarrow> error option \<times> cluster" where
  "client_Create_Secret r s w =
     (let ns = Namespace (SecretMeta s); n = Name (SecretMeta s);
          w' = record_call (Create_Secret ns n) w
      in case Client r (Create_Secret ns n) of
           Some err \<Rightarrow> (Some err, w')
         | None \<Rightarrow>
             if list_ex (\<lambda>old. is_named ns n (SecretMeta old)) (secrets w)
             then (Some (StatusError ''AlreadyExists''), w')
             else (None, w'\<lparr>secrets := secrets w @ [s]\<rparr>))"

definition client_Update_Secret ::
    "AcrPullBindingReconciler \<Rightarrow> Secret \<Rightarrow> cluster \<Rightarrow> error option \<times> cluster" where
  "client_Update_Secret r s w =
     (let ns = Namespace (SecretMeta s); n = Name (SecretMeta s);
          w' = record_call (Update_Secret ns n) w
      in case Client r (Update_Secret ns n) of
           Some err \<Rightarrow> (Some err, w')
         | None \<Rightarrow>
             if list_ex (\<lambda>old. is_named ns n (SecretMeta old)) (secrets w)
             then (None, w'\<lparr>secrets :=
                     map (\<lambda>old. if is_named ns n (SecretMeta old) then s else old) (secrets w)\<rparr>)
             else (Some (StatusNotFound n), w'))"

definition client_Get_ServiceAccount ::
    "AcrPullBindingReconciler \<Rightarrow> string \<Rightarrow> string \<Rightarrow> cluster
     \<Rightarrow> (error + ServiceAccount) \<times> cluster" where
  "client_Get_ServiceAccount r ns n w =
     (case Client r (Get_ServiceAccount ns n) of
        Some err \<Rightarrow> (Inl err, record_call (Get_ServiceAccount ns n) w)
      | None \<Rightarrow>
          (case find (\<lambda>sa. is_named ns n (ServiceAccountMeta sa)) (serviceAccounts w) of
             None \<Rightarrow> (Inl (StatusNotFound n), record_call (Get_ServiceAccount ns n) w)
           | Some sa \<Rightarrow> (Inr sa, record_call (Get_ServiceAccount ns n) w)))"

definition client_Update_ServiceAccount ::
    "AcrPullBindingReconciler \<Rightarrow> ServiceAccount \<Rightarrow> cluster \<Rightarrow> error option \<times> cluster" where
  "client_Update_ServiceAccount r sa w =
     (let ns = Namespace (ServiceAccountMeta sa); n = Name (ServiceAccountMeta sa);
          w' = record_call (Update_ServiceAccount ns n) w
      in case Client r (Update_ServiceAccount ns n) of
           Some err \<Rightarrow> (Some err, w')
         | None \<Rightarrow>
             if list_ex (\<lambda>old. is_named ns n (ServiceAccountMeta old)) (serviceAccounts w)
             then (None, w'\<lparr>serviceAccounts :=
                     map (\<lambda>old. if is_named ns n (ServiceAccountMeta old) then sa else old)
                       (serviceAccounts w)\<rparr>)
             else (Some (StatusNotFound n), w'))"

section \<open>The reconciler\<close>

definition specOrDefault ::
    "AcrPullBindingReconciler \<Rightarrow> AcrPullBindingSpec \<Rightarrow> string \<times> string \<times> string" where
  "specOrDefault r spec =
     (let msiClientID = ManagedIdentityClientID spec;
          msiResourceID = path_Clean (ManagedIdentityResourceID spec);
          acrServer = AcrServer spec;
          msiClientID = (if msiClientID = [] then DefaultManagedIdentityClientID r
                         else msiClientID);
          msiResourceID = (if msiResourceID = ''.'' then DefaultManagedIdentityResourceID r
                           else msiResourceID);
          acrServer = (if acrServer = [] then DefaultACRServer r else acrServer)
      in (msiClientID, msiResourceID, acrServer))"

definition getServiceAccountName :: "string \<Rightarrow> string" where
  "getServiceAccountName userSpecifiedName =
     (if userSpecifiedName \<noteq> [] then userSpecifiedName else defaultServiceAccountName)"

definition getPullSecretName :: "string \<Rightarrow> string" where
  "getPullSecretName acrBindingName = acrBindingName @ ''-msi-acrpull-secret''"

text \<open>\<^verbatim>\<open>getPullSecret\<close> answers with a pointer into the list: here, the index.\<close>

fun getPullSecret_loop :: "string \<Rightarrow> nat \<Rightarrow> Secret list \<Rightarrow> nat option" where
  "getPullSecret_loop pullSecretName idx [] = None"
| "getPullSecret_loop pullSecretName idx (secret # rest) =
     (if Name (SecretMeta secret) = pullSecretName then Some idx
      else getPullSecret_loop pullSecretName (Suc idx) rest)"

definition getPullSecret :: "AcrPullBinding \<Rightarrow> Secret list \<Rightarrow> nat option" where
  "getPullSecret acrBinding pullSecrets =
     (if pullSecrets = [] then None
      else getPullSecret_loop (getPullSecretName (Name (BindingMeta acrBinding))) 0 pullSecrets)"

text \<open>
  \<^verbatim>\<open>updatePullSecret\<close> assigns into the map \<^verbatim>\<open>pullSecret.Data\<close>; Go panics when that map is
  nil (\<open>None\<close> as result).
\<close>

definition updatePullSecret :: "Secret \<Rightarrow> string \<Rightarrow> Secret option" where
  "updatePullSecret pullSecret dockerConfig =
     (case Data pullSecret of
        None \<Rightarrow> None
      | Some data \<Rightarrow> Some (pullSecret\<lparr>Data := Some (data(dockerConfigKey \<mapsto> dockerConfig))\<rparr>))"

definition appendImagePullSecretRef :: "ServiceAccount \<Rightarrow> string \<Rightarrow> ServiceAccount" where
  "appendImagePullSecretRef serviceAccount secretName =
     serviceAccount\<lparr>ImagePullSecrets :=
       ImagePullSecrets serviceAccount @ [\<lparr>RefName = secretName\<rparr>]\<rparr>"

definition newBasePullSecret ::
    "reconcile_deps \<Rightarrow> AcrPullBinding \<Rightarrow> string \<Rightarrow> error + Secret" where
  "newBasePullSecret deps acrBinding dockerConfig =
     (let pullSecret =
            \<lparr>SecretMeta =
               \<lparr>Name = getPullSecretName (Name (BindingMeta acrBinding)),
                Namespace = Namespace (BindingMeta acrBinding),
                Labels = Map.empty, Annotations = Map.empty,
                Finalizers = [], DeletionTimestamp = None, OwnerReferences = []\<rparr>,
             SecretType = SecretTypeDockerConfigJson,
             Data = Some [dockerConfigKey \<mapsto> dockerConfig]\<rparr>
      in case SetControllerReference deps acrBinding pullSecret of
           Inl err \<Rightarrow> Inl (Wrap ''failed to create Acr ImagePullSecret'' err)
         | Inr owned \<Rightarrow> Inr owned)"

definition addFinalizer ::
    "AcrPullBindingReconciler \<Rightarrow> AcrPullBinding \<Rightarrow> cluster
     \<Rightarrow> (error option \<times> AcrPullBinding) \<times> cluster" where
  "addFinalizer r acrBinding w =
     (if msiAcrPullFinalizerName \<notin> set (Finalizers (BindingMeta acrBinding)) then
        (let acrBinding' = acrBinding\<lparr>BindingMeta := (BindingMeta acrBinding)
               \<lparr>Finalizers := Finalizers (BindingMeta acrBinding) @ [msiAcrPullFinalizerName]\<rparr>\<rparr>
         in case client_Update_AcrPullBinding r acrBinding' w of
              (Some err, w') \<Rightarrow>
                ((Some err, acrBinding'),
                 log_Error err ''Failed to append acr pull binding finalizer'' w')
            | (None, w') \<Rightarrow> ((None, acrBinding'), w'))
      else ((None, acrBinding), w))"

text \<open>Lines 318 to 325 of \<^verbatim>\<open>removeFinalizer\<close>: drop the finalizer and update the binding.\<close>

definition removeFinalizer_update ::
    "AcrPullBindingReconciler \<Rightarrow> AcrPullBinding \<Rightarrow> cluster \<Rightarrow> error option \<times> cluster" where
  "removeFinalizer_update r acrBinding w =
     (let acrBinding' = acrBinding\<lparr>BindingMeta := (BindingMeta acrBinding)
            \<lparr>Finalizers := filter (\<lambda>s. s \<noteq> msiAcrPullFinalizerName)
                            (Finalizers (BindingMeta acrBinding))\<rparr>\<rparr>
      in case client_Update_AcrPullBinding r acrBinding' w of
           (Some err, w') \<Rightarrow>
             (Some err, log_Error err ''Failed to remove acr pull binding finalizer'' w')
         | (None, w') \<Rightarrow> (None, w'))"

definition removeFinalizer ::
    "AcrPullBindingReconciler \<Rightarrow> AcrPullBinding \<Rightarrow> Request \<Rightarrow> string \<Rightarrow> cluster
     \<Rightarrow> error option \<times> cluster" where
  "removeFinalizer r acrBinding req serviceAccountName w =
     (if msiAcrPullFinalizerName \<in> set (Finalizers (BindingMeta acrBinding)) then
        (case client_Get_ServiceAccount r (ReqNamespace req) serviceAccountName w of
           (Inl err, w1) \<Rightarrow>
             if \<not> IsNotFound err
             then (Some err, log_Error err ''Failed to get service account'' w1)
             else removeFinalizer_update r acrBinding
                    (log_Info ''Service account is not found. Continue removing finalizer'' w1)
         | (Inr serviceAccount, w1) \<Rightarrow>
             (let pullSecretName = getPullSecretName (Name (BindingMeta acrBinding));
                  serviceAccount' = serviceAccount\<lparr>ImagePullSecrets :=
                    filter (\<lambda>reference. RefName reference \<noteq> pullSecretName)
                      (ImagePullSecrets serviceAccount)\<rparr>
              in case client_Update_ServiceAccount r serviceAccount' w1 of
                   (Some err, w2) \<Rightarrow>
                     (Some err,
                      log_Error err
                        ''Failed to remove image pull secret reference from default service account''
                        w2)
                 | (None, w2) \<Rightarrow> removeFinalizer_update r acrBinding w2))
      else (None, w))"

definition updateServiceAccount ::
    "AcrPullBindingReconciler \<Rightarrow> AcrPullBinding \<Rightarrow> Request \<Rightarrow> string \<Rightarrow> cluster
     \<Rightarrow> error option \<times> cluster" where
  "updateServiceAccount r acrBinding req serviceAccountName w =
     (case client_Get_ServiceAccount r (ReqNamespace req) serviceAccountName w of
        (Inl err, w1) \<Rightarrow> (Some err, log_Error err ''Failed to get service account'' w1)
      | (Inr serviceAccount, w1) \<Rightarrow>
          (let pullSecretName = getPullSecretName (Name (BindingMeta acrBinding))
           in if \<not> list_ex (\<lambda>reference. RefName reference = pullSecretName)
                      (ImagePullSecrets serviceAccount)
              then
                (case client_Update_ServiceAccount r
                        (appendImagePullSecretRef serviceAccount pullSecretName)
                        (log_Info ''Updating default service account'' w1) of
                   (Some err, w2) \<Rightarrow>
                     (Some err,
                      log_Error err
                        ''Failed to append image pull secret reference to default service account''
                        w2)
                 | (None, w2) \<Rightarrow> (None, w2))
              else (None, w1)))"

definition setSuccessStatus ::
    "AcrPullBindingReconciler \<Rightarrow> reconcile_deps \<Rightarrow> AcrPullBinding \<Rightarrow> AccessToken \<Rightarrow> cluster
     \<Rightarrow> (error option \<times> AcrPullBinding) \<times> cluster" where
  "setSuccessStatus r deps acrBinding accessToken w =
     (let (now, w1) = time_Now deps w;
          acrBinding' = acrBinding\<lparr>Status :=
            \<lparr>LastTokenRefreshTime = Some now,
             TokenExpirationTime = Some (ExpiresOn accessToken),
             Error' = []\<rparr>\<rparr>
      in case client_Status_Update_AcrPullBinding r acrBinding' w1 of
           (err, w2) \<Rightarrow> ((err, acrBinding'), w2))"

definition setErrStatus ::
    "AcrPullBindingReconciler \<Rightarrow> error \<Rightarrow> AcrPullBinding \<Rightarrow> cluster
     \<Rightarrow> (error option \<times> AcrPullBinding) \<times> cluster" where
  "setErrStatus r err acrBinding w =
     (let acrBinding' = acrBinding\<lparr>Status := (Status acrBinding)\<lparr>Error' := error_string err\<rparr>\<rparr>
      in case client_Status_Update_AcrPullBinding r acrBinding' w of
           (err', w1) \<Rightarrow> ((err', acrBinding'), w1))"

text \<open>
  Lines 170 to 178 of \<^verbatim>\<open>Reconcile\<close>: the identity and the registry host are resolved and
  the authorizer is called, by client ID when the resolved client ID is not empty, by
  resource ID otherwise.
\<close>

definition acquireToken ::
    "AcrPullBindingReconciler \<Rightarrow> AcrPullBinding \<Rightarrow> cluster
     \<Rightarrow> (AccessToken \<times> error option) \<times> cluster" where
  "acquireToken r acrBinding w =
     (case specOrDefault r (Spec acrBinding) of
        (msiClientID, msiResourceID, acrServer) \<Rightarrow>
          if msiClientID \<noteq> []
          then (AcquireACRAccessTokenWithClientID (Auth r) msiClientID acrServer,
                record_call (Auth_WithClientID msiClientID acrServer) w)
          else (AcquireACRAccessTokenWithResourceID (Auth r) msiResourceID acrServer,
                record_call (Auth_WithResourceID msiResourceID acrServer) w))"

text \<open>
  Lines 194 to 223: the secrets owned by the binding are listed; a new secret is created
  when none has the derived name, otherwise the first listed secret is updated. \<open>None\<close>
  as first component: the reconciliation goes on.
\<close>

definition reconcilePullSecret ::
    "AcrPullBindingReconciler \<Rightarrow> reconcile_deps \<Rightarrow> Request \<Rightarrow> AcrPullBinding \<Rightarrow> string
     \<Rightarrow> cluster \<Rightarrow> outcome option \<times> cluster" where
  "reconcilePullSecret r deps req acrBinding dockerConfig w =
     (case client_List_Secret r (ReqNamespace req) (ReqName req) w of
        (Inl err, w1) \<Rightarrow>
          (Some (Return Result_zero (Some err)),
           log_Error err ''unable to list child secrets'' w1)
      | (Inr items, w1) \<Rightarrow>
          (case getPullSecret acrBinding items of
             None \<Rightarrow>
               (case newBasePullSecret deps acrBinding dockerConfig of
                  Inl err \<Rightarrow>
                    (Some (Return Result_zero (Some err)),
                     log_Error err ''Failed to construct pull secret''
                       (log_Info ''Creating new pull secret'' w1))
                | Inr pullSecret \<Rightarrow>
                    (case client_Create_Secret r pullSecret
                            (log_Info ''Creating new pull secret'' w1) of
                       (Some err, w2) \<Rightarrow>
                         (Some (Return Result_zero (Some err)),
                          log_Error err ''Failed to create pull secret in cluster'' w2)
                     | (None, w2) \<Rightarrow> (None, w2)))
           | Some found \<Rightarrow>
               (case updatePullSecret (items ! 0) dockerConfig of
                  None \<Rightarrow>
                    (Some (Panic ''assignment to entry in nil map''),
                     log_Info ''Updating existing pull secret'' w1)
                | Some pullSecret \<Rightarrow>
                    (case client_Update_Secret r pullSecret
                            (log_Info ''Updating existing pull secret'' w1) of
                       (Some err, w2) \<Rightarrow>
                         (Some (Return Result_zero (Some err)),
                          log_Error err ''Failed to update pull secret'' w2)
                     | (None, w2) \<Rightarrow> (None, w2)))))"

text \<open>Lines 170 to 237: what \<^verbatim>\<open>Reconcile\<close> does for a binding that is not being deleted,
  once \<^verbatim>\<open>addFinalizer\<close> has returned without error.\<close>

definition reconcileActive ::
    "AcrPullBindingReconciler \<Rightarrow> reconcile_deps \<Rightarrow> Request \<Rightarrow> string \<Rightarrow> AcrPullBinding
     \<Rightarrow> cluster \<Rightarrow> outcome \<times> cluster" where
  "reconcileActive r deps req serviceAccountName acrBinding w =
     (case acquireToken r acrBinding w of
        ((acrAccessToken, Some err), w1) \<Rightarrow>
          (case setErrStatus r err acrBinding
                  (log_Error err ''Failed to get ACR access token'' w1) of
             ((Some err', b), w2) \<Rightarrow>
               (Return Result_zero (Some err),
                log_Error err' ''Failed to update error status'' w2)
           | ((None, b), w2) \<Rightarrow> (Return Result_zero (Some err), w2))
      | ((acrAccessToken, None), w1) \<Rightarrow>
          (case CreateACRDockerCfg deps (snd (snd (specOrDefault r (Spec acrBinding))))
                  acrAccessToken of
             Inl err \<Rightarrow>
               (Return Result_zero (Some err), log_Error err ''unable to create DockerConfig'' w1)
           | Inr dockerConfig \<Rightarrow>
               (case reconcilePullSecret r deps req acrBinding dockerConfig w1 of
                  (Some out, w2) \<Rightarrow> (out, w2)
                | (None, w2) \<Rightarrow>
                    (case updateServiceAccount r acrBinding req serviceAccountName w2 of
                       (Some err, w3) \<Rightarrow> (Return Result_zero (Some err), w3)
                     | (None, w3) \<Rightarrow>
                         (case setSuccessStatus r deps acrBinding acrAccessToken w3 of
                            ((Some err, b), w4) \<Rightarrow>
                              (Return Result_zero (Some err),
                               log_Error err ''Failed to update acr binding status'' w4)
                          | ((None, b), w4) \<Rightarrow>
                              (case time_Now deps w4 of
                                 (now, w5) \<Rightarrow>
                                   (Return \<lparr>Requeue = False,
                                            RequeueAfter =
                                              getTokenRefreshDuration now acrAccessToken\<rparr>
                                      None,
                                    w5)))))))"

definition Reconcile ::
    "AcrPullBindingReconciler \<Rightarrow> reconcile_deps \<Rightarrow> Request \<Rightarrow> cluster
     \<Rightarrow> outcome \<times> cluster" where
  "Reconcile r deps req w =
     (case client_Get_AcrPullBinding r (ReqNamespace req) (ReqName req) w of
        (Inl err, w1) \<Rightarrow>
          if \<not> IsNotFound err
          then (Return Result_zero (Some err),
                log_Error err ''unable to fetch acrPullBinding.'' w1)
          else (Return Result_zero None,
                log_Info
                  ''AcrPullBinding is not found. Ignore because this is expected to happen when it is being deleted.''
                  w1)
      | (Inr acrBinding, w1) \<Rightarrow>
          (let serviceAccountName =
                 getServiceAccountName (ServiceAccountName (Spec acrBinding))
           in if IsZero (DeletionTimestamp (BindingMeta acrBinding)) then
                (case addFinalizer r acrBinding w1 of
                   ((Some err, b), w2) \<Rightarrow> (Return Result_zero (Some err), w2)
                 | ((None, b), w2) \<Rightarrow> reconcileActive r deps req serviceAccountName b w2)
              else
                (case removeFinalizer r acrBinding req serviceAccountName w1 of
                   (Some err, w2) \<Rightarrow> (Return Result_zero (Some err), w2)
                 | (None, w2) \<Rightarrow> (Return Result_zero None, w2))))"

section \<open>Example inputs\<close>

text \<open>
  Concrete collaborators and a concrete cluster, on which the theorems below are
  instantiated: an authorizer that always issues the same token, an object store that
  serves every request, and a namespace with one binding and its default service account.
\<close>

definition ex_now :: Time where
  "ex_now = time_Unix 1793577600 0"

definition ex_token :: AccessToken where
  "ex_token = \<lparr>Token = ''acr-token'', ExpiresOn = time_Unix 1793584800 0\<rparr>"

definition ex_auth :: Auth_Interface where
  "ex_auth =
     \<lparr>AcquireACRAccessTokenWithResourceID = (\<lambda>identityResourceID acrFQDN. (ex_token, None)),
      AcquireACRAccessTokenWithClientID = (\<lambda>clientID acrFQDN. (ex_token, None))\<rparr>"

definition ex_reconciler :: AcrPullBindingReconciler where
  "ex_reconciler =
     \<lparr>Client = (\<lambda>c. None), Auth = ex_auth,
      DefaultManagedIdentityResourceID = ''/sub/default-id'',
      DefaultManagedIdentityClientID = ''default-client'',
      DefaultACRServer = ''r.azurecr.io''\<rparr>"

definition ex_owner :: "AcrPullBinding \<Rightarrow> OwnerReference" where
  "ex_owner b =
     \<lparr>APIVersion = GroupVersion_String, Kind = ''AcrPullBinding'',
      OwnerName = Name (BindingMeta b), Controller = True\<rparr>"

definition ex_deps :: reconcile_deps where
  "ex_deps =
     \<lparr>CreateACRDockerCfg = (\<lambda>acrServer accessToken. Inr (acrServer @ '':'' @ Token accessToken)),
      SetControllerReference =
        (\<lambda>b s. Inr (s\<lparr>SecretMeta := (SecretMeta s)\<lparr>OwnerReferences := [ex_owner b]\<rparr>\<rparr>)),
      Now = (\<lambda>n. ex_now)\<rparr>"

definition ex_meta :: "string \<Rightarrow> string \<Rightarrow> ObjectMeta" where
  "ex_meta ns n =
     \<lparr>Name = n, Namespace = ns, Labels = Map.empty, Annotations = Map.empty,
      Finalizers = [], DeletionTimestamp = None, OwnerReferences = []\<rparr>"

definition ex_binding :: AcrPullBinding where
  "ex_binding =
     \<lparr>BindingMeta = ex_meta ''ns1'' ''b1'',
      Spec = \<lparr>AcrServer = [], ManagedIdentityResourceID = ''/sub/id1'',
              ManagedIdentityClientID = [], ServiceAccountName = []\<rparr>,
      Status = \<lparr>LastTokenRefreshTime = None, TokenExpirationTime = None, Error' = []\<rparr>\<rparr>"

definition ex_serviceAccount :: ServiceAccount where
  "ex_serviceAccount =
     \<lparr>ServiceAccountMeta = ex_meta ''ns1'' ''default'', ImagePullSecrets = []\<rparr>"

definition ex_cluster :: cluster where
  "ex_cluster =
     \<lparr>bindings = [ex_binding], secrets = [], serviceAccounts = [ex_serviceAccount],
      calls = [], logs = [], clock = 0\<rparr>"

definition ex_request :: Request where
  "ex_request = \<lparr>ReqNamespace = ''ns1'', ReqName = ''b1''\<rparr>"

text \<open>The same binding once it carries the finalizer, and the cluster with it.\<close>

definition ex_binding_active :: AcrPullBinding where
  "ex_binding_active =
     ex_binding\<lparr>BindingMeta := (ex_meta ''ns1'' ''b1'')\<lparr>Finalizers := [msiAcrPullFinalizerName]\<rparr>\<rparr>"

definition ex_cluster_active :: cluster where
  "ex_cluster_active = ex_cluster\<lparr>bindings := [ex_binding_active]\<rparr>"

text \<open>A store that refuses the status update of the binding, one that refuses the update
  of the binding, and an authorizer that fails.\<close>

definition ex_reconciler_status_refused :: AcrPullBindingReconciler where
  "ex_reconciler_status_refused =
     ex_reconciler\<lparr>Client :=
       (\<lambda>c. if c = Status_Update_AcrPullBinding ''ns1'' ''b1''
            then Some (StatusError ''conflict'') else None)\<rparr>"

definition ex_reconciler_update_refused :: AcrPullBindingReconciler where
  "ex_reconciler_update_refused =
     ex_reconciler\<lparr>Client :=
       (\<lambda>c. if c = Update_AcrPullBinding ''ns1'' ''b1''
            then Some (StatusError ''conflict'') else None)\<rparr>"

definition ex_auth_denied :: Auth_Interface where
  "ex_auth_denied =
     \<lparr>AcquireACRAccessTokenWithResourceID =
        (\<lambda>identityResourceID acrFQDN. (AccessToken_zero, Some (Error ''denied''))),
      AcquireACRAccessTokenWithClientID =
        (\<lambda>clientID acrFQDN. (AccessToken_zero, Some (Error ''denied'')))\<rparr>"

definition ex_reconciler_denied :: AcrPullBindingReconciler where
  "ex_reconciler_denied = ex_reconciler_status_refused\<lparr>Auth := ex_auth_denied\<rparr>"

text \<open>
  A cluster in which the binding controls two secrets: one under another name, listed
  first, and the derived pull secret with an older credential, a label and a second data
  key.
\<close>

definition ex_other_secret :: Secret where
  "ex_other_secret =
     \<lparr>SecretMeta = (ex_meta ''ns1'' ''other'')\<lparr>OwnerReferences := [ex_owner ex_binding]\<rparr>,
      SecretType = ''Opaque'',
      Data = Some [''password'' \<mapsto> ''hunter2'']\<rparr>"

definition ex_pull_secret :: Secret where
  "ex_pull_secret =
     \<lparr>SecretMeta = (ex_meta ''ns1'' ''b1-msi-acrpull-secret'')
        \<lparr>Labels := [''team'' \<mapsto> ''infra''], OwnerReferences := [ex_owner ex_binding]\<rparr>,
      SecretType = SecretTypeDockerConfigJson,
      Data = Some [dockerConfigKey \<mapsto> ''r.azurecr.io:old-token'', ''note'' \<mapsto> ''keep'']\<rparr>"

definition ex_serviceAccount_attached :: ServiceAccount where
  "ex_serviceAccount_attached =
     ex_serviceAccount\<lparr>ImagePullSecrets := [\<lparr>RefName = ''b1-msi-acrpull-secret''\<rparr>]\<rparr>"

definition ex_cluster_two_secrets :: cluster where
  "ex_cluster_two_secrets =
     ex_cluster\<lparr>bindings := [ex_binding_active],
                secrets := [ex_other_secret, ex_pull_secret],
                serviceAccounts := [ex_serviceAccount_attached]\<rparr>"

definition ex_cluster_renewal :: cluster where
  "ex_cluster_renewal =
     ex_cluster\<lparr>bindings := [ex_binding_active],
                secrets := [ex_pull_secret],
                serviceAccounts := [ex_serviceAccount_attached]\<rparr>"

text \<open>A cluster in which the binding is being deleted and its service account is gone.\<close>

definition ex_binding_deleting :: AcrPullBinding where
  "ex_binding_deleting =
     ex_binding\<lparr>BindingMeta := (ex_meta ''ns1'' ''b1'')
       \<lparr>Finalizers := [msiAcrPullFinalizerName], DeletionTimestamp := Some ex_now\<rparr>\<rparr>"

definition ex_cluster_deleting :: cluster where
  "ex_cluster_deleting = ex_cluster\<lparr>bindings := [ex_binding_deleting], serviceAccounts := []\<rparr>"

definition ex_url_Parse :: "string \<Rightarrow> error + URL" where
  "ex_url_Parse u = Inr \<lparr>url_String = u, url_Hostname = drop 8 u\<rparr>"

text \<open>Registry exchanges that answer with the tokens given, and tokens that hold the claims
  object given; the conversion of a float64 out of range yields the least int64, as the
  instruction of an amd64 processor does.\<close>

definition ex_exchange ::
    "string option \<Rightarrow> string option \<Rightarrow> (string \<times> json_text) list \<Rightarrow> exchange_deps" where
  "ex_exchange refreshToken accessToken claims =
     \<lparr>url_Parse = ex_url_Parse,
      NewAuthenticationClient = (\<lambda>endpoint. Inr endpoint),
      ExchangeAADAccessTokenForACRRefreshToken =
        (\<lambda>client grantType service token. Inr refreshToken),
      ExchangeACRRefreshTokenForACRAccessToken =
        (\<lambda>client service scope token. Inr accessToken),
      DecodeToken = (\<lambda>token. Inr claims),
      float64_out_of_range = (\<lambda>x. - (2 ^ 63))\<rparr>"

definition ex_armToken :: AccessToken where
  "ex_armToken = \<lparr>Token = ''arm-token'', ExpiresOn = time_Unix 1793581200 0\<rparr>"

section \<open>Notions used to state the properties\<close>

text \<open>
  The claims objects that the parser can decode: no number in them is beyond the
  float64 range.
\<close>

definition claimsDecodable :: "(string \<times> json_text) list \<Rightarrow> bool" where
  "claimsDecodable obj = list_all (\<lambda>(k, t). unmarshal False t \<noteq> None) obj"

text \<open>
  The strings of digits that JSON takes as an integer: at least one digit, and no zero put
  before another digit.
\<close>

definition isJSONInteger :: "string \<Rightarrow> bool" where
  "isJSONInteger s = (s \<noteq> [] \<and> list_all isDigit s \<and> (length s > 1 \<longrightarrow> hd s \<noteq> CHR ''0''))"

text \<open>
  The number of references with a given name that a service account holds, the clusters
  in which no service account holds two references with that name, and a sequence of
  reconciliations, each with its own reconciler, collaborators and request.
\<close>

definition refCount :: "string \<Rightarrow> ServiceAccount \<Rightarrow> nat" where
  "refCount n sa = length (filter (\<lambda>reference. RefName reference = n) (ImagePullSecrets sa))"

definition atMostOneRef :: "string \<Rightarrow> cluster \<Rightarrow> bool" where
  "atMostOneRef n w = list_all (\<lambda>sa. refCount n sa \<le> 1) (serviceAccounts w)"

fun reconcileMany ::
    "(AcrPullBindingReconciler \<times> reconcile_deps \<times> Request) list \<Rightarrow> cluster \<Rightarrow> cluster" where
  "reconcileMany [] w = w"
| "reconcileMany ((r, deps, req) # rest) w = reconcileMany rest (snd (Reconcile r deps req w))"

text \<open>Whether the binding stored under a namespace and name carries the finalizer.\<close>

definition hasFinalizer :: "string \<Rightarrow> string \<Rightarrow> cluster \<Rightarrow> bool" where
  "hasFinalizer ns n w =
     (case find (\<lambda>b. is_named ns n (BindingMeta b)) (bindings w) of
        None \<Rightarrow> False
      | Some b \<Rightarrow> msiAcrPullFinalizerName \<in> set (Finalizers (BindingMeta b)))"

text \<open>
  The requests that write a secret; whether the service account stored under a namespace
  and name holds a reference to a secret of a given name; the status of the binding stored
  under a namespace and name.
\<close>

definition isSecretWrite :: "call \<Rightarrow> bool" where
  "isSecretWrite c =
     (case c of Create_Secret ns n \<Rightarrow> True | Update_Secret ns n \<Rightarrow> True | _ \<Rightarrow> False)"

definition hasPullSecretRef :: "string \<Rightarrow> string \<Rightarrow> string \<Rightarrow> cluster \<Rightarrow> bool" where
  "hasPullSecretRef ns san secretName w =
     (case find (\<lambda>sa. is_named ns san (ServiceAccountMeta sa)) (serviceAccounts w) of
        None \<Rightarrow> False
      | Some sa \<Rightarrow>
          list_ex (\<lambda>reference. RefName reference = secretName) (ImagePullSecrets sa))"

definition storedStatus :: "string \<Rightarrow> string \<Rightarrow> cluster \<Rightarrow> AcrPullBindingStatus option" where
  "storedStatus ns n w =
     map_option Status (find (\<lambda>b. is_named ns n (BindingMeta b)) (bindings w))"

text \<open>
  The request to the authorizer that the specification's precedence asks for: the
  binding's client ID, then the binding's resource ID, then the default client ID, then
  the default resource ID.
\<close>

definition spec_selector :: "AcrPullBindingReconciler \<Rightarrow> AcrPullBindingSpec \<Rightarrow> call" where
  "spec_selector r spec =
     (let acrServer = (if AcrServer spec = [] then DefaultACRServer r else AcrServer spec)
      in if ManagedIdentityClientID spec \<noteq> []
         then Auth_WithClientID (ManagedIdentityClientID spec) acrServer
         else if ManagedIdentityResourceID spec \<noteq> []
         then Auth_WithResourceID (path_Clean (ManagedIdentityResourceID spec)) acrServer
         else if DefaultManagedIdentityClientID r \<noteq> []
         then Auth_WithClientID (DefaultManagedIdentityClientID r) acrServer
         else Auth_WithResourceID (DefaultManagedIdentityResourceID r) acrServer)"

text \<open>
  The request to the authorizer by the precedence of the code: the binding's client ID,
  then the default client ID, then the binding's resource ID (cleaned as a path), then the
  default resource ID.
\<close>

definition code_selector :: "AcrPullBindingReconciler \<Rightarrow> AcrPullBindingSpec \<Rightarrow> call" where
  "code_selector r spec =
     (let acrServer = (if AcrServer spec = [] then DefaultACRServer r else AcrServer spec)
      in if ManagedIdentityClientID spec \<noteq> []
         then Auth_WithClientID (ManagedIdentityClientID spec) acrServer
         else if DefaultManagedIdentityClientID r \<noteq> []
         then Auth_WithClientID (DefaultManagedIdentityClientID r) acrServer
         else if path_Clean (ManagedIdentityResourceID spec) \<noteq> ''.''
         then Auth_WithResourceID (path_Clean (ManagedIdentityResourceID spec)) acrServer
         else Auth_WithResourceID (DefaultManagedIdentityResourceID r) acrServer)"

section \<open>Properties of \<^verbatim>\<open>path.Clean\<close>\<close>

text \<open>The empty path is cleaned to a dot; some rows of the table that the Go library tests
  \<^verbatim>\<open>path.Clean\<close> with.\<close>

lemma path_Clean_empty: "path_Clean [] = ''.''"
  by (simp add: path_Clean_def)

lemma path_Clean_examples:
  "path_Clean ''abc/def/../ghi/../jkl'' = ''abc/jkl''"
  "path_Clean ''/abc/def/../../..'' = ''/''"
  "path_Clean ''abc/def/../../../ghi/jkl/../../../mno'' = ''../../mno''"
  "path_Clean ''//abc//'' = ''/abc''"
  "path_Clean ''abc/../../././../def'' = ''../../def''"
  "path_Clean ''./'' = ''.''"
  by (simp_all add: path_Clean_def)

section \<open>Properties of the refresh delay\<close>

lemmas time_defs = time_Unix_def wrap64_def quo_def unixToInternal_def Let_def time_Add_def time_Sub_def maxDuration_def minDuration_def
  Second_def Minute_def tokenRefreshBuffer_def zeroTime_def

text \<open>
  Claim C4, as amended. For every access token and every reading \<open>now\<close> of the clock,
  \<^verbatim>\<open>getTokenRefreshDuration\<close> returns 0 when the token expires before \<open>now\<close> plus 30
  minutes; otherwise it returns the expiry minus \<open>now\<close> minus 30 minutes when that fits a
  Duration, and the largest Duration when it does not. The result is never negative.
\<close>

theorem getTokenRefreshDuration_saturating:
  "getTokenRefreshDuration now accessToken =
     (if ExpiresOn accessToken < now + tokenRefreshBuffer then 0
      else min (ExpiresOn accessToken - now - tokenRefreshBuffer) maxDuration)
   \<and> 0 \<le> getTokenRefreshDuration now accessToken"
  by (auto simp: getTokenRefreshDuration_def time_Sub_def time_Add_def Let_def
        maxDuration_def minDuration_def)

text \<open>A token expiring two hours from now is refreshed in an hour and a half.\<close>

theorem getTokenRefreshDuration_saturating_witness:
  "getTokenRefreshDuration ex_now ex_token = 5400 * Second"
  using getTokenRefreshDuration_saturating [of ex_now ex_token]
  by (simp add: ex_now_def ex_token_def time_defs)

text \<open>
  Claim C4 as stated fails: on 2026-11-01 a token whose expiry is the last second of the
  year 9999 does not expire within 30 minutes, and the delay returned is not the expiry
  minus now minus 30 minutes (that difference exceeds the largest Duration, about 292
  years).
\<close>

theorem getTokenRefreshDuration_exact_counterexample:
  "\<not> (ExpiresOn \<lparr>Token = ''acr-token'', ExpiresOn = time_Unix 253402300799 0\<rparr>
        < ex_now + tokenRefreshBuffer)
   \<and> getTokenRefreshDuration ex_now \<lparr>Token = ''acr-token'', ExpiresOn = time_Unix 253402300799 0\<rparr>
       \<noteq> ExpiresOn \<lparr>Token = ''acr-token'', ExpiresOn = time_Unix 253402300799 0\<rparr>
           - ex_now - tokenRefreshBuffer"
  by (simp add: getTokenRefreshDuration_def ex_now_def time_defs Let_def)


section \<open>Properties of \<^verbatim>\<open>time.Unix\<close>\<close>

lemma wrap64_id: "- (2 ^ 63) \<le> x \<Longrightarrow> x < 2 ^ 63 \<Longrightarrow> wrap64 x = x"
  by (simp add: wrap64_def)

text \<open>Up to the year 292277024627 or so, \<^verbatim>\<open>time.Unix\<close> yields the second it is given.\<close>

lemma time_Unix_seconds:
  "- (2 ^ 63) \<le> sec \<Longrightarrow> sec < 2 ^ 63 - 62135596800 \<Longrightarrow> time_Unix sec 0 = sec * 1000000000"
  by (simp add: time_Unix_def wrap64_id unixToInternal_def)

section \<open>Properties of the integer conversion\<close>

lemma ParseUint_loop_partial:
  "ParseUint_loop n s = (v, Some e) \<Longrightarrow> (e = ErrSyntax \<and> v = 0) \<or> (e = ErrRange \<and> v = maxUint64)"
  by (induction n s rule: ParseUint_loop.induct) (auto split: if_splits)


section \<open>Properties of the decoding of numbers\<close>

lemma bitlen_bounds: "0 < n \<Longrightarrow> 2 ^ (bitlen n - 1) \<le> n \<and> n < 2 ^ bitlen n"
proof (induction n rule: bitlen.induct)
  case (1 n)
  show ?case
  proof (cases "n = 1")
    case True
    then show ?thesis by (simp add: bitlen.simps)
  next
    case False
    with 1(2) have pos: "0 < n div 2" by simp
    with 1 have ih: "2 ^ (bitlen (n div 2) - 1) \<le> n div 2" "n div 2 < 2 ^ bitlen (n div 2)"
      by simp_all
    have bl: "bitlen n = Suc (bitlen (n div 2))" using 1(2) by (simp add: bitlen.simps)
    have "0 < bitlen (n div 2)" using pos by (simp add: bitlen.simps)
    then have "(2::nat) ^ bitlen (n div 2) = 2 * 2 ^ (bitlen (n div 2) - 1)"
      by (cases "bitlen (n div 2)") simp_all
    with ih(1) have lo: "2 ^ bitlen (n div 2) \<le> n" by simp
    from ih(2) have hi: "n < 2 * 2 ^ bitlen (n div 2)" by simp
    from lo hi bl show ?thesis by simp
  qed
qed

text \<open>A whole number below \<open>2 ^ 53\<close> is a float64.\<close>

lemma roundHalfEven_one: "roundHalfEven n 1 = n" "roundHalfEven n (Suc 0) = n"
  by (simp_all add: roundHalfEven_def)

lemma roundFloat64_exact:
  assumes "0 < n" "n < 2 ^ 53"
  shows "roundFloat64 n 1 = Some (of_nat n)"
proof -
  obtain j where j: "bitlen n = Suc j"
    using assms(1) by (cases "bitlen n") (simp_all add: bitlen.simps)
  from bitlen_bounds [OF assms(1)] j have lo: "2 ^ j \<le> n" by simp
  have "(2::nat) ^ j < 2 ^ 53" using lo assms(2) by simp
  then have lt: "j < 53" by (simp only: power_strict_increasing_iff)
  have one: "bitlen (Suc 0) = Suc 0" by (simp add: bitlen.simps)
  have c: "int (bitlen n) - int (bitlen 1) = int j" using j one by simp
  have e: "max (int j - 52) (- 1074) = int j - 52" by simp
  have fl: "(if (if 0 \<le> int j then 2 ^ nat (int j) * 1 \<le> n else 1 \<le> 2 ^ nat (- int j) * n)
             then int j else int j - 1) = int j"
    using lo by simp
  show ?thesis
  proof (cases "j = 52")
    case True
    then show ?thesis
      unfolding roundFloat64_def Let_def c fl e
      using assms(2) by (simp add: roundHalfEven_one)
  next
    case False
    with lt have neg: "\<not> 0 \<le> int j - 52" "nat (- (int j - 52)) = 52 - j" by simp_all
    show ?thesis
      unfolding roundFloat64_def Let_def c fl e
      using neg by (simp add: roundHalfEven_one)
  qed
qed

lemma isDigit_not_minus: "isDigit c \<Longrightarrow> c \<noteq> CHR ''-''"
  by (auto simp: isDigit_def)

lemma parseNumber_integer:
  assumes "isJSONInteger s"
  shows "parseNumber s = Some (False, decimalValue s, 0)"
proof -
  from assms obtain c cs where s: "s = c # cs" by (cases s) (simp_all add: isJSONInteger_def)
  from assms s have d: "isDigit c" "list_all isDigit cs" by (simp_all add: isJSONInteger_def)
  from d have tw: "takeWhile isDigit s = s" "dropWhile isDigit s = []"
    using s by (simp_all add: list_all_iff)
  from assms s have lead: "\<not> (length s > 1 \<and> hd s = CHR ''0'')"
    by (auto simp: isJSONInteger_def)
  have neg: "\<not> (s \<noteq> [] \<and> hd s = CHR ''-'')" using s isDigit_not_minus [OF d(1)] by simp
  show ?thesis
    unfolding parseNumber_def Let_def using neg tw lead s by simp
qed

lemma ParseFloat64_integer:
  assumes "isJSONInteger s" "decimalValue s < 2 ^ 53"
  shows "ParseFloat64 s = Some (of_nat (decimalValue s))"
proof (cases "decimalValue s = 0")
  case True
  then show ?thesis by (simp add: ParseFloat64_def parseNumber_integer [OF assms(1)])
next
  case False
  then have "0 < decimalValue s" by simp
  from roundFloat64_exact [OF this assms(2)] False show ?thesis
    by (simp add: ParseFloat64_def parseNumber_integer [OF assms(1)])
qed

section \<open>Properties of the parser\<close>

lemma those_map_defined:
  "\<forall>x\<in>set xs. f x \<noteq> None \<Longrightarrow> those (map f xs) = Some (map (\<lambda>x. the (f x)) xs)"
  by (induction xs) auto

lemma those_map_None:
  "x \<in> set xs \<Longrightarrow> f x = None \<Longrightarrow> those (map f xs) = None"
  by (induction xs) (auto split: option.splits)

text \<open>Without \<^verbatim>\<open>WithJSONNumber\<close> no number is decoded to a \<^verbatim>\<open>json.Number\<close>.\<close>

lemma unmarshal_no_Number: "unmarshal False t \<noteq> Some (JNumber s)"
  by (cases t) auto

lemma parseAccessToken_error:
  "DecodeToken d tok = Inl err \<Longrightarrow> parseAccessToken d tok = Inl err"
  by (simp add: parseAccessToken_def ParseUnverified_def)

lemma parseAccessToken_undecodable:
  assumes "DecodeToken d tok = Inr obj" "\<not> claimsDecodable obj"
  shows "parseAccessToken d tok = Inl (Error ''token is malformed: could not JSON decode claim'')"
proof -
  from assms(2) obtain k t where kt: "(k, t) \<in> set obj" "unmarshal False t = None"
    by (auto simp: claimsDecodable_def list_all_iff)
  have "those (map (\<lambda>(k, t). map_option (Pair k) (unmarshal False t)) obj) = None"
    by (rule those_map_None [OF kt(1)]) (simp add: kt(2))
  with assms(1) show ?thesis
    by (simp add: parseAccessToken_def ParseUnverified_def NewParser_def)
qed

lemma parseAccessToken_decodable:
  assumes "DecodeToken d tok = Inr obj" "claimsDecodable obj"
  shows "parseAccessToken d tok =
           Inr (MapClaims (\<lambda>k. case map_of (rev obj) k of None \<Rightarrow> None
                                | Some t \<Rightarrow> unmarshal False t))"
proof -
  let ?f = "\<lambda>(k, t). map_option (Pair k) (unmarshal False t)"
  let ?g = "\<lambda>t. the (unmarshal False t)"
  from assms(2) have def: "\<forall>x\<in>set obj. ?f x \<noteq> None"
    by (auto simp: claimsDecodable_def list_all_iff)
  have kvs: "those (map ?f obj) = Some (map (\<lambda>x. the (?f x)) obj)"
    by (rule those_map_defined [OF def])
  have shape: "map (\<lambda>x. the (?f x)) obj = map (\<lambda>(k, t). (k, ?g t)) obj"
    using assms(2) by (auto simp: claimsDecodable_def list_all_iff)
  have look: "map_of (rev (map (\<lambda>(k, t). (k, ?g t)) obj)) k =
      (case map_of (rev obj) k of None \<Rightarrow> None | Some t \<Rightarrow> unmarshal False t)" for k
  proof (cases "map_of (rev obj) k")
    case None
    then show ?thesis by (simp add: rev_map map_of_map)
  next
    case (Some t)
    then have "(k, t) \<in> set obj" using map_of_SomeD [of "rev obj" k t] by simp
    with assms(2) have "unmarshal False t \<noteq> None"
      by (auto simp: claimsDecodable_def list_all_iff)
    with Some show ?thesis by (auto simp: rev_map map_of_map)
  qed
  have "map_of (rev (map (\<lambda>(k, t). (k, ?g t)) obj)) =
      (\<lambda>k. case map_of (rev obj) k of None \<Rightarrow> None | Some t \<Rightarrow> unmarshal False t)"
    by (rule ext) (rule look)
  with assms(1) kvs shape show ?thesis
    by (simp add: parseAccessToken_def ParseUnverified_def NewParser_def)
qed

text \<open>The parser of line 52 yields \<^verbatim>\<open>MapClaims\<close>, and no claim in them is a
  \<^verbatim>\<open>json.Number\<close>.\<close>

lemma parseAccessToken_MapClaims: "parseAccessToken d tok \<noteq> Inr OtherClaims"
  by (simp add: parseAccessToken_def ParseUnverified_def NewParser_def
        split: sum.splits option.splits json_value.splits)

lemma parseAccessToken_float64:
  assumes "parseAccessToken d tok = Inr (MapClaims claims)"
  shows "claims k \<noteq> Some (JNumber s)"
proof (cases "DecodeToken d tok")
  case (Inl err)
  with assms parseAccessToken_error [OF Inl] show ?thesis by simp
next
  case (Inr obj)
  show ?thesis
  proof (cases "claimsDecodable obj")
    case False
    with assms parseAccessToken_undecodable [OF Inr False] show ?thesis by simp
  next
    case True
    from assms parseAccessToken_decodable [OF Inr True]
    have "claims k = (case map_of (rev obj) k of None \<Rightarrow> None | Some t \<Rightarrow> unmarshal False t)"
      by auto
    then show ?thesis using unmarshal_no_Number by (auto split: option.splits)
  qed
qed

section \<open>Properties of the token exchange\<close>

text \<open>Once both exchanges have answered with a token, the result is decided by the parser
  and the type switch on the expiry claim.\<close>

lemma exchange_reaches_decode:
  assumes "url_Parse d (''https://'' @ acrFQDN) = Inr endpoint"
      and "NewAuthenticationClient d (url_String endpoint) = Inr client"
      and "ExchangeAADAccessTokenForACRRefreshToken d client ''refresh_token''
             (url_Hostname endpoint) (Token armToken) = Inr (Some refreshToken)"
      and "ExchangeACRRefreshTokenForACRAccessToken d client acrFQDN ''repository:*:pull''
             refreshToken = Inr (Some accessToken)"
  shows "ExchangeACRAccessToken d armToken acrFQDN =
     (case parseAccessToken d accessToken of
        Inl err \<Rightarrow> (AccessToken_zero, Some (Error ''failed to parse ACR access token''))
      | Inr OtherClaims \<Rightarrow>
          (AccessToken_zero, Some (Error ''unexpected claim type from ACR access token''))
      | Inr (MapClaims claims) \<Rightarrow>
     (case expiry_of_claim (float64_out_of_range d) (claims ''exp'') of
        Inl err \<Rightarrow> (AccessToken_zero, Some err)
      | Inr expiry \<Rightarrow> (\<lparr>Token = accessToken, ExpiresOn = expiry\<rparr>, None)))"
  using assms by (simp add: ExchangeACRAccessToken_def)


lemma unmarshal_other:
  "unmarshal False t = Some v \<Longrightarrow> \<forall>s. t \<noteq> TNumber s \<Longrightarrow>
   expiry_of_claim platform (Some v) = Inl (Error ''failed to parse ACR acess token expiration'')"
  by (cases t) (auto simp: expiry_of_claim_def)

text \<open>
  Claim C5, as amended. Instants are counted in nanoseconds since the epoch. When both
  exchanges have answered with a token, and the token can be taken apart, with the JSON
  object \<open>obj\<close> for its claims:
  if the expiry claim (the last entry of \<open>obj\<close> named exp) is a number, decoded to the
  float64 \<open>x\<close>, and \<open>x\<close> is at least \<open>- 2 ^ 63\<close> and less than \<open>2 ^ 63 - 62135596800\<close>, then
  the exchange succeeds and the AccessToken expires at the second \<open>x\<close>, truncated towards
  zero, since the epoch; a claim written as a whole number below \<open>2 ^ 53\<close> gives exactly
  that second;
  if the expiry claim is no number, or is missing, the exchange fails with the error that
  the expiration cannot be parsed;
  if a number among the claims is beyond the float64 range, or the token cannot be taken
  apart, the exchange fails with the error that the token cannot be parsed.
  The error for claims of an unexpected type is never returned.
\<close>

theorem ExchangeACRAccessToken_expiry:
  assumes "url_Parse d (''https://'' @ acrFQDN) = Inr endpoint"
      and "NewAuthenticationClient d (url_String endpoint) = Inr client"
      and "ExchangeAADAccessTokenForACRRefreshToken d client ''refresh_token''
             (url_Hostname endpoint) (Token armToken) = Inr (Some refreshToken)"
      and "ExchangeACRRefreshTokenForACRAccessToken d client acrFQDN ''repository:*:pull''
             refreshToken = Inr (Some accessToken)"
  shows "(DecodeToken d accessToken = Inr obj \<and> claimsDecodable obj
            \<and> map_of (rev obj) ''exp'' = Some (TNumber s) \<and> ParseFloat64 s = Some x
            \<and> - (2 ^ 63) \<le> x \<and> x < 2 ^ 63 - 62135596800
          \<longrightarrow> ExchangeACRAccessToken d armToken acrFQDN =
                (\<lparr>Token = accessToken,
                  ExpiresOn = (if 0 \<le> x then \<lfloor>x\<rfloor> else - \<lfloor>- x\<rfloor>) * 1000000000\<rparr>, None))
       \<and> (DecodeToken d accessToken = Inr obj \<and> claimsDecodable obj
            \<and> map_of (rev obj) ''exp'' = Some (TNumber s)
            \<and> isJSONInteger s \<and> decimalValue s < 2 ^ 53
          \<longrightarrow> ExchangeACRAccessToken d armToken acrFQDN =
                (\<lparr>Token = accessToken, ExpiresOn = int (decimalValue s) * 1000000000\<rparr>, None))
       \<and> (DecodeToken d accessToken = Inr obj \<and> claimsDecodable obj
            \<and> (\<forall>t. map_of (rev obj) ''exp'' \<noteq> Some (TNumber t))
          \<longrightarrow> ExchangeACRAccessToken d armToken acrFQDN =
                (AccessToken_zero, Some (Error ''failed to parse ACR acess token expiration'')))
       \<and> (DecodeToken d accessToken = Inr obj \<and> \<not> claimsDecodable obj
          \<longrightarrow> ExchangeACRAccessToken d armToken acrFQDN =
                (AccessToken_zero, Some (Error ''failed to parse ACR access token'')))
       \<and> (DecodeToken d accessToken = Inl err
          \<longrightarrow> ExchangeACRAccessToken d armToken acrFQDN =
                (AccessToken_zero, Some (Error ''failed to parse ACR access token'')))
       \<and> snd (ExchangeACRAccessToken d armToken acrFQDN)
           \<noteq> Some (Error ''unexpected claim type from ACR access token'')"
proof -
  note eq = exchange_reaches_decode [OF assms]
  have float: "ExchangeACRAccessToken d armToken acrFQDN =
      (\<lparr>Token = accessToken,
        ExpiresOn = (if 0 \<le> x then \<lfloor>x\<rfloor> else - \<lfloor>- x\<rfloor>) * 1000000000\<rparr>, None)"
    if dec: "DecodeToken d accessToken = Inr obj" "claimsDecodable obj"
      and claim: "map_of (rev obj) ''exp'' = Some (TNumber s)" "ParseFloat64 s = Some x"
      and range: "- (2 ^ 63) \<le> x" "x < 2 ^ 63 - 62135596800"
    for x
  proof -
    let ?n = "if 0 \<le> x then \<lfloor>x\<rfloor> else - \<lfloor>- x\<rfloor>"
    from range have big: "x < 2 ^ 63" by simp
    have lo: "- (2 ^ 63) \<le> ?n"
    proof (cases "0 \<le> x")
      case True
      then have "0 \<le> \<lfloor>x\<rfloor>" by simp
      with True show ?thesis by simp
    next
      case False
      from range(1) have "- x \<le> 2 ^ 63" by simp
      then have "\<lfloor>- x\<rfloor> \<le> \<lfloor>2 ^ 63 :: rat\<rfloor>" by (rule floor_mono)
      then have "\<lfloor>- x\<rfloor> \<le> 2 ^ 63" by simp
      with False show ?thesis by simp
    qed
    have hi: "?n < 2 ^ 63 - 62135596800"
    proof (cases "0 \<le> x")
      case True
      have "x < of_int (2 ^ 63 - 62135596800)" using range(2) by simp
      then have "\<lfloor>x\<rfloor> < 2 ^ 63 - 62135596800" by (simp only: floor_less_iff)
      with True show ?thesis by simp
    next
      case False
      then have "0 \<le> - x" by simp
      then have "0 \<le> \<lfloor>- x\<rfloor>" by simp
      moreover have "(0::int) < 2 ^ 63 - 62135596800" by simp
      ultimately have "- \<lfloor>- x\<rfloor> < 2 ^ 63 - 62135596800" by linarith
      with False show ?thesis by (simp only: if_False)
    qed
    from claim dec range big show ?thesis
      by (simp add: eq parseAccessToken_decodable [OF dec] expiry_of_claim_def
            int64_of_float64_def time_Unix_seconds [OF lo hi])
  qed
  have whole: "ExchangeACRAccessToken d armToken acrFQDN =
      (\<lparr>Token = accessToken, ExpiresOn = int (decimalValue s) * 1000000000\<rparr>, None)"
    if dec: "DecodeToken d accessToken = Inr obj" "claimsDecodable obj"
      and claim: "map_of (rev obj) ''exp'' = Some (TNumber s)"
      and int: "isJSONInteger s" "decimalValue s < 2 ^ 53"
  proof -
    have pf: "ParseFloat64 s = Some (of_nat (decimalValue s))"
      by (rule ParseFloat64_integer [OF int])
    have "(of_nat (decimalValue s) :: rat) < of_nat (2 ^ 53)"
      using int(2) by (simp only: of_nat_less_iff)
    then have "(of_nat (decimalValue s) :: rat) < 2 ^ 63 - 62135596800" by simp
    moreover have "- (2 ^ 63) \<le> (of_nat (decimalValue s) :: rat)"
      by (rule order_trans [of _ 0]) simp_all
    ultimately show ?thesis using float [OF dec claim pf] by simp
  qed
  have other: "ExchangeACRAccessToken d armToken acrFQDN =
      (AccessToken_zero, Some (Error ''failed to parse ACR acess token expiration''))"
    if dec: "DecodeToken d accessToken = Inr obj" "claimsDecodable obj"
      and claim: "\<forall>t. map_of (rev obj) ''exp'' \<noteq> Some (TNumber t)"
  proof (cases "map_of (rev obj) ''exp''")
    case None
    then show ?thesis
      by (simp add: eq parseAccessToken_decodable [OF dec] expiry_of_claim_def)
  next
    case (Some t)
    then have "(''exp'', t) \<in> set obj" using map_of_SomeD [of "rev obj" "''exp''" t] by simp
    with dec(2) obtain v where v: "unmarshal False t = Some v"
      by (force simp: claimsDecodable_def list_all_iff)
    from claim Some have "\<forall>s. t \<noteq> TNumber s" by simp
    from unmarshal_other [OF v this] Some v show ?thesis
      by (simp add: eq parseAccessToken_decodable [OF dec])
  qed
  have undecodable: "ExchangeACRAccessToken d armToken acrFQDN =
      (AccessToken_zero, Some (Error ''failed to parse ACR access token''))"
    if "DecodeToken d accessToken = Inr obj" "\<not> claimsDecodable obj"
    by (simp add: eq parseAccessToken_undecodable [OF that])
  have malformed: "ExchangeACRAccessToken d armToken acrFQDN =
      (AccessToken_zero, Some (Error ''failed to parse ACR access token''))"
    if "DecodeToken d accessToken = Inl err"
    by (simp add: eq parseAccessToken_error [OF that])
  have unexpected: "snd (ExchangeACRAccessToken d armToken acrFQDN)
      \<noteq> Some (Error ''unexpected claim type from ACR access token'')"
    using parseAccessToken_MapClaims [of d accessToken]
    by (auto simp: eq expiry_of_claim_def case_prod_beta
          split: sum.splits Claims.splits option.splits json_value.splits)
  from float whole other undecodable malformed unexpected show ?thesis by blast
qed

lemmas ex_exchange_defs = ex_exchange_def ex_url_Parse_def ex_armToken_def

lemmas num_defs = ParseFloat64_def parseNumber_def parseExponent_def roundFloat64_def
  roundHalfEven_def isDigit_def digitVal_def decimalValue_def Let_def bitlen.simps

text \<open>
  Tokens whose expiry claim is 1793584800.5, 1793584800, the string 1793584800 and
  1e309 (which no float64 holds), and a token that cannot be taken apart.
\<close>

theorem ExchangeACRAccessToken_expiry_witness:
  "ExchangeACRAccessToken
     (ex_exchange (Some ''refresh'') (Some ''access'') [(''exp'', TNumber ''1793584800.5'')])
     ex_armToken ''r.azurecr.io''
   = (\<lparr>Token = ''access'', ExpiresOn = 1793584800 * 1000000000\<rparr>, None)
   \<and> ExchangeACRAccessToken
     (ex_exchange (Some ''refresh'') (Some ''access'') [(''exp'', TNumber ''1793584800'')])
     ex_armToken ''r.azurecr.io''
   = (\<lparr>Token = ''access'', ExpiresOn = 1793584800 * 1000000000\<rparr>, None)
   \<and> ExchangeACRAccessToken
     (ex_exchange (Some ''refresh'') (Some ''access'') [(''exp'', TString ''1793584800'')])
     ex_armToken ''r.azurecr.io''
   = (AccessToken_zero, Some (Error ''failed to parse ACR acess token expiration''))
   \<and> ExchangeACRAccessToken
     (ex_exchange (Some ''refresh'') (Some ''access'') [(''exp'', TNumber ''1e309'')])
     ex_armToken ''r.azurecr.io''
   = (AccessToken_zero, Some (Error ''failed to parse ACR access token''))
   \<and> ExchangeACRAccessToken
     ((ex_exchange (Some ''refresh'') (Some ''access'') [])
        \<lparr>DecodeToken := \<lambda>token. Inl (Error ''token contains an invalid number of segments'')\<rparr>)
     ex_armToken ''r.azurecr.io''
   = (AccessToken_zero, Some (Error ''failed to parse ACR access token''))"
proof -
  let ?endpoint = "\<lparr>url_String = ''https://r.azurecr.io'', url_Hostname = ''r.azurecr.io''\<rparr>"
  have fl: "\<lfloor>3587169601 / 2 :: rat\<rfloor> = 1793584800"
    using floor_divide_of_int_eq [of 3587169601 2, where ?'a = rat] by simp
  have pf: "ParseFloat64 ''1793584800.5'' = Some (3587169601 / 2)"
    by (simp add: num_defs)
  have huge: "ParseFloat64 ''1e309'' = None"
    by (simp add: num_defs)
  have a: "ExchangeACRAccessToken
     (ex_exchange (Some ''refresh'') (Some ''access'') [(''exp'', TNumber ''1793584800.5'')])
     ex_armToken ''r.azurecr.io''
   = (\<lparr>Token = ''access'', ExpiresOn = 1793584800 * 1000000000\<rparr>, None)"
    using ExchangeACRAccessToken_expiry [where
        d = "ex_exchange (Some ''refresh'') (Some ''access'') [(''exp'', TNumber ''1793584800.5'')]"
        and acrFQDN = "''r.azurecr.io''" and endpoint = ?endpoint
        and client = "''https://r.azurecr.io''" and armToken = ex_armToken
        and refreshToken = "''refresh''" and accessToken = "''access''"
        and obj = "[(''exp'', TNumber ''1793584800.5'')]" and s = "''1793584800.5''"
        and x = "3587169601 / 2"] fl pf
    by (simp add: ex_exchange_defs claimsDecodable_def)
  have b: "ExchangeACRAccessToken
     (ex_exchange (Some ''refresh'') (Some ''access'') [(''exp'', TNumber ''1793584800'')])
     ex_armToken ''r.azurecr.io''
   = (\<lparr>Token = ''access'', ExpiresOn = 1793584800 * 1000000000\<rparr>, None)"
    using ExchangeACRAccessToken_expiry [where
        d = "ex_exchange (Some ''refresh'') (Some ''access'') [(''exp'', TNumber ''1793584800'')]"
        and acrFQDN = "''r.azurecr.io''" and endpoint = ?endpoint
        and client = "''https://r.azurecr.io''" and armToken = ex_armToken
        and refreshToken = "''refresh''" and accessToken = "''access''"
        and obj = "[(''exp'', TNumber ''1793584800'')]" and s = "''1793584800''"]
    by (simp add: ex_exchange_defs claimsDecodable_def isJSONInteger_def num_defs)
  have c: "ExchangeACRAccessToken
     (ex_exchange (Some ''refresh'') (Some ''access'') [(''exp'', TString ''1793584800'')])
     ex_armToken ''r.azurecr.io''
   = (AccessToken_zero, Some (Error ''failed to parse ACR acess token expiration''))"
    using ExchangeACRAccessToken_expiry [where
        d = "ex_exchange (Some ''refresh'') (Some ''access'') [(''exp'', TString ''1793584800'')]"
        and acrFQDN = "''r.azurecr.io''" and endpoint = ?endpoint
        and client = "''https://r.azurecr.io''" and armToken = ex_armToken
        and refreshToken = "''refresh''" and accessToken = "''access''"
        and obj = "[(''exp'', TString ''1793584800'')]"]
    by (simp add: ex_exchange_defs claimsDecodable_def)
  have d: "ExchangeACRAccessToken
     (ex_exchange (Some ''refresh'') (Some ''access'') [(''exp'', TNumber ''1e309'')])
     ex_armToken ''r.azurecr.io''
   = (AccessToken_zero, Some (Error ''failed to parse ACR access token''))"
    using ExchangeACRAccessToken_expiry [where
        d = "ex_exchange (Some ''refresh'') (Some ''access'') [(''exp'', TNumber ''1e309'')]"
        and acrFQDN = "''r.azurecr.io''" and endpoint = ?endpoint
        and client = "''https://r.azurecr.io''" and armToken = ex_armToken
        and refreshToken = "''refresh''" and accessToken = "''access''"
        and obj = "[(''exp'', TNumber ''1e309'')]"] huge
    by (simp add: ex_exchange_defs claimsDecodable_def)
  have e: "ExchangeACRAccessToken
     ((ex_exchange (Some ''refresh'') (Some ''access'') [])
        \<lparr>DecodeToken := \<lambda>token. Inl (Error ''token contains an invalid number of segments'')\<rparr>)
     ex_armToken ''r.azurecr.io''
   = (AccessToken_zero, Some (Error ''failed to parse ACR access token''))"
    using ExchangeACRAccessToken_expiry [where
        d = "(ex_exchange (Some ''refresh'') (Some ''access'') [])
               \<lparr>DecodeToken := \<lambda>token. Inl (Error ''token contains an invalid number of segments'')\<rparr>"
        and acrFQDN = "''r.azurecr.io''" and endpoint = ?endpoint
        and client = "''https://r.azurecr.io''" and armToken = ex_armToken
        and refreshToken = "''refresh''" and accessToken = "''access''"
        and err = "Error ''token contains an invalid number of segments''"]
    by (simp add: ex_exchange_defs)
  from a b c d e show ?thesis by simp
qed

text \<open>
  Claim C5 as stated fails. The expiry claim 1793584800.5 is decoded to that very
  float64, yet the token returned expires at second 1793584800, half a second earlier.
  The expiry claim 9223372036854774784 is a whole number that float64 and int64 both hold,
  yet the second count of the Time returned has wrapped around: in the order of Times it
  lies more than 9223372036 billion seconds before the epoch, and the refresh delay of
  the token is 0.
\<close>

theorem ExchangeACRAccessToken_expiry_counterexample:
  "ParseFloat64 ''1793584800.5'' = Some (3587169601 / 2)
   \<and> ExchangeACRAccessToken
     (ex_exchange (Some ''refresh'') (Some ''access'') [(''exp'', TNumber ''1793584800.5'')])
     ex_armToken ''r.azurecr.io''
   = (\<lparr>Token = ''access'', ExpiresOn = 1793584800 * 1000000000\<rparr>, None)
   \<and> ParseFloat64 ''9223372036854774784'' = Some 9223372036854774784
   \<and> ExchangeACRAccessToken
     (ex_exchange (Some ''refresh'') (Some ''access'')
        [(''exp'', TNumber ''9223372036854774784'')])
     ex_armToken ''r.azurecr.io''
   = (\<lparr>Token = ''access'', ExpiresOn = - 9223372036854776832 * 1000000000\<rparr>, None)
   \<and> getTokenRefreshDuration ex_now
       \<lparr>Token = ''access'', ExpiresOn = - 9223372036854776832 * 1000000000\<rparr> = 0"
proof -
  have fl: "\<lfloor>3587169601 / 2 :: rat\<rfloor> = 1793584800"
    using floor_divide_of_int_eq [of 3587169601 2, where ?'a = rat] by simp
  have pf: "ParseFloat64 ''1793584800.5'' = Some (3587169601 / 2)"
    by (simp add: num_defs)
  have pg: "ParseFloat64 ''9223372036854774784'' = Some 9223372036854774784"
    by (simp add: num_defs)
  have half: "ExchangeACRAccessToken
     (ex_exchange (Some ''refresh'') (Some ''access'') [(''exp'', TNumber ''1793584800.5'')])
     ex_armToken ''r.azurecr.io''
   = (\<lparr>Token = ''access'', ExpiresOn = 1793584800 * 1000000000\<rparr>, None)"
    using fl pf
    by (simp add: ExchangeACRAccessToken_def ex_exchange_defs parseAccessToken_def
          ParseUnverified_def NewParser_def expiry_of_claim_def int64_of_float64_def time_defs)
  have wrap: "ExchangeACRAccessToken
     (ex_exchange (Some ''refresh'') (Some ''access'')
        [(''exp'', TNumber ''9223372036854774784'')])
     ex_armToken ''r.azurecr.io''
   = (\<lparr>Token = ''access'', ExpiresOn = - 9223372036854776832 * 1000000000\<rparr>, None)"
    using pg
    by (simp add: ExchangeACRAccessToken_def ex_exchange_defs parseAccessToken_def
          ParseUnverified_def NewParser_def expiry_of_claim_def int64_of_float64_def time_defs)
  have delay: "getTokenRefreshDuration ex_now
       \<lparr>Token = ''access'', ExpiresOn = - 9223372036854776832 * 1000000000\<rparr> = 0"
    by (simp add: getTokenRefreshDuration_def ex_now_def time_defs)
  from pf half pg wrap delay show ?thesis by simp
qed

text \<open>
  Claim C6. When the refresh-token exchange answers with no refresh token, or the
  access-token exchange answers with no access token, \<^verbatim>\<open>ExchangeACRAccessToken\<close> returns
  the zero AccessToken together with the error that the response was empty.
\<close>

theorem ExchangeACRAccessToken_empty_response:
  assumes "url_Parse d (''https://'' @ acrFQDN) = Inr endpoint"
      and "NewAuthenticationClient d (url_String endpoint) = Inr client"
  shows "(ExchangeAADAccessTokenForACRRefreshToken d client ''refresh_token''
             (url_Hostname endpoint) (Token armToken) = Inr None
          \<longrightarrow> ExchangeACRAccessToken d armToken acrFQDN =
                (AccessToken_zero,
                 Some (Error
                   ''got an empty response when exchanging AAD access token for ACR refresh token'')))
       \<and> (ExchangeAADAccessTokenForACRRefreshToken d client ''refresh_token''
             (url_Hostname endpoint) (Token armToken) = Inr (Some refreshToken)
           \<and> ExchangeACRRefreshTokenForACRAccessToken d client acrFQDN ''repository:*:pull''
               refreshToken = Inr None
          \<longrightarrow> ExchangeACRAccessToken d armToken acrFQDN =
                (AccessToken_zero,
                 Some (Error
                   ''got an empty response when exchanging ACR refresh token for ACR access token'')))"
  using assms by (simp add: ExchangeACRAccessToken_def)

text \<open>A registry that answers the first exchange with no token, and one that answers the
  second exchange with no token.\<close>

theorem ExchangeACRAccessToken_empty_response_witness:
  "ExchangeACRAccessToken (ex_exchange None (Some ''access'') []) ex_armToken
     ''r.azurecr.io''
   = (\<lparr>Token = [], ExpiresOn = zeroTime\<rparr>,
      Some (Error
        ''got an empty response when exchanging AAD access token for ACR refresh token''))
   \<and> ExchangeACRAccessToken (ex_exchange (Some ''refresh'') None []) ex_armToken
     ''r.azurecr.io''
   = (\<lparr>Token = [], ExpiresOn = zeroTime\<rparr>,
      Some (Error
        ''got an empty response when exchanging ACR refresh token for ACR access token''))"
  using ExchangeACRAccessToken_empty_response [of
      "ex_exchange None (Some ''access'') []" "''r.azurecr.io''"
      "\<lparr>url_String = ''https://r.azurecr.io'', url_Hostname = ''r.azurecr.io''\<rparr>"
      "''https://r.azurecr.io''" ex_armToken]
    ExchangeACRAccessToken_empty_response [of
      "ex_exchange (Some ''refresh'') None []" "''r.azurecr.io''"
      "\<lparr>url_String = ''https://r.azurecr.io'', url_Hostname = ''r.azurecr.io''\<rparr>"
      "''https://r.azurecr.io''" ex_armToken "''refresh''"]
  by (simp add: ex_exchange_defs AccessToken_zero_def)





section \<open>Frame properties of the reconciler\<close>

lemmas prim_defs = record_call_def log_Error_def log_Info_def time_Now_def

lemmas client_defs = client_Get_AcrPullBinding_def client_Update_AcrPullBinding_def
  client_Status_Update_AcrPullBinding_def client_List_Secret_def client_Create_Secret_def
  client_Update_Secret_def client_Get_ServiceAccount_def client_Update_ServiceAccount_def

lemmas splits = prod.splits option.splits sum.splits if_splits

text \<open>Which steps leave the service accounts alone.\<close>

lemma sa_addFinalizer: "serviceAccounts (snd (addFinalizer r b w)) = serviceAccounts w"
  by (simp add: addFinalizer_def client_defs prim_defs Let_def split: splits)

lemma sa_acquireToken: "serviceAccounts (snd (acquireToken r b w)) = serviceAccounts w"
  by (simp add: acquireToken_def prim_defs split: splits)

lemma sa_setErrStatus: "serviceAccounts (snd (setErrStatus r e b w)) = serviceAccounts w"
  by (simp add: setErrStatus_def client_defs prim_defs Let_def split: splits)

lemma sa_setSuccessStatus: "serviceAccounts (snd (setSuccessStatus r deps b tok w)) = serviceAccounts w"
  by (simp add: setSuccessStatus_def client_defs prim_defs Let_def split: splits)

lemma sa_reconcilePullSecret:
  "serviceAccounts (snd (reconcilePullSecret r deps req b cfg w)) = serviceAccounts w"
  by (simp add: reconcilePullSecret_def client_defs prim_defs Let_def split: splits)

text \<open>The steps that write a service account keep the number of references with any one
  name at one or below.\<close>

lemma refCount_append:
  "refCount n (appendImagePullSecretRef sa m) = refCount n sa + (if m = n then 1 else 0)"
  by (simp add: refCount_def appendImagePullSecretRef_def)

lemma refCount_absent:
  "\<not> list_ex (\<lambda>reference. RefName reference = n) (ImagePullSecrets sa) \<Longrightarrow> refCount n sa = 0"
  by (simp add: refCount_def list_ex_iff filter_empty_conv)

lemma refCount_filter:
  "refCount n (sa\<lparr>ImagePullSecrets := filter P (ImagePullSecrets sa)\<rparr>) \<le> refCount n sa"
proof -
  have "length (filter (\<lambda>reference. RefName reference = n) (filter P (ImagePullSecrets sa)))
        = length (filter P (filter (\<lambda>reference. RefName reference = n) (ImagePullSecrets sa)))"
    by (simp add: conj_commute)
  also have "\<dots> \<le> length (filter (\<lambda>reference. RefName reference = n) (ImagePullSecrets sa))"
    by (rule length_filter_le)
  finally show ?thesis by (simp add: refCount_def)
qed

lemma atMostOneRef_replace:
  assumes "atMostOneRef n w" and "refCount n sa' \<le> 1"
  shows "list_all (\<lambda>sa. refCount n sa \<le> 1)
           (map (\<lambda>old. if Q old then sa' else old) (serviceAccounts w))"
  using assms by (auto simp: atMostOneRef_def list_all_iff)

lemma got_ServiceAccount:
  assumes "client_Get_ServiceAccount r ns san w = (Inr sa, w1)"
  shows "sa \<in> set (serviceAccounts w)" and "w1 = record_call (Get_ServiceAccount ns san) w"
  using assms
  by (auto simp: client_Get_ServiceAccount_def find_Some_iff split: splits)

lemma sa_Update_ServiceAccount:
  assumes "atMostOneRef n w" and "refCount n sa' \<le> 1"
  shows "atMostOneRef n (snd (client_Update_ServiceAccount r sa' w))"
  using atMostOneRef_replace [OF assms] assms(1)
  by (simp add: client_Update_ServiceAccount_def Let_def prim_defs atMostOneRef_def split: splits)

lemma atMostOneRef_cong:
  "serviceAccounts w' = serviceAccounts w \<Longrightarrow> atMostOneRef n w' = atMostOneRef n w"
  by (simp add: atMostOneRef_def)

lemma sa_updateServiceAccount:
  assumes "atMostOneRef n w"
  shows "atMostOneRef n (snd (updateServiceAccount r b req san w))"
proof (cases "client_Get_ServiceAccount r (ReqNamespace req) san w")
  case (Pair res w1)
  show ?thesis
  proof (cases res)
    case (Inl err)
    have "w1 = record_call (Get_ServiceAccount (ReqNamespace req) san) w"
      using Pair by (auto simp: client_Get_ServiceAccount_def split: splits)
    with Pair Inl assms show ?thesis
      by (simp add: updateServiceAccount_def prim_defs atMostOneRef_def)
  next
    case (Inr sa)
    note got = got_ServiceAccount [OF Pair [unfolded Inr]]
    from got(1) assms have le: "refCount n sa \<le> 1"
      by (simp add: atMostOneRef_def list_all_iff)
    have inv1: "atMostOneRef n (log_Info ''Updating default service account'' w1)"
      using assms got(2) by (simp add: atMostOneRef_def prim_defs)
    show ?thesis
    proof (cases "list_ex (\<lambda>reference. RefName reference = getPullSecretName (Name (BindingMeta b)))
                    (ImagePullSecrets sa)")
      case True
      with Pair Inr assms got(2) show ?thesis
        by (simp add: updateServiceAccount_def prim_defs atMostOneRef_def)
    next
      case False
      have "refCount n (appendImagePullSecretRef sa (getPullSecretName (Name (BindingMeta b)))) \<le> 1"
        using le refCount_absent [OF False] by (auto simp: refCount_append)
      from sa_Update_ServiceAccount [OF inv1 this, where r = r]
      show ?thesis using Pair Inr False
        by (auto simp: updateServiceAccount_def Let_def prim_defs atMostOneRef_def split: splits)
    qed
  qed
qed


lemma sa_Update_AcrPullBinding:
  "serviceAccounts (snd (client_Update_AcrPullBinding r b w)) = serviceAccounts w"
  by (simp add: client_defs prim_defs Let_def split: splits)

lemma sa_removeFinalizer_update:
  "serviceAccounts (snd (removeFinalizer_update r b w)) = serviceAccounts w"
  by (simp add: removeFinalizer_update_def client_defs prim_defs Let_def split: splits)

lemma sa_removeFinalizer:
  assumes "atMostOneRef n w"
  shows "atMostOneRef n (snd (removeFinalizer r b req san w))"
proof (cases "msiAcrPullFinalizerName \<in> set (Finalizers (BindingMeta b))")
  case False
  with assms show ?thesis by (simp add: removeFinalizer_def)
next
  case True
  show ?thesis
  proof (cases "client_Get_ServiceAccount r (ReqNamespace req) san w")
    case (Pair res w1)
    show ?thesis
    proof (cases res)
      case (Inl err)
      have w1: "w1 = record_call (Get_ServiceAccount (ReqNamespace req) san) w"
        using Pair by (auto simp: client_Get_ServiceAccount_def split: splits)
      with Pair Inl assms True show ?thesis
        by (simp add: removeFinalizer_def prim_defs atMostOneRef_def
              sa_removeFinalizer_update)
    next
      case (Inr sa)
      note got = got_ServiceAccount [OF Pair [unfolded Inr]]
      from got(1) assms have le: "refCount n sa \<le> 1"
        by (simp add: atMostOneRef_def list_all_iff)
      have inv1: "atMostOneRef n w1"
        using assms got(2) by (simp add: atMostOneRef_def prim_defs)
      have "refCount n (sa\<lparr>ImagePullSecrets :=
              filter (\<lambda>reference. RefName reference \<noteq> getPullSecretName (Name (BindingMeta b)))
                (ImagePullSecrets sa)\<rparr>) \<le> 1"
        using le refCount_filter [where n = n and sa = sa] by (rule_tac order_trans) auto
      from sa_Update_ServiceAccount [OF inv1 this, where r = r]
      show ?thesis using Pair Inr True
        by (auto simp: removeFinalizer_def Let_def prim_defs atMostOneRef_def
              sa_removeFinalizer_update split: splits)
    qed
  qed
qed


lemma snd_eqD: "f = (x, w') \<Longrightarrow> snd f = w'"
  by simp

text \<open>
  A property of the cluster that holds once the token has been requested, and that every
  later step of the active reconciliation keeps, holds when it ends.
\<close>

lemma reconcileActive_invariant:
  assumes start: "P (snd (acquireToken r b w))"
    and err: "\<And>e w. P w \<Longrightarrow> P (snd (setErrStatus r e b w))"
    and ps: "\<And>cfg w. P w \<Longrightarrow> P (snd (reconcilePullSecret r deps req b cfg w))"
    and us: "\<And>w. P w \<Longrightarrow> P (snd (updateServiceAccount r b req san w))"
    and ss: "\<And>tok w. P w \<Longrightarrow> P (snd (setSuccessStatus r deps b tok w))"
    and lg: "\<And>e m w. P w \<Longrightarrow> P (log_Error e m w)"
    and ck: "\<And>w. P w \<Longrightarrow> P (snd (time_Now deps w))"
  shows "P (snd (reconcileActive r deps req san b w))"
proof -
  obtain tok e w1 where a: "acquireToken r b w = ((tok, e), w1)"
    by (cases "acquireToken r b w") auto
  have p1: "P w1" using start a by simp
  show ?thesis
  proof (cases e)
    case (Some e1)
    obtain e2 b2 w2 where s: "setErrStatus r e1 b
        (log_Error e1 ''Failed to get ACR access token'' w1) = ((e2, b2), w2)"
      by (cases "setErrStatus r e1 b (log_Error e1 ''Failed to get ACR access token'' w1)") auto
    have "P (log_Error e1 ''Failed to get ACR access token'' w1)"
      by (rule lg [OF p1])
    then have "P (snd (setErrStatus r e1 b (log_Error e1 ''Failed to get ACR access token'' w1)))"
      by (rule err)
    then have p2: "P w2" using s by simp
    have "P (log_Error e' ''Failed to update error status'' w2)" for e'
      by (rule lg [OF p2])
    then show ?thesis using a Some s p2
      by (cases e2) (simp_all add: reconcileActive_def)
  next
    case None
    show ?thesis
    proof (cases "CreateACRDockerCfg deps (snd (snd (specOrDefault r (Spec b)))) tok")
      case (Inl e1)
      have "P (log_Error e1 ''unable to create DockerConfig'' w1)"
        by (rule lg [OF p1])
      with a None Inl show ?thesis by (simp add: reconcileActive_def)
    next
      case (Inr cfg)
      obtain out w2 where s2: "reconcilePullSecret r deps req b cfg w1 = (out, w2)"
        by (cases "reconcilePullSecret r deps req b cfg w1")
      have "P (snd (reconcilePullSecret r deps req b cfg w1))"
        by (rule ps [OF p1])
      then have p2: "P w2" using s2 by simp
      show ?thesis
      proof (cases out)
        case (Some x)
        with a None Inr s2 p2 show ?thesis by (simp add: reconcileActive_def)
      next
        case out_None: None
        obtain e3 w3 where s3: "updateServiceAccount r b req san w2 = (e3, w3)"
          by (cases "updateServiceAccount r b req san w2")
        have "P (snd (updateServiceAccount r b req san w2))"
          by (rule us [OF p2])
        then have p3: "P w3" using s3 by simp
        show ?thesis
        proof (cases e3)
          case (Some x)
          with a None Inr s2 out_None s3 p3 show ?thesis by (simp add: reconcileActive_def)
        next
          case e3_None: None
          obtain e4 b4 w4 where s4: "setSuccessStatus r deps b tok w3 = ((e4, b4), w4)"
            by (cases "setSuccessStatus r deps b tok w3") auto
          have "P (snd (setSuccessStatus r deps b tok w3))"
            by (rule ss [OF p3])
          then have p4: "P w4" using s4 by simp
          obtain now w5 where s5: "time_Now deps w4 = (now, w5)"
            by (cases "time_Now deps w4")
          have "P (snd (time_Now deps w4))"
            by (rule ck [OF p4])
          then have p5: "P w5" using s5 by simp
          have "P (log_Error e' ''Failed to update acr binding status'' w4)" for e'
            by (rule lg [OF p4])
          then show ?thesis using a None Inr s2 out_None s3 e3_None s4 s5 p5
            by (cases e4) (simp_all add: reconcileActive_def)
        qed
      qed
    qed
  qed
qed

text \<open>Requests are only ever added.\<close>

lemma calls_acquireToken:
  "snd (acquireToken r b w) = record_call (code_selector r (Spec b)) w"
  by (simp add: acquireToken_def specOrDefault_def code_selector_def Let_def)

lemma calls_setErrStatus: "prefix (calls w) (calls (snd (setErrStatus r e b w)))"
  by (simp add: setErrStatus_def client_defs prim_defs Let_def split: splits)

lemma calls_setSuccessStatus: "prefix (calls w) (calls (snd (setSuccessStatus r deps b tok w)))"
  by (simp add: setSuccessStatus_def client_defs prim_defs Let_def split: splits)

lemma calls_reconcilePullSecret:
  "prefix (calls w) (calls (snd (reconcilePullSecret r deps req b cfg w)))"
  by (simp add: reconcilePullSecret_def client_defs prim_defs Let_def split: splits)

lemma calls_updateServiceAccount:
  "prefix (calls w) (calls (snd (updateServiceAccount r b req san w)))"
  by (simp add: updateServiceAccount_def client_defs prim_defs Let_def split: splits)

lemma prefix_calls_trans:
  "prefix xs (calls w) \<Longrightarrow> prefix (calls w) (calls w') \<Longrightarrow> prefix xs (calls w')"
  by (rule prefix_order.trans)

lemma calls_reconcileActive:
  "prefix (calls w @ [code_selector r (Spec b)])
     (calls (snd (reconcileActive r deps req san b w)))"
proof (rule reconcileActive_invariant
    [where P = "\<lambda>w'. prefix (calls w @ [code_selector r (Spec b)]) (calls w')"])
  show "prefix (calls w @ [code_selector r (Spec b)]) (calls (snd (acquireToken r b w)))"
    by (simp add: calls_acquireToken prim_defs)
qed (auto intro: prefix_calls_trans calls_setErrStatus calls_setSuccessStatus
       calls_reconcilePullSecret calls_updateServiceAccount simp: prim_defs)

lemma Reconcile_active:
  assumes "client_Get_AcrPullBinding r (ReqNamespace req) (ReqName req) w = (Inr b, w1)"
      and "IsZero (DeletionTimestamp (BindingMeta b))"
      and "addFinalizer r b w1 = ((None, b'), w2)"
  shows "Reconcile r deps req w =
         reconcileActive r deps req (getServiceAccountName (ServiceAccountName (Spec b))) b' w2"
  using assms by (simp add: Reconcile_def)

lemma addFinalizer_Spec: "addFinalizer r b w = ((e, b'), w') \<Longrightarrow> Spec b' = Spec b"
  by (auto simp: addFinalizer_def Let_def split: splits)

text \<open>
  Claim C1, as amended. For every binding reconciled in the Active state (it is fetched,
  it is not being deleted, and \<^verbatim>\<open>addFinalizer\<close> returns without error), the next request
  of the cycle is the one to the authorizer, and the identity is selected with the
  precedence: the binding's client ID, then the configured default client ID, then the
  binding's resource ID, then the configured default resource ID. The registry host is
  the binding's, or the configured default when the binding names none.
\<close>

theorem Reconcile_selector_precedence:
  assumes "client_Get_AcrPullBinding r (ReqNamespace req) (ReqName req) w = (Inr b, w1)"
      and "IsZero (DeletionTimestamp (BindingMeta b))"
      and "addFinalizer r b w1 = ((None, b'), w2)"
  shows "prefix (calls w2 @ [code_selector r (Spec b)]) (calls (snd (Reconcile r deps req w)))"
  using calls_reconcileActive [of w2 r b' deps req] addFinalizer_Spec [OF assms(3)]
  by (simp add: Reconcile_active [OF assms])

lemmas store_defs = client_defs prim_defs is_named_def GetControllerOf_def indexOwner_def

lemmas rec_defs = Reconcile_def reconcileActive_def reconcilePullSecret_def acquireToken_def
  setErrStatus_def setSuccessStatus_def updateServiceAccount_def removeFinalizer_def
  removeFinalizer_update_def addFinalizer_def newBasePullSecret_def appendImagePullSecretRef_def
  updatePullSecret_def getPullSecret_def getPullSecretName_def getServiceAccountName_def
  specOrDefault_def IsZero_def

lemmas const_defs = msiAcrPullFinalizerName_def defaultServiceAccountName_def dockerConfigKey_def
  GroupVersion_String_def SecretTypeDockerConfigJson_def Result_zero_def

lemmas ex_defs = ex_now_def ex_token_def ex_auth_def ex_reconciler_def ex_owner_def ex_deps_def
  ex_meta_def ex_binding_def ex_serviceAccount_def ex_cluster_def ex_request_def
  ex_binding_active_def ex_cluster_active_def ex_reconciler_status_refused_def
  ex_reconciler_update_refused_def
  ex_auth_denied_def ex_reconciler_denied_def ex_other_secret_def ex_pull_secret_def
  ex_serviceAccount_attached_def ex_cluster_two_secrets_def ex_cluster_renewal_def
  ex_binding_deleting_def ex_cluster_deleting_def

text \<open>The example binding names a resource ID only; the default client ID is used.\<close>

theorem Reconcile_selector_precedence_witness:
  "client_Get_AcrPullBinding ex_reconciler ''ns1'' ''b1'' ex_cluster_active
     = (Inr ex_binding_active, record_call (Get_AcrPullBinding ''ns1'' ''b1'') ex_cluster_active)
   \<and> IsZero (DeletionTimestamp (BindingMeta ex_binding_active))
   \<and> prefix [Get_AcrPullBinding ''ns1'' ''b1'', Auth_WithClientID ''default-client'' ''r.azurecr.io'']
       (calls (snd (Reconcile ex_reconciler ex_deps ex_request ex_cluster_active)))"
proof -
  have g: "client_Get_AcrPullBinding ex_reconciler (ReqNamespace ex_request) (ReqName ex_request)
      ex_cluster_active
     = (Inr ex_binding_active, record_call (Get_AcrPullBinding ''ns1'' ''b1'') ex_cluster_active)"
    by (simp add: store_defs ex_defs)
  have z: "IsZero (DeletionTimestamp (BindingMeta ex_binding_active))"
    by (simp add: IsZero_def ex_defs)
  have a: "addFinalizer ex_reconciler ex_binding_active
        (record_call (Get_AcrPullBinding ''ns1'' ''b1'') ex_cluster_active)
     = ((None, ex_binding_active), record_call (Get_AcrPullBinding ''ns1'' ''b1'') ex_cluster_active)"
    by (simp add: addFinalizer_def ex_defs const_defs)
  have c: "code_selector ex_reconciler (Spec ex_binding_active)
     = Auth_WithClientID ''default-client'' ''r.azurecr.io''"
    by (simp add: code_selector_def ex_defs)
  from Reconcile_selector_precedence [OF g z a, of ex_deps] c g z
  show ?thesis by (simp add: prim_defs ex_cluster_active_def ex_cluster_def ex_request_def)
qed

text \<open>
  Claim C1 as stated fails: the binding carries the resource ID \<^verbatim>\<open>/sub/id1\<close> and no client
  ID, a default client ID is configured, and the stated precedence selects the resource
  ID; the reconciliation calls the authorizer with the default client ID instead.
\<close>

theorem Reconcile_selector_precedence_counterexample:
  "ManagedIdentityResourceID (Spec ex_binding_active) = ''/sub/id1''
   \<and> ManagedIdentityClientID (Spec ex_binding_active) = []
   \<and> spec_selector ex_reconciler (Spec ex_binding_active)
       = Auth_WithResourceID ''/sub/id1'' ''r.azurecr.io''
   \<and> calls (snd (Reconcile ex_reconciler ex_deps ex_request ex_cluster_active))
       = [Get_AcrPullBinding ''ns1'' ''b1'',
          Auth_WithClientID ''default-client'' ''r.azurecr.io'',
          List_Secret ''ns1'' ''b1'',
          Create_Secret ''ns1'' ''b1-msi-acrpull-secret'',
          Get_ServiceAccount ''ns1'' ''default'',
          Update_ServiceAccount ''ns1'' ''default'',
          Status_Update_AcrPullBinding ''ns1'' ''b1'']"
  by (simp add: rec_defs store_defs const_defs ex_defs path_Clean_def spec_selector_def Let_def)

section \<open>Properties of the service account attachment\<close>

lemma sa_reconcileActive:
  assumes "atMostOneRef n w"
  shows "atMostOneRef n (snd (reconcileActive r deps req san b w))"
proof (rule reconcileActive_invariant [where P = "atMostOneRef n"])
  show "atMostOneRef n (snd (acquireToken r b w))"
    using assms by (simp add: atMostOneRef_def sa_acquireToken)
qed (simp_all add: sa_updateServiceAccount,
     simp_all add: atMostOneRef_def sa_setErrStatus sa_setSuccessStatus sa_reconcilePullSecret
       prim_defs)

lemma got_AcrPullBinding:
  assumes "client_Get_AcrPullBinding r ns n w = (res, w1)"
  shows "w1 = record_call (Get_AcrPullBinding ns n) w"
    and "res = Inr b \<Longrightarrow> find (\<lambda>b. is_named ns n (BindingMeta b)) (bindings w) = Some b"
  using assms by (auto simp: client_Get_AcrPullBinding_def split: splits)

lemma sa_Reconcile:
  assumes "atMostOneRef n w"
  shows "atMostOneRef n (snd (Reconcile r deps req w))"
proof -
  obtain res w1 where g: "client_Get_AcrPullBinding r (ReqNamespace req) (ReqName req) w = (res, w1)"
    by (cases "client_Get_AcrPullBinding r (ReqNamespace req) (ReqName req) w")
  have i1: "atMostOneRef n w1"
    using assms got_AcrPullBinding(1) [OF g] by (simp add: atMostOneRef_def prim_defs)
  show ?thesis
  proof (cases res)
    case (Inl err)
    with g i1 show ?thesis by (simp add: Reconcile_def prim_defs atMostOneRef_def)
  next
    case (Inr b)
    show ?thesis
    proof (cases "IsZero (DeletionTimestamp (BindingMeta b))")
      case True
      obtain e b' w2 where af: "addFinalizer r b w1 = ((e, b'), w2)"
        by (cases "addFinalizer r b w1") auto
      have i2: "atMostOneRef n w2"
        using sa_addFinalizer [of r b w1] af i1 by (simp add: atMostOneRef_def)
      show ?thesis
        using g Inr True af i2 sa_reconcileActive [OF i2]
        by (cases e) (simp_all add: Reconcile_def)
    next
      case False
      obtain e w2 where rf: "removeFinalizer r b req
          (getServiceAccountName (ServiceAccountName (Spec b))) w1 = (e, w2)"
        by (cases "removeFinalizer r b req
          (getServiceAccountName (ServiceAccountName (Spec b))) w1")
      have i2: "atMostOneRef n w2"
        using sa_removeFinalizer [OF i1, where r = r and b = b and req = req
            and san = "getServiceAccountName (ServiceAccountName (Spec b))"] rf by simp
      show ?thesis
        using g Inr False rf i2 by (cases e) (simp_all add: Reconcile_def)
    qed
  qed
qed

lemma sa_reconcileMany:
  "atMostOneRef n w \<Longrightarrow> atMostOneRef n (reconcileMany cycles w)"
proof (induction cycles arbitrary: w)
  case Nil
  then show ?case by simp
next
  case (Cons c cycles)
  obtain r deps req where c: "c = (r, deps, req)" by (cases c)
  from Cons.prems have "atMostOneRef n (snd (Reconcile r deps req w))" by (rule sa_Reconcile)
  then show ?case using c by (simp add: Cons.IH)
qed

text \<open>
  Claim C8. When the service account that \<^verbatim>\<open>updateServiceAccount\<close> fetches already holds a
  reference with the derived secret's name, nothing is updated: the only request is the
  get, and the cluster is otherwise as before. As a consequence, in a cluster in which no
  service account holds two references with a given name, none does after any number of
  reconciliations.
\<close>

theorem updateServiceAccount_idempotent:
  "(client_Get_ServiceAccount r (ReqNamespace req) serviceAccountName w = (Inr sa, w')
      \<and> list_ex (\<lambda>reference. RefName reference = getPullSecretName (Name (BindingMeta b)))
            (ImagePullSecrets sa)
    \<longrightarrow> updateServiceAccount r b req serviceAccountName w
          = (None, record_call (Get_ServiceAccount (ReqNamespace req) serviceAccountName) w))
   \<and> (atMostOneRef n v \<longrightarrow> atMostOneRef n (reconcileMany cycles v))"
  using got_ServiceAccount(2)
  by (auto simp: updateServiceAccount_def sa_reconcileMany)

text \<open>Three reconciliations in a row of the example binding leave one reference.\<close>

theorem updateServiceAccount_idempotent_witness:
  "updateServiceAccount ex_reconciler ex_binding_active ex_request ''default'' ex_cluster_renewal
     = (None, record_call (Get_ServiceAccount ''ns1'' ''default'') ex_cluster_renewal)
   \<and> atMostOneRef ''b1-msi-acrpull-secret'' ex_cluster
   \<and> atMostOneRef ''b1-msi-acrpull-secret''
       (reconcileMany [(ex_reconciler, ex_deps, ex_request), (ex_reconciler, ex_deps, ex_request),
                       (ex_reconciler, ex_deps, ex_request)] ex_cluster)
   \<and> map ImagePullSecrets (serviceAccounts
       (reconcileMany [(ex_reconciler, ex_deps, ex_request), (ex_reconciler, ex_deps, ex_request),
                       (ex_reconciler, ex_deps, ex_request)] ex_cluster))
     = [[\<lparr>RefName = ''b1-msi-acrpull-secret''\<rparr>]]"
proof -
  have g: "client_Get_ServiceAccount ex_reconciler (ReqNamespace ex_request) ''default''
             ex_cluster_renewal
           = (Inr ex_serviceAccount_attached,
              record_call (Get_ServiceAccount ''ns1'' ''default'') ex_cluster_renewal)"
    by (simp add: store_defs ex_defs)
  have l: "list_ex (\<lambda>reference. RefName reference = getPullSecretName (Name (BindingMeta ex_binding_active)))
            (ImagePullSecrets ex_serviceAccount_attached)"
    by (simp add: getPullSecretName_def ex_defs)
  have i: "atMostOneRef ''b1-msi-acrpull-secret'' ex_cluster"
    by (simp add: atMostOneRef_def refCount_def ex_defs)
  have run: "map ImagePullSecrets (serviceAccounts
       (reconcileMany [(ex_reconciler, ex_deps, ex_request), (ex_reconciler, ex_deps, ex_request),
                       (ex_reconciler, ex_deps, ex_request)] ex_cluster))
     = [[\<lparr>RefName = ''b1-msi-acrpull-secret''\<rparr>]]"
    by (simp add: rec_defs store_defs const_defs ex_defs path_Clean_def Let_def)
  from updateServiceAccount_idempotent [where r = ex_reconciler and req = ex_request
      and serviceAccountName = "''default''" and w = ex_cluster_renewal
      and sa = ex_serviceAccount_attached and b = ex_binding_active
      and w' = "record_call (Get_ServiceAccount ''ns1'' ''default'') ex_cluster_renewal"
      and n = "''b1-msi-acrpull-secret''" and v = ex_cluster
      and cycles = "[(ex_reconciler, ex_deps, ex_request), (ex_reconciler, ex_deps, ex_request),
                       (ex_reconciler, ex_deps, ex_request)]"] g l i run
  show ?thesis by (simp add: ex_request_def)
qed

section \<open>Properties of the finalizer\<close>

lemma find_replace:
  assumes "find P xs = Some x" and "\<And>y. P y \<Longrightarrow> P (g y)"
  shows "find P (map (\<lambda>y. if P y then g y else y) xs) = Some (g x)"
  using assms by (induction xs) (auto split: if_splits)

lemma find_list_ex: "find P xs = Some x \<Longrightarrow> list_ex P xs"
  by (induction xs) (auto split: if_splits)

lemma find_meta:
  "find Q (map BindingMeta bs) = map_option BindingMeta (find (\<lambda>b. Q (BindingMeta b)) bs)"
  by (induction bs) auto

lemma hasFinalizer_meta:
  "hasFinalizer ns n w =
     (case find (is_named ns n) (map BindingMeta (bindings w)) of
        None \<Rightarrow> False | Some m \<Rightarrow> msiAcrPullFinalizerName \<in> set (Finalizers m))"
  by (simp add: hasFinalizer_def find_meta split: option.splits)

text \<open>The steps of the active reconciliation write the status of a binding only.\<close>

lemma meta_Status_Update:
  "map BindingMeta (bindings (snd (client_Status_Update_AcrPullBinding r b w)))
   = map BindingMeta (bindings w)"
  by (simp add: client_Status_Update_AcrPullBinding_def prim_defs Let_def o_def
        split: splits cong: if_cong)

lemma meta_setErrStatus:
  "map BindingMeta (bindings (snd (setErrStatus r e b w))) = map BindingMeta (bindings w)"
  by (simp add: setErrStatus_def Let_def case_prod_beta meta_Status_Update)

lemma meta_setSuccessStatus:
  "map BindingMeta (bindings (snd (setSuccessStatus r deps b tok w)))
   = map BindingMeta (bindings w)"
  by (simp add: setSuccessStatus_def Let_def case_prod_beta meta_Status_Update time_Now_def)

lemma bindings_reconcilePullSecret:
  "bindings (snd (reconcilePullSecret r deps req b cfg w)) = bindings w"
  by (simp add: reconcilePullSecret_def client_defs prim_defs Let_def split: splits)

lemma bindings_updateServiceAccount:
  "bindings (snd (updateServiceAccount r b req san w)) = bindings w"
  by (simp add: updateServiceAccount_def client_defs prim_defs Let_def split: splits)

lemma meta_reconcileActive:
  "map BindingMeta (bindings (snd (reconcileActive r deps req san b w)))
   = map BindingMeta (bindings w)"
proof (rule reconcileActive_invariant
    [where P = "\<lambda>w'. map BindingMeta (bindings w') = map BindingMeta (bindings w)"])
  show "map BindingMeta (bindings (snd (acquireToken r b w))) = map BindingMeta (bindings w)"
    by (simp add: calls_acquireToken prim_defs)
qed (simp_all add: meta_setErrStatus meta_setSuccessStatus bindings_reconcilePullSecret
       bindings_updateServiceAccount prim_defs)

lemma hasFinalizer_reconcileActive:
  "hasFinalizer ns n (snd (reconcileActive r deps req san b w)) = hasFinalizer ns n w"
  by (simp add: hasFinalizer_meta meta_reconcileActive)

lemma named_finalizer_added:
  "is_named ns n (BindingMeta (b\<lparr>BindingMeta := (BindingMeta b)\<lparr>Finalizers := fs\<rparr>\<rparr>))
   = is_named ns n (BindingMeta b)"
  by (simp add: is_named_def)

lemma Update_AcrPullBinding_accepted:
  assumes "find (\<lambda>b. is_named ns n (BindingMeta b)) (bindings w) = Some b"
      and "client_Update_AcrPullBinding r (b\<lparr>BindingMeta := (BindingMeta b)\<lparr>Finalizers := fs\<rparr>\<rparr>) w
           = (None, w')"
  shows "find (\<lambda>b. is_named ns n (BindingMeta b)) (bindings w')
         = Some (b\<lparr>BindingMeta := (BindingMeta b)\<lparr>Finalizers := fs\<rparr>\<rparr>)"
    and "calls w' = calls w @ [Update_AcrPullBinding ns n]"
    and "secrets w' = secrets w" and "serviceAccounts w' = serviceAccounts w"
    and "logs w' = logs w" and "clock w' = clock w"
proof -
  from assms(1) have named: "is_named ns n (BindingMeta b)"
    by (auto simp: find_Some_iff)
  then have key: "Namespace (BindingMeta b) = ns" "Name (BindingMeta b) = n"
    by (simp_all add: is_named_def)
  let ?b = "b\<lparr>BindingMeta := (BindingMeta b)\<lparr>Finalizers := fs\<rparr>\<rparr>"
  have w': "w' = (record_call (Update_AcrPullBinding ns n) w)
      \<lparr>bindings := map (\<lambda>old. if is_named ns n (BindingMeta old)
                                then ?b\<lparr>Status := Status old\<rparr> else old) (bindings w)\<rparr>"
    using assms(2) key by (simp add: client_Update_AcrPullBinding_def Let_def split: splits)
  have "find (\<lambda>b. is_named ns n (BindingMeta b))
          (map (\<lambda>old. if is_named ns n (BindingMeta old) then ?b\<lparr>Status := Status old\<rparr> else old)
             (bindings w))
        = Some (?b\<lparr>Status := Status b\<rparr>)"
    using find_replace [OF assms(1), where g = "\<lambda>old. ?b\<lparr>Status := Status old\<rparr>"] named
    by (simp add: is_named_def)
  then show "find (\<lambda>b. is_named ns n (BindingMeta b)) (bindings w') = Some ?b"
    by (simp add: w')
  show "calls w' = calls w @ [Update_AcrPullBinding ns n]"
    and "secrets w' = secrets w" and "serviceAccounts w' = serviceAccounts w"
    and "logs w' = logs w" and "clock w' = clock w"
    by (simp_all add: w' prim_defs)
qed

lemma Update_AcrPullBinding_refused:
  assumes "find (\<lambda>b. is_named ns n (BindingMeta b)) (bindings w) = Some b"
      and "client_Update_AcrPullBinding r (b\<lparr>BindingMeta := (BindingMeta b)\<lparr>Finalizers := fs\<rparr>\<rparr>) w
           = (Some err, w')"
  shows "w' = record_call (Update_AcrPullBinding ns n) w"
proof -
  from assms(1) have "is_named ns n (BindingMeta b)"
    by (auto simp: find_Some_iff)
  then have key: "Namespace (BindingMeta b) = ns" "Name (BindingMeta b) = n"
    by (simp_all add: is_named_def)
  show ?thesis
    using assms(2) key by (simp add: client_Update_AcrPullBinding_def Let_def split: splits)
qed

text \<open>What the later steps of the cycle leave behind when they succeed.\<close>

lemma acquireToken_state:
  "acquireToken r b w = (res, w1) \<Longrightarrow> w1 = record_call (code_selector r (Spec b)) w"
  using calls_acquireToken [of r b w] by simp

lemma hd_filter_mem: "filter P xs \<noteq> [] \<Longrightarrow> filter P xs ! 0 \<in> set xs"
proof -
  assume ne: "filter P xs \<noteq> []"
  then have "filter P xs ! 0 \<in> set (filter P xs)" by (intro nth_mem) simp
  then show ?thesis by simp
qed

lemma replaced_mem:
  "list_ex P xs \<Longrightarrow> s \<in> set (map (\<lambda>old. if P old then s else old) xs)"
  by (induction xs) auto

lemma reconcilePullSecret_done:
  assumes "reconcilePullSecret r deps req b cfg w = (None, w2)"
  shows "\<exists>c. isSecretWrite c
              \<and> calls w2 = calls w @ [List_Secret (ReqNamespace req) (ReqName req), c]"
    and "\<exists>s\<in>set (secrets w2). newBasePullSecret deps b cfg = Inr s
            \<or> (\<exists>old\<in>set (secrets w). updatePullSecret old cfg = Some s)"
    and "bindings w2 = bindings w" and "serviceAccounts w2 = serviceAccounts w"
    and "clock w2 = clock w"
proof -
  let ?ns = "ReqNamespace req" and ?n = "ReqName req"
  obtain res w1 where l: "client_List_Secret r ?ns ?n w = (res, w1)"
    by (cases "client_List_Secret r ?ns ?n w")
  from assms l obtain items where items: "res = Inr items"
    by (cases res) (simp_all add: reconcilePullSecret_def)
  from l items have w1: "w1 = record_call (List_Secret ?ns ?n) w"
    and flt: "items = filter (\<lambda>s. Namespace (SecretMeta s) = ?ns \<and> ?n \<in> set (indexOwner s))
                (secrets w)"
    by (auto simp: client_List_Secret_def split: splits)
  let ?w1 = "record_call (List_Secret ?ns ?n) w"
  have all: "(\<exists>c. isSecretWrite c \<and> calls w2 = calls w @ [List_Secret ?ns ?n, c])
      \<and> (\<exists>s\<in>set (secrets w2). newBasePullSecret deps b cfg = Inr s
            \<or> (\<exists>old\<in>set (secrets w). updatePullSecret old cfg = Some s))
      \<and> bindings w2 = bindings w \<and> serviceAccounts w2 = serviceAccounts w
      \<and> clock w2 = clock w"
  proof (cases "getPullSecret b items")
    case None
    with assms l items obtain s where s: "newBasePullSecret deps b cfg = Inr s"
      by (cases "newBasePullSecret deps b cfg") (simp_all add: reconcilePullSecret_def)
    from assms l items None s w1
    have c: "client_Create_Secret r s (log_Info ''Creating new pull secret'' ?w1) = (None, w2)"
      by (simp add: reconcilePullSecret_def split: splits)
    then have w2: "w2 = (record_call (Create_Secret (Namespace (SecretMeta s)) (Name (SecretMeta s)))
          (log_Info ''Creating new pull secret'' ?w1))
        \<lparr>secrets := secrets w @ [s]\<rparr>"
      by (simp add: client_Create_Secret_def Let_def prim_defs split: splits)
    have "isSecretWrite (Create_Secret (Namespace (SecretMeta s)) (Name (SecretMeta s)))"
      by (simp add: isSecretWrite_def)
    moreover have "calls w2 = calls w @ [List_Secret ?ns ?n,
        Create_Secret (Namespace (SecretMeta s)) (Name (SecretMeta s))]"
      by (simp add: w2 prim_defs)
    moreover have "s \<in> set (secrets w2)" by (simp add: w2 prim_defs)
    moreover have "bindings w2 = bindings w" "serviceAccounts w2 = serviceAccounts w"
      "clock w2 = clock w"
      by (simp_all add: w2 prim_defs)
    ultimately show ?thesis using s by blast
  next
    case (Some found)
    then have ne: "items \<noteq> []" by (auto simp: getPullSecret_def split: if_splits)
    from assms l items Some obtain s where s: "updatePullSecret (items ! 0) cfg = Some s"
      by (cases "updatePullSecret (items ! 0) cfg") (simp_all add: reconcilePullSecret_def)
    from ne have old: "items ! 0 \<in> set (secrets w)"
      unfolding flt by (rule hd_filter_mem)
    from assms l items Some s w1
    have c: "client_Update_Secret r s (log_Info ''Updating existing pull secret'' ?w1) = (None, w2)"
      by (simp add: reconcilePullSecret_def split: splits)
    let ?P = "\<lambda>old. is_named (Namespace (SecretMeta s)) (Name (SecretMeta s)) (SecretMeta old)"
    from c have ex: "list_ex ?P (secrets w)"
      by (simp add: client_Update_Secret_def Let_def prim_defs split: splits)
    from c have w2: "w2 = (record_call (Update_Secret (Namespace (SecretMeta s)) (Name (SecretMeta s)))
          (log_Info ''Updating existing pull secret'' ?w1))
        \<lparr>secrets := map (\<lambda>old. if ?P old then s else old) (secrets w)\<rparr>"
      by (simp add: client_Update_Secret_def Let_def prim_defs split: splits)
    have "isSecretWrite (Update_Secret (Namespace (SecretMeta s)) (Name (SecretMeta s)))"
      by (simp add: isSecretWrite_def)
    moreover have "calls w2 = calls w @ [List_Secret ?ns ?n,
        Update_Secret (Namespace (SecretMeta s)) (Name (SecretMeta s))]"
      by (simp add: w2 prim_defs)
    moreover have "s \<in> set (secrets w2)"
      using replaced_mem [OF ex, of s] by (simp add: w2 prim_defs)
    moreover have "bindings w2 = bindings w" "serviceAccounts w2 = serviceAccounts w"
      "clock w2 = clock w"
      by (simp_all add: w2 prim_defs)
    ultimately show ?thesis using s old by blast
  qed
  from all show "\<exists>c. isSecretWrite c
              \<and> calls w2 = calls w @ [List_Secret (ReqNamespace req) (ReqName req), c]"
    and "\<exists>s\<in>set (secrets w2). newBasePullSecret deps b cfg = Inr s
            \<or> (\<exists>old\<in>set (secrets w). updatePullSecret old cfg = Some s)"
    and "bindings w2 = bindings w" and "serviceAccounts w2 = serviceAccounts w"
    and "clock w2 = clock w"
    by blast+
qed

lemma find_named_ServiceAccount:
  assumes "client_Get_ServiceAccount r ns san w = (Inr sa, w1)"
  shows "find (\<lambda>sa. is_named ns san (ServiceAccountMeta sa)) (serviceAccounts w) = Some sa"
  using assms by (auto simp: client_Get_ServiceAccount_def split: splits)

lemma updateServiceAccount_done:
  assumes "updateServiceAccount r b req san w = (None, w3)"
  shows "\<exists>cs. (cs = [] \<or> cs = [Update_ServiceAccount (ReqNamespace req) san])
              \<and> calls w3 = calls w @ [Get_ServiceAccount (ReqNamespace req) san] @ cs"
    and "hasPullSecretRef (ReqNamespace req) san (getPullSecretName (Name (BindingMeta b))) w3"
    and "bindings w3 = bindings w" and "secrets w3 = secrets w" and "clock w3 = clock w"
proof -
  let ?ns = "ReqNamespace req" and ?psn = "getPullSecretName (Name (BindingMeta b))"
  let ?P = "\<lambda>sa. is_named ?ns san (ServiceAccountMeta sa)"
  obtain res w1 where g: "client_Get_ServiceAccount r ?ns san w = (res, w1)"
    by (cases "client_Get_ServiceAccount r ?ns san w")
  from assms g obtain sa where sa: "res = Inr sa"
    by (cases res) (simp_all add: updateServiceAccount_def)
  note got = got_ServiceAccount [OF g [unfolded sa]]
  note found = find_named_ServiceAccount [OF g [unfolded sa]]
  from found have named: "?P sa" by (auto simp: find_Some_iff)
  then have key: "Namespace (ServiceAccountMeta sa) = ?ns" "Name (ServiceAccountMeta sa) = san"
    by (simp_all add: is_named_def)
  have all: "(\<exists>cs. (cs = [] \<or> cs = [Update_ServiceAccount ?ns san])
              \<and> calls w3 = calls w @ [Get_ServiceAccount ?ns san] @ cs)
      \<and> hasPullSecretRef ?ns san ?psn w3
      \<and> bindings w3 = bindings w \<and> secrets w3 = secrets w \<and> clock w3 = clock w"
  proof (cases "list_ex (\<lambda>reference. RefName reference = ?psn) (ImagePullSecrets sa)")
    case True
    with assms g sa have w3: "w3 = w1" by (simp add: updateServiceAccount_def Let_def)
    have "hasPullSecretRef ?ns san ?psn w3"
      using True found by (simp add: hasPullSecretRef_def w3 got(2) prim_defs)
    moreover have "calls w3 = calls w @ [Get_ServiceAccount ?ns san] @ []"
      by (simp add: w3 got(2) prim_defs)
    moreover have "bindings w3 = bindings w" "secrets w3 = secrets w" "clock w3 = clock w"
      by (simp_all add: w3 got(2) prim_defs)
    ultimately show ?thesis by blast
  next
    case False
    let ?sa = "appendImagePullSecretRef sa ?psn"
    let ?w1 = "log_Info ''Updating default service account'' (record_call (Get_ServiceAccount ?ns san) w)"
    from assms g sa False got(2)
    have u: "client_Update_ServiceAccount r ?sa ?w1 = (None, w3)"
      by (simp add: updateServiceAccount_def Let_def split: splits)
    have key': "Namespace (ServiceAccountMeta ?sa) = ?ns" "Name (ServiceAccountMeta ?sa) = san"
      using key by (simp_all add: appendImagePullSecretRef_def)
    from u key' have w3: "w3 = (record_call (Update_ServiceAccount ?ns san) ?w1)
        \<lparr>serviceAccounts := map (\<lambda>old. if ?P old then ?sa else old) (serviceAccounts w)\<rparr>"
      by (simp add: client_Update_ServiceAccount_def Let_def prim_defs split: splits)
    have "find ?P (map (\<lambda>old. if ?P old then ?sa else old) (serviceAccounts w)) = Some ?sa"
      using find_replace [OF found, where g = "\<lambda>old. ?sa"] key' by (simp add: is_named_def)
    then have "hasPullSecretRef ?ns san ?psn w3"
      by (simp add: hasPullSecretRef_def w3 prim_defs appendImagePullSecretRef_def)
    moreover have "calls w3 = calls w @ [Get_ServiceAccount ?ns san] @ [Update_ServiceAccount ?ns san]"
      by (simp add: w3 prim_defs)
    moreover have "bindings w3 = bindings w" "secrets w3 = secrets w" "clock w3 = clock w"
      by (simp_all add: w3 prim_defs)
    ultimately show ?thesis by blast
  qed
  from all show "\<exists>cs. (cs = [] \<or> cs = [Update_ServiceAccount (ReqNamespace req) san])
              \<and> calls w3 = calls w @ [Get_ServiceAccount (ReqNamespace req) san] @ cs"
    and "hasPullSecretRef (ReqNamespace req) san (getPullSecretName (Name (BindingMeta b))) w3"
    and "bindings w3 = bindings w" and "secrets w3 = secrets w" and "clock w3 = clock w"
    by blast+
qed

lemma find_Some_ex: "list_ex P xs \<Longrightarrow> \<exists>x. find P xs = Some x"
  by (induction xs) auto

lemma setSuccessStatus_done:
  assumes "setSuccessStatus r deps b tok w = ((None, b'), w4)"
      and "is_named ns n (BindingMeta b)"
  shows "calls w4 = calls w @ [Status_Update_AcrPullBinding ns n]"
    and "storedStatus ns n w4 =
           Some \<lparr>LastTokenRefreshTime = Some (Now deps (clock w)),
                 TokenExpirationTime = Some (ExpiresOn tok), Error' = []\<rparr>"
    and "secrets w4 = secrets w" and "serviceAccounts w4 = serviceAccounts w"
    and "clock w4 = Suc (clock w)"
proof -
  let ?P = "\<lambda>old. is_named ns n (BindingMeta old)"
  let ?st = "\<lparr>LastTokenRefreshTime = Some (Now deps (clock w)),
              TokenExpirationTime = Some (ExpiresOn tok), Error' = []\<rparr>"
  let ?w1 = "w\<lparr>clock := Suc (clock w)\<rparr>"
  from assms(2) have key: "Namespace (BindingMeta b) = ns" "Name (BindingMeta b) = n"
    by (simp_all add: is_named_def)
  from assms(1) have u: "client_Status_Update_AcrPullBinding r (b\<lparr>Status := ?st\<rparr>) ?w1 = (None, w4)"
    by (simp add: setSuccessStatus_def time_Now_def Let_def split: splits)
  from u key have ex: "list_ex ?P (bindings w)"
    by (simp add: client_Status_Update_AcrPullBinding_def Let_def prim_defs split: splits)
  from u key have w4: "w4 = (record_call (Status_Update_AcrPullBinding ns n) ?w1)
      \<lparr>bindings := map (\<lambda>old. if ?P old then old\<lparr>Status := ?st\<rparr> else old) (bindings w)\<rparr>"
    by (auto simp: client_Status_Update_AcrPullBinding_def Let_def prim_defs
          split: splits cong: if_cong)
  from find_Some_ex [OF ex] obtain old where old: "find ?P (bindings w) = Some old" by blast
  have "find ?P (map (\<lambda>old. if ?P old then old\<lparr>Status := ?st\<rparr> else old) (bindings w))
        = Some (old\<lparr>Status := ?st\<rparr>)"
    using find_replace [OF old, where g = "\<lambda>old. old\<lparr>Status := ?st\<rparr>"] by simp
  then show "storedStatus ns n w4 = Some ?st"
    by (simp add: storedStatus_def w4 prim_defs)
  show "calls w4 = calls w @ [Status_Update_AcrPullBinding ns n]"
    and "secrets w4 = secrets w" and "serviceAccounts w4 = serviceAccounts w"
    and "clock w4 = Suc (clock w)"
    by (simp_all add: w4 prim_defs)
qed

text \<open>
  Claim C2, as amended. For every Active binding that does not yet carry the finalizer,
  the reconciliation appends the finalizer and sends the update of the binding. When the
  store refuses the update, the cycle ends there with the store's error: it has requested
  no token, created no secret and attached nothing. When the store accepts it, the
  finalizer is persisted, it is still there when the cycle ends, and the same cycle goes
  on: its next request is the one to the authorizer. When moreover each later step
  succeeds (the authorizer issues a token, the docker configuration is built from it, the
  pull secret is reconciled, the service account is updated and the status is written),
  that same cycle lists the secrets of the binding and creates or updates a secret with
  the configuration, fetches the service account and leaves it with a reference to the
  pull secret, writes the time of the refresh and the expiry of the token into the status
  of the binding, and ends without error, asking to be run again after the refresh
  delay of the token.
\<close>

theorem Reconcile_adds_finalizer:
  assumes "client_Get_AcrPullBinding r (ReqNamespace req) (ReqName req) w = (Inr b, w')"
      and "IsZero (DeletionTimestamp (BindingMeta b))"
      and "msiAcrPullFinalizerName \<notin> set (Finalizers (BindingMeta b))"
      and "client_Update_AcrPullBinding r
             (b\<lparr>BindingMeta := (BindingMeta b)
                  \<lparr>Finalizers := Finalizers (BindingMeta b) @ [msiAcrPullFinalizerName]\<rparr>\<rparr>) w'
           = (e, w'')"
  shows "(e = Some err \<longrightarrow>
            Reconcile r deps req w
            = (Return Result_zero (Some err),
               (log_Error err ''Failed to append acr pull binding finalizer''
                 (record_call (Update_AcrPullBinding (ReqNamespace req) (ReqName req))
                   (record_call (Get_AcrPullBinding (ReqNamespace req) (ReqName req)) w)))))
       \<and> (e = None \<longrightarrow>
            hasFinalizer (ReqNamespace req) (ReqName req) w''
            \<and> hasFinalizer (ReqNamespace req) (ReqName req) (snd (Reconcile r deps req w))
            \<and> prefix (calls w @ [Get_AcrPullBinding (ReqNamespace req) (ReqName req),
                                  Update_AcrPullBinding (ReqNamespace req) (ReqName req),
                                  code_selector r (Spec b)])
                 (calls (snd (Reconcile r deps req w))))
       \<and> (e = None
          \<and> acquireToken r
              (b\<lparr>BindingMeta := (BindingMeta b)
                   \<lparr>Finalizers := Finalizers (BindingMeta b) @ [msiAcrPullFinalizerName]\<rparr>\<rparr>) w''
            = ((tok, None), w_token)
          \<and> CreateACRDockerCfg deps (snd (snd (specOrDefault r (Spec b)))) tok = Inr cfg
          \<and> reconcilePullSecret r deps req
              (b\<lparr>BindingMeta := (BindingMeta b)
                   \<lparr>Finalizers := Finalizers (BindingMeta b) @ [msiAcrPullFinalizerName]\<rparr>\<rparr>)
              cfg w_token
            = (None, w_secret)
          \<and> updateServiceAccount r
              (b\<lparr>BindingMeta := (BindingMeta b)
                   \<lparr>Finalizers := Finalizers (BindingMeta b) @ [msiAcrPullFinalizerName]\<rparr>\<rparr>)
              req (getServiceAccountName (ServiceAccountName (Spec b))) w_secret
            = (None, w_account)
          \<and> setSuccessStatus r deps
              (b\<lparr>BindingMeta := (BindingMeta b)
                   \<lparr>Finalizers := Finalizers (BindingMeta b) @ [msiAcrPullFinalizerName]\<rparr>\<rparr>)
              tok w_account
            = ((None, b''), w_status)
          \<longrightarrow>
            Reconcile r deps req w
            = (Return \<lparr>Requeue = False,
                       RequeueAfter = getTokenRefreshDuration (Now deps (Suc (clock w))) tok\<rparr>
                 None,
               w_status\<lparr>clock := Suc (Suc (clock w))\<rparr>)
            \<and> (\<exists>c cs. isSecretWrite c
                  \<and> (cs = [] \<or> cs = [Update_ServiceAccount (ReqNamespace req)
                                        (getServiceAccountName (ServiceAccountName (Spec b)))])
                  \<and> calls (snd (Reconcile r deps req w))
                    = calls w @ [Get_AcrPullBinding (ReqNamespace req) (ReqName req),
                                 Update_AcrPullBinding (ReqNamespace req) (ReqName req),
                                 code_selector r (Spec b),
                                 List_Secret (ReqNamespace req) (ReqName req),
                                 c,
                                 Get_ServiceAccount (ReqNamespace req)
                                   (getServiceAccountName (ServiceAccountName (Spec b)))]
                      @ cs
                      @ [Status_Update_AcrPullBinding (ReqNamespace req) (ReqName req)])
            \<and> (\<exists>s\<in>set (secrets (snd (Reconcile r deps req w))).
                  newBasePullSecret deps
                    (b\<lparr>BindingMeta := (BindingMeta b)
                         \<lparr>Finalizers := Finalizers (BindingMeta b) @ [msiAcrPullFinalizerName]\<rparr>\<rparr>)
                    cfg = Inr s
                  \<or> (\<exists>old\<in>set (secrets w). updatePullSecret old cfg = Some s))
            \<and> hasPullSecretRef (ReqNamespace req)
                (getServiceAccountName (ServiceAccountName (Spec b)))
                (getPullSecretName (ReqName req)) (snd (Reconcile r deps req w))
            \<and> storedStatus (ReqNamespace req) (ReqName req) (snd (Reconcile r deps req w))
              = Some \<lparr>LastTokenRefreshTime = Some (Now deps (clock w)),
                      TokenExpirationTime = Some (ExpiresOn tok), Error' = []\<rparr>)"
proof -
  let ?ns = "ReqNamespace req" and ?n = "ReqName req"
  let ?san = "getServiceAccountName (ServiceAccountName (Spec b))"
  let ?b = "b\<lparr>BindingMeta := (BindingMeta b)
                  \<lparr>Finalizers := Finalizers (BindingMeta b) @ [msiAcrPullFinalizerName]\<rparr>\<rparr>"
  note g = got_AcrPullBinding [OF assms(1)]
  have found: "find (\<lambda>b. is_named ?ns ?n (BindingMeta b)) (bindings w') = Some b"
    using g(2) by (simp add: g(1) prim_defs)
  then have named: "is_named ?ns ?n (BindingMeta b)" by (auto simp: find_Some_iff)
  have refused: "Reconcile r deps req w
            = (Return Result_zero (Some err),
               (log_Error err ''Failed to append acr pull binding finalizer''
                 (record_call (Update_AcrPullBinding ?ns ?n)
                   (record_call (Get_AcrPullBinding ?ns ?n) w))))" if "e = Some err"
    using assms that Update_AcrPullBinding_refused [OF found, of r _ err w''] g(1)
    by (simp add: Reconcile_def addFinalizer_def Let_def)
  have active: "Reconcile r deps req w = reconcileActive r deps req ?san ?b w''" if "e = None"
  proof -
    have af: "addFinalizer r b w' = ((None, ?b), w'')"
      using assms(3,4) that by (simp add: addFinalizer_def Let_def)
    show ?thesis by (rule Reconcile_active [OF assms(1,2) af])
  qed
  have accepted: "hasFinalizer ?ns ?n w''
        \<and> hasFinalizer ?ns ?n (snd (Reconcile r deps req w))
        \<and> prefix (calls w @ [Get_AcrPullBinding ?ns ?n, Update_AcrPullBinding ?ns ?n,
                              code_selector r (Spec b)])
             (calls (snd (Reconcile r deps req w)))" if "e = None"
  proof -
    note u = Update_AcrPullBinding_accepted [OF found assms(4) [unfolded that]]
    have h: "hasFinalizer ?ns ?n w''"
      by (simp add: hasFinalizer_def u(1))
    have c: "calls w'' = calls w @ [Get_AcrPullBinding ?ns ?n, Update_AcrPullBinding ?ns ?n]"
      by (simp add: u(2) g(1) prim_defs)
    from calls_reconcileActive [of w'' r ?b deps req] h c show ?thesis
      by (simp add: active [OF that] hasFinalizer_reconcileActive)
  qed
  have success: "Reconcile r deps req w
            = (Return \<lparr>Requeue = False,
                       RequeueAfter = getTokenRefreshDuration (Now deps (Suc (clock w))) tok\<rparr>
                 None,
               w_status\<lparr>clock := Suc (Suc (clock w))\<rparr>)
        \<and> (\<exists>c cs. isSecretWrite c
              \<and> (cs = [] \<or> cs = [Update_ServiceAccount ?ns ?san])
              \<and> calls (snd (Reconcile r deps req w))
                = calls w @ [Get_AcrPullBinding ?ns ?n, Update_AcrPullBinding ?ns ?n,
                             code_selector r (Spec b), List_Secret ?ns ?n, c,
                             Get_ServiceAccount ?ns ?san]
                  @ cs @ [Status_Update_AcrPullBinding ?ns ?n])
        \<and> (\<exists>s\<in>set (secrets (snd (Reconcile r deps req w))).
              newBasePullSecret deps ?b cfg = Inr s
              \<or> (\<exists>old\<in>set (secrets w). updatePullSecret old cfg = Some s))
        \<and> hasPullSecretRef ?ns ?san (getPullSecretName ?n) (snd (Reconcile r deps req w))
        \<and> storedStatus ?ns ?n (snd (Reconcile r deps req w))
          = Some \<lparr>LastTokenRefreshTime = Some (Now deps (clock w)),
                  TokenExpirationTime = Some (ExpiresOn tok), Error' = []\<rparr>"
    if ok: "e = None"
      and token: "acquireToken r ?b w'' = ((tok, None), w_token)"
      and config: "CreateACRDockerCfg deps (snd (snd (specOrDefault r (Spec b)))) tok = Inr cfg"
      and secret: "reconcilePullSecret r deps req ?b cfg w_token = (None, w_secret)"
      and account: "updateServiceAccount r ?b req ?san w_secret = (None, w_account)"
      and status: "setSuccessStatus r deps ?b tok w_account = ((None, b''), w_status)"
  proof -
    note u = Update_AcrPullBinding_accepted [OF found assms(4) [unfolded ok]]
    have start: "calls w'' = calls w @ [Get_AcrPullBinding ?ns ?n, Update_AcrPullBinding ?ns ?n]"
      "secrets w'' = secrets w" "clock w'' = clock w"
      by (simp_all add: u g(1) prim_defs)
    have t: "w_token = record_call (code_selector r (Spec b)) w''"
      using acquireToken_state [OF token] by simp
    note s = reconcilePullSecret_done [OF secret]
    note a = updateServiceAccount_done [OF account]
    have named': "is_named ?ns ?n (BindingMeta ?b)" using named by (simp add: is_named_def)
    note st = setSuccessStatus_done [OF status named']
    have name: "Name (BindingMeta b) = ?n" using named by (simp add: is_named_def)
    have clk: "clock w_account = clock w" "clock w_status = Suc (clock w)"
      by (simp_all add: st(5) a(5) s(5) t start(3) prim_defs)
    have result: "Reconcile r deps req w
            = (Return \<lparr>Requeue = False,
                       RequeueAfter = getTokenRefreshDuration (Now deps (Suc (clock w))) tok\<rparr>
                 None,
               w_status\<lparr>clock := Suc (Suc (clock w))\<rparr>)"
      using token config secret account status clk
      by (simp add: active [OF ok] reconcileActive_def time_Now_def)
    from s(1) obtain c where c: "isSecretWrite c"
      "calls w_secret = calls w_token @ [List_Secret ?ns ?n, c]"
      by blast
    from a(1) obtain cs where cs: "cs = [] \<or> cs = [Update_ServiceAccount ?ns ?san]"
      "calls w_account = calls w_secret @ [Get_ServiceAccount ?ns ?san] @ cs"
      by blast
    have trace: "calls w_status
        = calls w @ [Get_AcrPullBinding ?ns ?n, Update_AcrPullBinding ?ns ?n,
                     code_selector r (Spec b), List_Secret ?ns ?n, c,
                     Get_ServiceAccount ?ns ?san]
          @ cs @ [Status_Update_AcrPullBinding ?ns ?n]"
      by (simp add: st(1) cs(2) c(2) t start(1) prim_defs)
    from s(2) obtain x where x: "x \<in> set (secrets w_secret)"
      "newBasePullSecret deps ?b cfg = Inr x
       \<or> (\<exists>old\<in>set (secrets w_token). updatePullSecret old cfg = Some x)"
      by blast
    have sec: "secrets w_status = secrets w_secret" "secrets w_token = secrets w"
      by (simp_all add: st(3) a(4) t start(2) prim_defs)
    have stored: "\<exists>s\<in>set (secrets w_status).
        newBasePullSecret deps ?b cfg = Inr s
        \<or> (\<exists>old\<in>set (secrets w). updatePullSecret old cfg = Some s)"
      using x by (auto simp: sec)
    have attached: "hasPullSecretRef ?ns ?san (getPullSecretName ?n) w_status"
      using a(2) by (simp add: hasPullSecretRef_def st(4) name)
    have written: "storedStatus ?ns ?n w_status
        = Some \<lparr>LastTokenRefreshTime = Some (Now deps (clock w)),
                TokenExpirationTime = Some (ExpiresOn tok), Error' = []\<rparr>"
      by (simp add: st(2) clk(1))
    have fin: "calls (snd (Reconcile r deps req w)) = calls w_status"
      "secrets (snd (Reconcile r deps req w)) = secrets w_status"
      "hasPullSecretRef ?ns ?san (getPullSecretName ?n) (snd (Reconcile r deps req w))
       = hasPullSecretRef ?ns ?san (getPullSecretName ?n) w_status"
      "storedStatus ?ns ?n (snd (Reconcile r deps req w)) = storedStatus ?ns ?n w_status"
      by (simp_all add: result hasPullSecretRef_def storedStatus_def)
    from c(1) cs(1) trace have "\<exists>c cs. isSecretWrite c
        \<and> (cs = [] \<or> cs = [Update_ServiceAccount ?ns ?san])
        \<and> calls (snd (Reconcile r deps req w))
          = calls w @ [Get_AcrPullBinding ?ns ?n, Update_AcrPullBinding ?ns ?n,
                       code_selector r (Spec b), List_Secret ?ns ?n, c,
                       Get_ServiceAccount ?ns ?san]
            @ cs @ [Status_Update_AcrPullBinding ?ns ?n]"
      unfolding fin(1) by blast
    with result stored attached written show ?thesis
      unfolding fin by blast
  qed
  from refused accepted success show ?thesis by blast
qed

text \<open>The example binding, with a store that refuses the update and with one that accepts
  it and serves every later request.\<close>

theorem Reconcile_adds_finalizer_witness:
  "Reconcile ex_reconciler_update_refused ex_deps ex_request ex_cluster
     = (Return Result_zero (Some (StatusError ''conflict'')),
        ex_cluster\<lparr>calls := [Get_AcrPullBinding ''ns1'' ''b1'', Update_AcrPullBinding ''ns1'' ''b1''],
                   logs := [LogError (StatusError ''conflict'')
                              ''Failed to append acr pull binding finalizer'']\<rparr>)
   \<and> hasFinalizer ''ns1'' ''b1'' (snd (Reconcile ex_reconciler ex_deps ex_request ex_cluster))
   \<and> prefix [Get_AcrPullBinding ''ns1'' ''b1'', Update_AcrPullBinding ''ns1'' ''b1'',
              Auth_WithClientID ''default-client'' ''r.azurecr.io'']
        (calls (snd (Reconcile ex_reconciler ex_deps ex_request ex_cluster)))
   \<and> fst (Reconcile ex_reconciler ex_deps ex_request ex_cluster)
       = Return \<lparr>Requeue = False, RequeueAfter = getTokenRefreshDuration ex_now ex_token\<rparr> None
   \<and> last (calls (snd (Reconcile ex_reconciler ex_deps ex_request ex_cluster)))
       = Status_Update_AcrPullBinding ''ns1'' ''b1''
   \<and> hasPullSecretRef ''ns1'' ''default'' ''b1-msi-acrpull-secret''
        (snd (Reconcile ex_reconciler ex_deps ex_request ex_cluster))
   \<and> storedStatus ''ns1'' ''b1'' (snd (Reconcile ex_reconciler ex_deps ex_request ex_cluster))
       = Some \<lparr>LastTokenRefreshTime = Some ex_now,
               TokenExpirationTime = Some (ExpiresOn ex_token), Error' = []\<rparr>"
proof -
  let ?w' = "record_call (Get_AcrPullBinding ''ns1'' ''b1'') ex_cluster"
  let ?b = "ex_binding\<lparr>BindingMeta := (BindingMeta ex_binding)
              \<lparr>Finalizers := Finalizers (BindingMeta ex_binding) @ [msiAcrPullFinalizerName]\<rparr>\<rparr>"
  let ?w'' = "ex_cluster\<lparr>bindings := [?b],
           calls := [Get_AcrPullBinding ''ns1'' ''b1'', Update_AcrPullBinding ''ns1'' ''b1'']\<rparr>"
  let ?cfg = "''r.azurecr.io:acr-token''"
  let ?san = "getServiceAccountName (ServiceAccountName (Spec ex_binding))"
  let ?token = "snd (acquireToken ex_reconciler ?b ?w'')"
  let ?secret = "snd (reconcilePullSecret ex_reconciler ex_deps ex_request ?b ?cfg ?token)"
  let ?account = "snd (updateServiceAccount ex_reconciler ?b ex_request ?san ?secret)"
  let ?status = "setSuccessStatus ex_reconciler ex_deps ?b ex_token ?account"
  have g: "client_Get_AcrPullBinding r (ReqNamespace ex_request) (ReqName ex_request) ex_cluster
           = (Inr ex_binding, ?w')"
    if "Client r (Get_AcrPullBinding ''ns1'' ''b1'') = None" for r
    using that by (simp add: store_defs ex_defs Let_def)
  have z: "IsZero (DeletionTimestamp (BindingMeta ex_binding))"
    by (simp add: IsZero_def ex_defs)
  have nf: "msiAcrPullFinalizerName \<notin> set (Finalizers (BindingMeta ex_binding))"
    by (simp add: ex_defs)
  have refused: "client_Update_AcrPullBinding ex_reconciler_update_refused ?b ?w'
      = (Some (StatusError ''conflict''), record_call (Update_AcrPullBinding ''ns1'' ''b1'') ?w')"
    by (simp add: store_defs ex_defs Let_def)
  have accepted: "client_Update_AcrPullBinding ex_reconciler ?b ?w' = (None, ?w'')"
    by (simp add: store_defs ex_defs Let_def)
  have c: "code_selector ex_reconciler (Spec ex_binding)
     = Auth_WithClientID ''default-client'' ''r.azurecr.io''"
    by (simp add: code_selector_def ex_defs)
  have token: "acquireToken ex_reconciler ?b ?w'' = ((ex_token, None), ?token)"
    by (simp add: acquireToken_def specOrDefault_def ex_reconciler_def ex_auth_def
          ex_binding_def Let_def)
  have config: "CreateACRDockerCfg ex_deps
      (snd (snd (specOrDefault ex_reconciler (Spec ex_binding)))) ex_token = Inr ?cfg"
    by (simp add: specOrDefault_def ex_defs Let_def)
  have secret: "reconcilePullSecret ex_reconciler ex_deps ex_request ?b ?cfg ?token
      = (None, ?secret)"
    by (simp add: rec_defs store_defs const_defs ex_defs path_Clean_def Let_def)
  have account: "updateServiceAccount ex_reconciler ?b ex_request ?san ?secret
      = (None, ?account)"
    by (simp add: rec_defs store_defs const_defs ex_defs path_Clean_def Let_def)
  have status: "?status = ((None, snd (fst ?status)), snd ?status)"
    by (simp add: rec_defs store_defs const_defs ex_defs path_Clean_def Let_def)
  have san: "?san = ''default''" "getPullSecretName (ReqName ex_request) = ''b1-msi-acrpull-secret''"
    by (simp_all add: rec_defs const_defs ex_defs)
  have a: "Reconcile ex_reconciler_update_refused ex_deps ex_request ex_cluster
     = (Return Result_zero (Some (StatusError ''conflict'')),
        ex_cluster\<lparr>calls := [Get_AcrPullBinding ''ns1'' ''b1'', Update_AcrPullBinding ''ns1'' ''b1''],
                   logs := [LogError (StatusError ''conflict'')
                              ''Failed to append acr pull binding finalizer'']\<rparr>)"
    using Reconcile_adds_finalizer [OF g z nf refused, where err = "StatusError ''conflict''"
        and deps = ex_deps]
    by (simp add: ex_reconciler_update_refused_def ex_reconciler_def ex_request_def ex_cluster_def
          prim_defs)
  have served: "client_Get_AcrPullBinding ex_reconciler (ReqNamespace ex_request)
      (ReqName ex_request) ex_cluster = (Inr ex_binding, ?w')"
    by (rule g) (simp add: ex_reconciler_def)
  note run = Reconcile_adds_finalizer [OF served z nf accepted, where deps = ex_deps
      and tok = ex_token and w_token = ?token and cfg = ?cfg and w_secret = ?secret
      and w_account = ?account and b'' = "snd (fst ?status)" and w_status = "snd ?status"]
  have b: "hasFinalizer ''ns1'' ''b1'' (snd (Reconcile ex_reconciler ex_deps ex_request ex_cluster))
   \<and> prefix [Get_AcrPullBinding ''ns1'' ''b1'', Update_AcrPullBinding ''ns1'' ''b1'',
              Auth_WithClientID ''default-client'' ''r.azurecr.io'']
        (calls (snd (Reconcile ex_reconciler ex_deps ex_request ex_cluster)))"
    using run c by (simp add: ex_reconciler_def ex_request_def ex_cluster_def)
  from run token config secret account status
  have d: "Reconcile ex_reconciler ex_deps ex_request ex_cluster
            = (Return \<lparr>Requeue = False,
                       RequeueAfter = getTokenRefreshDuration (Now ex_deps (Suc (clock ex_cluster)))
                                        ex_token\<rparr>
                 None,
               (snd ?status)\<lparr>clock := Suc (Suc (clock ex_cluster))\<rparr>)"
    and tr: "\<exists>c cs. calls (snd (Reconcile ex_reconciler ex_deps ex_request ex_cluster))
         = calls ex_cluster @ [Get_AcrPullBinding (ReqNamespace ex_request) (ReqName ex_request),
                      Update_AcrPullBinding (ReqNamespace ex_request) (ReqName ex_request),
                      code_selector ex_reconciler (Spec ex_binding),
                      List_Secret (ReqNamespace ex_request) (ReqName ex_request),
                      c,
                      Get_ServiceAccount (ReqNamespace ex_request) ?san]
           @ cs
           @ [Status_Update_AcrPullBinding (ReqNamespace ex_request) (ReqName ex_request)]"
    and at: "hasPullSecretRef (ReqNamespace ex_request) ?san
        (getPullSecretName (ReqName ex_request))
        (snd (Reconcile ex_reconciler ex_deps ex_request ex_cluster))"
    and wr: "storedStatus (ReqNamespace ex_request) (ReqName ex_request)
        (snd (Reconcile ex_reconciler ex_deps ex_request ex_cluster))
       = Some \<lparr>LastTokenRefreshTime = Some (Now ex_deps (clock ex_cluster)),
               TokenExpirationTime = Some (ExpiresOn ex_token), Error' = []\<rparr>"
    by blast+
  from d have res: "fst (Reconcile ex_reconciler ex_deps ex_request ex_cluster)
       = Return \<lparr>Requeue = False, RequeueAfter = getTokenRefreshDuration ex_now ex_token\<rparr> None"
    by (simp add: ex_deps_def)
  from tr have lst: "last (calls (snd (Reconcile ex_reconciler ex_deps ex_request ex_cluster)))
       = Status_Update_AcrPullBinding ''ns1'' ''b1''"
    by (auto simp: ex_request_def)
  from at san have ref: "hasPullSecretRef ''ns1'' ''default'' ''b1-msi-acrpull-secret''
        (snd (Reconcile ex_reconciler ex_deps ex_request ex_cluster))"
    by (simp add: ex_request_def)
  from wr have stat: "storedStatus ''ns1'' ''b1''
        (snd (Reconcile ex_reconciler ex_deps ex_request ex_cluster))
       = Some \<lparr>LastTokenRefreshTime = Some ex_now,
               TokenExpirationTime = Some (ExpiresOn ex_token), Error' = []\<rparr>"
    by (simp add: ex_request_def ex_deps_def)
  from a b res lst ref stat show ?thesis by simp
qed

text \<open>
  Claim C2 as stated fails: the example binding carries no finalizer, and the one
  reconciliation that adds it also requests the token, creates the secret, attaches it to
  the service account, writes the status and asks to be run again in an hour and a half.
\<close>

theorem Reconcile_adds_finalizer_counterexample:
  "\<not> hasFinalizer ''ns1'' ''b1'' ex_cluster
   \<and> fst (Reconcile ex_reconciler ex_deps ex_request ex_cluster)
       = Return \<lparr>Requeue = False, RequeueAfter = 5400 * Second\<rparr> None
   \<and> calls (snd (Reconcile ex_reconciler ex_deps ex_request ex_cluster))
       = [Get_AcrPullBinding ''ns1'' ''b1'',
          Update_AcrPullBinding ''ns1'' ''b1'',
          Auth_WithClientID ''default-client'' ''r.azurecr.io'',
          List_Secret ''ns1'' ''b1'',
          Create_Secret ''ns1'' ''b1-msi-acrpull-secret'',
          Get_ServiceAccount ''ns1'' ''default'',
          Update_ServiceAccount ''ns1'' ''default'',
          Status_Update_AcrPullBinding ''ns1'' ''b1'']
   \<and> map (\<lambda>s. Name (SecretMeta s)) (secrets (snd (Reconcile ex_reconciler ex_deps ex_request ex_cluster)))
       = [''b1-msi-acrpull-secret'']
   \<and> map ImagePullSecrets (serviceAccounts (snd (Reconcile ex_reconciler ex_deps ex_request ex_cluster)))
       = [[\<lparr>RefName = ''b1-msi-acrpull-secret''\<rparr>]]"
  by (simp add: rec_defs store_defs const_defs ex_defs path_Clean_def Let_def hasFinalizer_def
        getTokenRefreshDuration_def time_defs)

section \<open>Properties of the status writes\<close>

text \<open>
  Claim C3, as amended. For an Active binding past \<^verbatim>\<open>addFinalizer\<close>: when the token
  acquisition fails, the cycle ends with the acquisition's error whatever becomes of the
  status write, and a failure of that write is logged after it. When the token is
  acquired, the secret written and the service account attached, a failure of the status
  write is logged and is what the cycle returns, with the zero Result.
\<close>

theorem Reconcile_status_write_failure:
  assumes "client_Get_AcrPullBinding r (ReqNamespace req) (ReqName req) w = (Inr b, w')"
      and "IsZero (DeletionTimestamp (BindingMeta b))"
      and "addFinalizer r b w' = ((None, b'), w'')"
  shows "(acquireToken r b' w'' = ((tok, Some err), v)
          \<longrightarrow> fst (Reconcile r deps req w) = Return Result_zero (Some err)
              \<and> (setErrStatus r err b' (log_Error err ''Failed to get ACR access token'' v)
                     = ((Some err', b''), v')
                   \<longrightarrow> snd (Reconcile r deps req w)
                       = log_Error err' ''Failed to update error status'' v'))
       \<and> (acquireToken r b' w'' = ((tok, None), v)
            \<and> CreateACRDockerCfg deps (snd (snd (specOrDefault r (Spec b')))) tok = Inr dockerConfig
            \<and> reconcilePullSecret r deps req b' dockerConfig v = (None, u)
            \<and> updateServiceAccount r b' req
                 (getServiceAccountName (ServiceAccountName (Spec b))) u = (None, u')
            \<and> setSuccessStatus r deps b' tok u' = ((Some err, b''), u'')
          \<longrightarrow> Reconcile r deps req w
              = (Return Result_zero (Some err),
                 log_Error err ''Failed to update acr binding status'' u''))"
proof -
  note eq = Reconcile_active [OF assms, of deps]
  have failed: "fst (Reconcile r deps req w) = Return Result_zero (Some err)"
    if "acquireToken r b' w'' = ((tok, Some err), v)"
    using that by (simp add: eq reconcileActive_def split: splits)
  have logged: "snd (Reconcile r deps req w) = log_Error err' ''Failed to update error status'' v'"
    if "acquireToken r b' w'' = ((tok, Some err), v)"
      and "setErrStatus r err b' (log_Error err ''Failed to get ACR access token'' v)
             = ((Some err', b''), v')"
    using that by (simp add: eq reconcileActive_def)
  have success: "Reconcile r deps req w
      = (Return Result_zero (Some err), log_Error err ''Failed to update acr binding status'' u'')"
    if "acquireToken r b' w'' = ((tok, None), v)"
      and "CreateACRDockerCfg deps (snd (snd (specOrDefault r (Spec b')))) tok = Inr dockerConfig"
      and "reconcilePullSecret r deps req b' dockerConfig v = (None, u)"
      and "updateServiceAccount r b' req
             (getServiceAccountName (ServiceAccountName (Spec b))) u = (None, u')"
      and "setSuccessStatus r deps b' tok u' = ((Some err, b''), u'')"
    using that by (simp add: eq reconcileActive_def)
  from failed logged success show ?thesis by blast
qed

text \<open>
  Claim C3 as stated fails: with a store that serves every request the cycle succeeds and
  asks to be run again in an hour and a half; with the same store refusing only the
  status update, the secret is still created, and the cycle returns the store's error.
\<close>

theorem Reconcile_status_write_failure_counterexample:
  "fst (Reconcile ex_reconciler ex_deps ex_request ex_cluster_active)
     = Return \<lparr>Requeue = False, RequeueAfter = 5400 * Second\<rparr> None
   \<and> fst (Reconcile ex_reconciler_status_refused ex_deps ex_request ex_cluster_active)
     = Return Result_zero (Some (StatusError ''conflict''))
   \<and> map (\<lambda>s. Name (SecretMeta s))
       (secrets (snd (Reconcile ex_reconciler_status_refused ex_deps ex_request ex_cluster_active)))
     = [''b1-msi-acrpull-secret'']
   \<and> logs (snd (Reconcile ex_reconciler_status_refused ex_deps ex_request ex_cluster_active))
     = [LogInfo ''Creating new pull secret'', LogInfo ''Updating default service account'',
        LogError (StatusError ''conflict'') ''Failed to update acr binding status'']"
  by (simp add: rec_defs store_defs const_defs ex_defs path_Clean_def Let_def
        getTokenRefreshDuration_def time_defs)


text \<open>Both cases on the example cluster, with a store that refuses the status update.\<close>

theorem Reconcile_status_write_failure_witness:
  "Reconcile ex_reconciler_denied ex_deps ex_request ex_cluster_active
     = (Return Result_zero (Some (Error ''denied'')),
        ex_cluster_active
          \<lparr>calls := [Get_AcrPullBinding ''ns1'' ''b1'',
                     Auth_WithClientID ''default-client'' ''r.azurecr.io'',
                     Status_Update_AcrPullBinding ''ns1'' ''b1''],
           logs := [LogError (Error ''denied'') ''Failed to get ACR access token'',
                    LogError (StatusError ''conflict'') ''Failed to update error status'']\<rparr>)
   \<and> fst (Reconcile ex_reconciler_status_refused ex_deps ex_request ex_cluster_active)
     = Return Result_zero (Some (StatusError ''conflict''))
   \<and> logs (snd (Reconcile ex_reconciler_status_refused ex_deps ex_request ex_cluster_active))
     = [LogInfo ''Creating new pull secret'', LogInfo ''Updating default service account'',
        LogError (StatusError ''conflict'') ''Failed to update acr binding status'']"
proof -
  let ?w' = "record_call (Get_AcrPullBinding ''ns1'' ''b1'') ex_cluster_active"
  have g: "client_Get_AcrPullBinding r (ReqNamespace ex_request) (ReqName ex_request)
             ex_cluster_active = (Inr ex_binding_active, ?w')"
    if "Client r (Get_AcrPullBinding ''ns1'' ''b1'') = None" for r
    using that by (simp add: store_defs ex_defs Let_def)
  have z: "IsZero (DeletionTimestamp (BindingMeta ex_binding_active))"
    by (simp add: IsZero_def ex_defs)
  have a: "addFinalizer r ex_binding_active ?w' = ((None, ex_binding_active), ?w')" for r
    by (simp add: addFinalizer_def ex_defs const_defs)
  let ?v = "record_call (Auth_WithClientID ''default-client'' ''r.azurecr.io'') ?w'"
  txt \<open>The authorizer fails and the store refuses the status update.\<close>
  have denied: "acquireToken ex_reconciler_denied ex_binding_active ?w'
      = ((AccessToken_zero, Some (Error ''denied'')), ?v)"
    by (simp add: acquireToken_def specOrDefault_def path_Clean_def ex_defs Let_def)
  let ?v' = "record_call (Status_Update_AcrPullBinding ''ns1'' ''b1'')
               (log_Error (Error ''denied'') ''Failed to get ACR access token'' ?v)"
  have unwritten: "setErrStatus ex_reconciler_denied (Error ''denied'') ex_binding_active
        (log_Error (Error ''denied'') ''Failed to get ACR access token'' ?v)
      = ((Some (StatusError ''conflict''),
          ex_binding_active\<lparr>Status := (Status ex_binding_active)\<lparr>Error' := ''denied''\<rparr>\<rparr>), ?v')"
    by (simp add: setErrStatus_def store_defs ex_defs Let_def)
  have first: "Reconcile ex_reconciler_denied ex_deps ex_request ex_cluster_active
     = (Return Result_zero (Some (Error ''denied'')),
        log_Error (StatusError ''conflict'') ''Failed to update error status'' ?v')"
    using Reconcile_status_write_failure [OF g z a, where deps = ex_deps
        and r = ex_reconciler_denied and tok = AccessToken_zero and err = "Error ''denied''"
        and v = ?v and err' = "StatusError ''conflict''" and v' = ?v'
        and b'' = "ex_binding_active\<lparr>Status := (Status ex_binding_active)\<lparr>Error' := ''denied''\<rparr>\<rparr>"]
      denied unwritten
    by (simp add: prod_eq_iff ex_reconciler_denied_def ex_reconciler_status_refused_def
          ex_reconciler_def)
  txt \<open>The token is issued, the secret created and attached; the status update is refused.\<close>
  have issued: "acquireToken ex_reconciler_status_refused ex_binding_active ?w'
      = ((ex_token, None), ?v)"
    by (simp add: acquireToken_def specOrDefault_def path_Clean_def ex_defs Let_def)
  have cfg: "CreateACRDockerCfg ex_deps
      (snd (snd (specOrDefault ex_reconciler_status_refused (Spec ex_binding_active)))) ex_token
      = Inr ''r.azurecr.io:acr-token''"
    by (simp add: specOrDefault_def path_Clean_def ex_defs Let_def)
  let ?secret = "\<lparr>SecretMeta = (ex_meta ''ns1'' ''b1-msi-acrpull-secret'')
                    \<lparr>OwnerReferences := [ex_owner ex_binding_active]\<rparr>,
                  SecretType = SecretTypeDockerConfigJson,
                  Data = Some [dockerConfigKey \<mapsto> ''r.azurecr.io:acr-token'']\<rparr>"
  let ?u = "ex_cluster_active
      \<lparr>secrets := [?secret],
       calls := [Get_AcrPullBinding ''ns1'' ''b1'',
                 Auth_WithClientID ''default-client'' ''r.azurecr.io'',
                 List_Secret ''ns1'' ''b1'', Create_Secret ''ns1'' ''b1-msi-acrpull-secret''],
       logs := [LogInfo ''Creating new pull secret'']\<rparr>"
  let ?u' = "?u
      \<lparr>serviceAccounts := [ex_serviceAccount_attached],
       calls := calls ?u @ [Get_ServiceAccount ''ns1'' ''default'',
                            Update_ServiceAccount ''ns1'' ''default''],
       logs := [LogInfo ''Creating new pull secret'', LogInfo ''Updating default service account'']\<rparr>"
  let ?u'' = "?u'\<lparr>calls := calls ?u' @ [Status_Update_AcrPullBinding ''ns1'' ''b1''], clock := 1\<rparr>"
  let ?b'' = "ex_binding_active\<lparr>Status :=
      \<lparr>LastTokenRefreshTime = Some ex_now, TokenExpirationTime = Some (ExpiresOn ex_token),
       Error' = []\<rparr>\<rparr>"
  have secret: "reconcilePullSecret ex_reconciler_status_refused ex_deps ex_request
      ex_binding_active ''r.azurecr.io:acr-token'' ?v = (None, ?u)"
    by (simp add: reconcilePullSecret_def newBasePullSecret_def getPullSecret_def
          getPullSecretName_def store_defs const_defs ex_defs Let_def)
  have attach: "updateServiceAccount ex_reconciler_status_refused ex_binding_active
      ex_request (getServiceAccountName (ServiceAccountName (Spec ex_binding_active))) ?u
      = (None, ?u')"
    by (simp add: updateServiceAccount_def appendImagePullSecretRef_def getPullSecretName_def
          getServiceAccountName_def store_defs const_defs ex_defs Let_def)
  have status: "setSuccessStatus ex_reconciler_status_refused ex_deps
      ex_binding_active ex_token ?u' = ((Some (StatusError ''conflict''), ?b''), ?u'')"
    by (simp add: setSuccessStatus_def store_defs ex_defs Let_def)
  have second: "Reconcile ex_reconciler_status_refused ex_deps ex_request ex_cluster_active
     = (Return Result_zero (Some (StatusError ''conflict'')),
        log_Error (StatusError ''conflict'') ''Failed to update acr binding status'' ?u'')"
    using Reconcile_status_write_failure [OF g z a, where deps = ex_deps
        and r = ex_reconciler_status_refused and tok = ex_token and v = ?v
        and dockerConfig = "''r.azurecr.io:acr-token''" and u = ?u and u' = ?u'
        and err = "StatusError ''conflict''" and b'' = ?b'' and u'' = ?u'']
      issued cfg secret attach status
    by (simp add: ex_reconciler_status_refused_def ex_reconciler_def)
  from first second show ?thesis
    by (simp add: prim_defs ex_cluster_active_def ex_cluster_def)
qed

section \<open>Properties of the finalization\<close>

text \<open>
  Claim C9. When a binding that is being deleted carries the finalizer and the get of its
  service account answers NotFound, the reconciliation goes on: it sends the update of
  the binding without the finalizer, and once the store has accepted it the cycle returns
  no error and the zero Result; the stored binding is the one fetched with the finalizer
  removed, and no service account and no secret has changed.
\<close>

theorem Reconcile_finalize_missing_serviceAccount:
  assumes "client_Get_AcrPullBinding r (ReqNamespace req) (ReqName req) w = (Inr b, w')"
      and "\<not> IsZero (DeletionTimestamp (BindingMeta b))"
      and "msiAcrPullFinalizerName \<in> set (Finalizers (BindingMeta b))"
      and "client_Get_ServiceAccount r (ReqNamespace req)
             (getServiceAccountName (ServiceAccountName (Spec b))) w' = (Inl err, w'')"
      and "IsNotFound err"
      and "client_Update_AcrPullBinding r
             (b\<lparr>BindingMeta := (BindingMeta b)
                  \<lparr>Finalizers := filter (\<lambda>s. s \<noteq> msiAcrPullFinalizerName)
                                  (Finalizers (BindingMeta b))\<rparr>\<rparr>)
             (log_Info ''Service account is not found. Continue removing finalizer'' w'')
           = (None, v)"
  shows "Reconcile r deps req w = (Return Result_zero None, v)
       \<and> find (\<lambda>b. is_named (ReqNamespace req) (ReqName req) (BindingMeta b)) (bindings v)
           = Some (b\<lparr>BindingMeta := (BindingMeta b)
                       \<lparr>Finalizers := filter (\<lambda>s. s \<noteq> msiAcrPullFinalizerName)
                                       (Finalizers (BindingMeta b))\<rparr>\<rparr>)
       \<and> \<not> hasFinalizer (ReqNamespace req) (ReqName req) v
       \<and> serviceAccounts v = serviceAccounts w
       \<and> secrets v = secrets w
       \<and> calls v = calls w @ [Get_AcrPullBinding (ReqNamespace req) (ReqName req),
                               Get_ServiceAccount (ReqNamespace req)
                                 (getServiceAccountName (ServiceAccountName (Spec b))),
                               Update_AcrPullBinding (ReqNamespace req) (ReqName req)]"
proof -
  let ?ns = "ReqNamespace req" and ?n = "ReqName req"
  let ?info = "''Service account is not found. Continue removing finalizer''"
  note g = got_AcrPullBinding [OF assms(1)]
  have w'': "w'' = record_call (Get_ServiceAccount ?ns
                     (getServiceAccountName (ServiceAccountName (Spec b)))) w'"
    using assms(4) by (auto simp: client_Get_ServiceAccount_def split: splits)
  have found: "find (\<lambda>b. is_named ?ns ?n (BindingMeta b)) (bindings (log_Info ?info w'')) = Some b"
    using g(2) by (simp add: g(1) w'' prim_defs)
  note u = Update_AcrPullBinding_accepted [OF found assms(6)]
  have run: "Reconcile r deps req w = (Return Result_zero None, v)"
    using assms by (simp add: Reconcile_def removeFinalizer_def removeFinalizer_update_def Let_def)
  have gone: "\<not> hasFinalizer ?ns ?n v"
    by (simp add: hasFinalizer_def u(1))
  show ?thesis
    using run gone u by (simp add: g(1) w'' prim_defs)
qed

text \<open>The example binding under deletion, in a cluster without service accounts.\<close>

theorem Reconcile_finalize_missing_serviceAccount_witness:
  "serviceAccounts ex_cluster_deleting = []
   \<and> Reconcile ex_reconciler ex_deps ex_request ex_cluster_deleting
     = (Return Result_zero None,
        ex_cluster_deleting
          \<lparr>bindings := [ex_binding_deleting\<lparr>BindingMeta :=
                          (BindingMeta ex_binding_deleting)\<lparr>Finalizers := []\<rparr>\<rparr>],
           calls := [Get_AcrPullBinding ''ns1'' ''b1'', Get_ServiceAccount ''ns1'' ''default'',
                     Update_AcrPullBinding ''ns1'' ''b1''],
           logs := [LogInfo ''Service account is not found. Continue removing finalizer'']\<rparr>)"
proof -
  let ?w' = "record_call (Get_AcrPullBinding ''ns1'' ''b1'') ex_cluster_deleting"
  let ?w'' = "record_call (Get_ServiceAccount ''ns1'' ''default'') ?w'"
  let ?v = "ex_cluster_deleting
          \<lparr>bindings := [ex_binding_deleting\<lparr>BindingMeta :=
                          (BindingMeta ex_binding_deleting)\<lparr>Finalizers := []\<rparr>\<rparr>],
           calls := [Get_AcrPullBinding ''ns1'' ''b1'', Get_ServiceAccount ''ns1'' ''default'',
                     Update_AcrPullBinding ''ns1'' ''b1''],
           logs := [LogInfo ''Service account is not found. Continue removing finalizer'']\<rparr>"
  have g: "client_Get_AcrPullBinding ex_reconciler (ReqNamespace ex_request) (ReqName ex_request)
             ex_cluster_deleting = (Inr ex_binding_deleting, ?w')"
    by (simp add: store_defs ex_defs Let_def)
  have d: "\<not> IsZero (DeletionTimestamp (BindingMeta ex_binding_deleting))"
    by (simp add: IsZero_def ex_defs time_defs)
  have f: "msiAcrPullFinalizerName \<in> set (Finalizers (BindingMeta ex_binding_deleting))"
    by (simp add: ex_defs)
  have s: "client_Get_ServiceAccount ex_reconciler (ReqNamespace ex_request)
             (getServiceAccountName (ServiceAccountName (Spec ex_binding_deleting))) ?w'
           = (Inl (StatusNotFound ''default''), ?w'')"
    by (simp add: store_defs getServiceAccountName_def const_defs ex_defs Let_def)
  have n: "IsNotFound (StatusNotFound ''default'')"
    by simp
  have u: "client_Update_AcrPullBinding ex_reconciler
             (ex_binding_deleting\<lparr>BindingMeta := (BindingMeta ex_binding_deleting)
                  \<lparr>Finalizers := filter (\<lambda>s. s \<noteq> msiAcrPullFinalizerName)
                                  (Finalizers (BindingMeta ex_binding_deleting))\<rparr>\<rparr>)
             (log_Info ''Service account is not found. Continue removing finalizer'' ?w'')
           = (None, ?v)"
    by (simp add: store_defs const_defs ex_defs Let_def)
  from Reconcile_finalize_missing_serviceAccount [OF g d f s n u, of ex_deps]
  show ?thesis by (simp add: ex_cluster_deleting_def)
qed

section \<open>Properties of the renewal of the pull secret\<close>

text \<open>The index that \<^verbatim>\<open>getPullSecret\<close> finds is in range, and \<^verbatim>\<open>updatePullSecret\<close> touches
  the credential entry only.\<close>

lemma getPullSecret_loop_bound:
  "getPullSecret_loop n idx items = Some found \<Longrightarrow> idx \<le> found \<and> found < idx + length items"
proof (induction items arbitrary: idx)
  case Nil
  then show ?case by simp
next
  case (Cons secret items)
  show ?case
  proof (cases "Name (SecretMeta secret) = n")
    case True
    with Cons.prems show ?thesis by simp
  next
    case False
    with Cons.prems have "getPullSecret_loop n (Suc idx) items = Some found" by simp
    from Cons.IH [OF this] show ?thesis by simp
  qed
qed

lemma getPullSecret_in_range:
  "getPullSecret b items = Some found \<Longrightarrow> found < length items"
  using getPullSecret_loop_bound [of _ 0 items found]
  by (auto simp: getPullSecret_def split: if_splits)

lemma updatePullSecret_frame:
  assumes "updatePullSecret pullSecret dockerConfig = Some pullSecret'"
  shows "SecretMeta pullSecret' = SecretMeta pullSecret"
    and "SecretType pullSecret' = SecretType pullSecret"
    and "\<exists>data. Data pullSecret = Some data
            \<and> Data pullSecret' = Some (data(dockerConfigKey \<mapsto> dockerConfig))"
  using assms by (auto simp: updatePullSecret_def split: option.splits)

text \<open>
  Whatever index \<^verbatim>\<open>getPullSecret\<close> finds, the secret handed to the store's update is the
  first of the list, with its credential entry replaced.
\<close>

lemma reconcilePullSecret_writes_first_listed:
  assumes "client_List_Secret r (ReqNamespace req) (ReqName req) w = (Inr items, w')"
      and "getPullSecret b items = Some found"
      and "Data (items ! 0) = Some data"
  shows "reconcilePullSecret r deps req b dockerConfig w =
     (case client_Update_Secret r
             ((items ! 0)\<lparr>Data := Some (data(dockerConfigKey \<mapsto> dockerConfig))\<rparr>)
             (log_Info ''Updating existing pull secret'' w') of
        (Some err, v) \<Rightarrow>
          (Some (Return Result_zero (Some err)), log_Error err ''Failed to update pull secret'' v)
      | (None, v) \<Rightarrow> (None, v))"
  using assms by (simp add: reconcilePullSecret_def updatePullSecret_def)

text \<open>
  Claim C7 fails on the code. The binding controls two secrets, and the derived pull
  secret is listed second: \<^verbatim>\<open>getPullSecret\<close> finds it at index 1, but the credential is
  written into the secret at index 0. The other secret gains a credential entry, and the
  pull secret keeps the old token.
\<close>

theorem Reconcile_updates_first_listed_secret:
  "getPullSecret ex_binding_active [ex_other_secret, ex_pull_secret] = Some 1
   \<and> fst (Reconcile ex_reconciler ex_deps ex_request ex_cluster_two_secrets)
     = Return \<lparr>Requeue = False, RequeueAfter = 5400 * Second\<rparr> None
   \<and> secrets (snd (Reconcile ex_reconciler ex_deps ex_request ex_cluster_two_secrets))
     = [ex_other_secret\<lparr>Data := Some [''password'' \<mapsto> ''hunter2'',
                                         dockerConfigKey \<mapsto> ''r.azurecr.io:acr-token'']\<rparr>,
        ex_pull_secret]
   \<and> Data ex_pull_secret
     = Some [dockerConfigKey \<mapsto> ''r.azurecr.io:old-token'', ''note'' \<mapsto> ''keep'']"
  by (simp add: rec_defs store_defs const_defs ex_defs path_Clean_def Let_def
        getTokenRefreshDuration_def time_defs)

text \<open>When the pull secret is the only one listed, its credential entry is replaced, and its
  label and its other data entry stay.\<close>

lemma Reconcile_renews_single_secret:
  "fst (Reconcile ex_reconciler ex_deps ex_request ex_cluster_renewal)
     = Return \<lparr>Requeue = False, RequeueAfter = 5400 * Second\<rparr> None
   \<and> secrets (snd (Reconcile ex_reconciler ex_deps ex_request ex_cluster_renewal))
     = [ex_pull_secret\<lparr>Data := Some [dockerConfigKey \<mapsto> ''r.azurecr.io:acr-token'',
                                        ''note'' \<mapsto> ''keep'']\<rparr>]"
  by (simp add: rec_defs store_defs const_defs ex_defs path_Clean_def Let_def
        getTokenRefreshDuration_def time_defs fun_upd_twist)

end
